theory Spec2Isabelle
  imports Main "HOL-Library.Word"
begin

unbundle bit_operations_syntax

chapter \<open>The model\<close>

section \<open>Machine types\<close>

type_synonym u8 = "8 word"
type_synonym u16 = "16 word"
type_synonym s32 = "32 word"

section \<open>Config-block CRC\<close>

text \<open>
  The inner loop of \<^verbatim>\<open>cyttsp4_calc_partial_app_crc\<close>: one shift of the 16-bit
  register, with the polynomial \<open>0x1021\<close> folded in when bit 15 was set.
\<close>

definition crc_shift :: "u16 \<Rightarrow> u16" where
  "crc_shift crc =
     (if crc AND 0x8000 \<noteq> 0 then push_bit 1 crc XOR 0x1021 else push_bit 1 crc)"

text \<open>The body of the outer loop: \<^verbatim>\<open>crc ^= (u16)data[i] << 8\<close>, then eight shifts
  (\<^verbatim>\<open>for (j = 8; j > 0; j--)\<close>).\<close>

definition crc_byte :: "u8 \<Rightarrow> u16 \<Rightarrow> u16" where
  "crc_byte b crc = (crc_shift ^^ 8) (crc XOR push_bit 8 (ucast b))"

text \<open>
  \<^verbatim>\<open>cyttsp4_calc_partial_app_crc(data, size, crc)\<close>: the bytes \<open>data[0..size-1]\<close> in
  order. The buffer is a list; the C code reads \<open>size\<close> bytes of it.
\<close>

definition cyttsp4_calc_partial_app_crc :: "u8 list \<Rightarrow> nat \<Rightarrow> u16 \<Rightarrow> u16" where
  "cyttsp4_calc_partial_app_crc data sz crc = fold crc_byte (take sz data) crc"

definition cyttsp4_calc_app_crc :: "u8 list \<Rightarrow> nat \<Rightarrow> u16" where
  "cyttsp4_calc_app_crc data sz = cyttsp4_calc_partial_app_crc data sz 0xFFFF"

section \<open>Touch record decoder\<close>

text \<open>
  \<^verbatim>\<open>cyttsp4_bits_2_bytes(nbits, &max)\<close> returns \<open>(nbits + 7) / 8\<close> and stores
  \<open>1UL << nbits\<close> (a 64-bit \<^verbatim>\<open>size_t\<close>) in \<open>max\<close>. The pair is (bytes, max). The shift is
  defined in C for \<open>nbits < 64\<close> only; \<open>push_bit\<close> gives 0 beyond.
\<close>

definition cyttsp4_bits_2_bytes :: "32 word \<Rightarrow> nat \<times> 64 word" where
  "cyttsp4_bits_2_bytes nbits = (unat ((nbits + 7) div 8), push_bit (unat nbits) 1)"

text \<open>One round of the loop of \<^verbatim>\<open>cyttsp4_get_touch_axis\<close>:
  \<^verbatim>\<open>*axis = (*axis * 256) + (xy_data[next] >> bofs)\<close>, in 32-bit \<^verbatim>\<open>int\<close> arithmetic
  (the kernel is built with wrapping signed overflow).\<close>

definition axis_step :: "nat \<Rightarrow> u8 \<Rightarrow> s32 \<Rightarrow> s32" where
  "axis_step bofs b axis = axis * 256 + drop_bit bofs (ucast b)"

text \<open>
  \<^verbatim>\<open>cyttsp4_get_touch_axis(cd, &axis, size, max, xy_data, bofs)\<close>: \<open>size\<close> rounds from
  \<open>*axis = 0\<close>, then \<^verbatim>\<open>*axis &= max - 1\<close>. \<open>xy_data\<close> is the buffer from the field's first
  byte on; a field that runs past its end is \<open>None\<close>. The result is the \<^verbatim>\<open>int\<close> stored in
  \<open>*axis\<close>.
\<close>

definition cyttsp4_get_touch_axis :: "nat \<Rightarrow> s32 \<Rightarrow> u8 list \<Rightarrow> nat \<Rightarrow> int option" where
  "cyttsp4_get_touch_axis sz mx xy_data bofs =
     (if length xy_data < sz then None
      else Some (sint (fold (axis_step bofs) (take sz xy_data) 0 AND (mx - 1))))"

text \<open>
  A field as the driver decodes it: \<^verbatim>\<open>cyttsp4_si_get_opcfg_data\<close> takes the field's width
  in bits from a byte of the operational-configuration block and stores
  \<open>size\<close> and \<open>max\<close> from \<^verbatim>\<open>cyttsp4_bits_2_bytes\<close>; \<^verbatim>\<open>cyttsp4_get_touch_record_\<close>
  passes them, with the bit offset, to \<^verbatim>\<open>cyttsp4_get_touch_axis\<close> (\<open>max\<close> narrowed
  to \<^verbatim>\<open>int\<close>).
\<close>

definition decode_touch_field :: "u8 \<Rightarrow> nat \<Rightarrow> u8 list \<Rightarrow> int option" where
  "decode_touch_field bits bofs xy_data =
     (case cyttsp4_bits_2_bytes (ucast bits) of
        (sz, mx) \<Rightarrow> cyttsp4_get_touch_axis sz (ucast mx) xy_data bofs)"

text \<open>
  The reference encoding of a field, which the device side produces and the driver only
  reads: the value moved up by the bit offset, written most significant byte first in
  \<open>ceil(bits/8)\<close> bytes. \<open>be_bytes n x\<close> are the low \<open>n\<close> bytes of \<open>x\<close>, big-endian.
\<close>

fun be_bytes :: "nat \<Rightarrow> nat \<Rightarrow> u8 list" where
  "be_bytes 0 x = []"
| "be_bytes (Suc n) x = be_bytes n (x div 256) @ [of_nat x]"

definition encode_touch_field :: "u8 \<Rightarrow> nat \<Rightarrow> nat \<Rightarrow> u8 list" where
  "encode_touch_field bits bofs v = be_bytes ((unat bits + 7) div 8) (v * 2 ^ bofs)"

section \<open>Driver state\<close>

text \<open>
  The enumerations of \<^verbatim>\<open>cyttsp4_regs.h\<close>, with the enumerators the core driver names
  (\<^verbatim>\<open>mode2str\<close>, \<^verbatim>\<open>ss2str\<close>, \<^verbatim>\<open>cyttsp4_core_sleep_\<close>, \<^verbatim>\<open>call_atten_cb\<close>).
\<close>

datatype cyttsp4_mode =
    CY_MODE_UNKNOWN | CY_MODE_BOOTLOADER | CY_MODE_OPERATIONAL | CY_MODE_SYSINFO
  | CY_MODE_CAT | CY_MODE_STARTUP | CY_MODE_LOADER | CY_MODE_CHANGE_MODE
  | CY_MODE_CHANGED | CY_MODE_CMD_COMPLETE

datatype cyttsp4_startup_state = STARTUP_NONE | STARTUP_QUEUED | STARTUP_RUNNING

datatype cyttsp4_sleep_state = SS_SLEEP_OFF | SS_SLEEP_ON | SS_SLEEPING | SS_WAKING

datatype cyttsp4_atten_type = CY_ATTEN_IRQ | CY_ATTEN_STARTUP | CY_ATTEN_WAKE

text \<open>
  What the driver does to the world outside \<^verbatim>\<open>struct cyttsp4_core_data\<close>, in the order
  it does it: bus transfers through \<^verbatim>\<open>cd->bus_ops\<close>, attention callbacks, work items,
  wake-ups of the wait queue, platform callbacks, delays and the watchdog timer.
\<close>

datatype event =
    Bus_read nat nat
  | Bus_write nat "u8 list"
  | Atten_cb cyttsp4_atten_type "cyttsp4_mode option"
  | Schedule_startup_work
  | Wake_up
  | Xres
  | Power_off
  | Udelay int
  | Wd_timer_start
  | Wd_timer_stop

text \<open>
  The fields of \<^verbatim>\<open>struct cyttsp4_core_data\<close> (and of its \<^verbatim>\<open>sysinfo.si_ofs\<close>) that the
  modelled functions read or write. Pointers are numbers, \<open>0\<close> is \<^verbatim>\<open>NULL\<close>.
  \<open>trace\<close> lists the events so far, the oldest first. \<open>cmds\<close> lists the commands handed
  to \<^verbatim>\<open>cyttsp4_exec_cmd\<close> so far (mode, command buffer, response size), and \<open>nwaits\<close>
  counts the waits on \<^verbatim>\<open>cd->wait_q\<close> that went to sleep; the C structure has neither.
\<close>

record core_data =
  mode :: cyttsp4_mode
  int_status :: "32 word"
  heartbeat_count :: int
  startup_state :: cyttsp4_startup_state
  sleep_state :: cyttsp4_sleep_state
  exclusive_dev :: nat
  exclusive_waits :: int
  cmd_toggle :: u8
  invalid_touch_app :: bool
  bl_fast_exit :: bool
  wake_initiated_by_device :: bool
  easy_wakeup_gesture :: u8
  si_ready :: bool
  si_cmd_ofs :: nat
  si_rep_ofs :: nat
  si_rep_hdr_size :: nat
  si_tt_stat_ofs :: nat
  si_tch_rec_size :: nat
  si_max_tchs :: nat
  xy_mode :: "u8 list option"
  trace :: "event list"
  cmds :: "(cyttsp4_mode \<times> u8 list \<times> nat) list"
  nwaits :: nat

text \<open>
  \<^verbatim>\<open>cyttsp4_regs.h\<close> is not among the sources. Its bit masks, register addresses,
  interrupt-state flags, timeouts and predicate macros are parameters of the model: the
  functions below take them in a record, and the theorems hold for every value of them.
\<close>

record cyttsp4_regs =
  CY_REG_BASE :: nat
  CY_REG_CAT_CMD :: nat
  CY_HST_TOGGLE :: u8
  CY_HST_MODE_CHANGE :: u8
  CY_HST_DEVICE_MODE :: u8
  CY_HST_OPERATE :: u8
  CY_HST_SYSINFO :: u8
  CY_HST_CAT :: u8
  CY_HST_SLEEP :: u8
  CY_HST_RESET :: u8
  CY_CMD_MASK :: u8
  CY_CMD_COMPLETE :: u8
  CY_CMD_COMPLETE_MASK :: u8
  CY_CMD_STATUS_SUCCESS :: u8
  CY_INT_IGNORE :: "32 word"
  CY_INT_MODE_CHANGE :: "32 word"
  CY_INT_EXEC_CMD :: "32 word"
  CY_INT_AWAKE :: "32 word"
  IS_BOOTLOADER :: "u8 \<Rightarrow> u8 \<Rightarrow> bool"
  IS_BOOTLOADER_IDLE :: "u8 \<Rightarrow> u8 \<Rightarrow> bool"
  IS_DEEP_SLEEP_CONFIGURED :: "u8 \<Rightarrow> bool"
  GET_TOGGLE :: "u8 \<Rightarrow> u8"
  GET_NUM_TOUCH_RECORDS :: "u8 \<Rightarrow> u8"
  CY_COMMAND_COMPLETE_TIMEOUT :: int
  CY_CORE_MODE_CHANGE_TIMEOUT :: int
  CY_CORE_RESET_AND_WAIT_TIMEOUT :: int
  CY_CORE_WAIT_SYSINFO_MODE_TIMEOUT :: int
  CY_WATCHDOG_TIMEOUT :: int
  IS_TMO :: "int \<Rightarrow> bool"

text \<open>
  The rest of the environment, on top of the header's constants:
  \<^item> \<^verbatim>\<open>cd->cpdata\<close>: \<open>level_irq_udelay\<close>, \<open>flags\<close>, whether the \<open>xres\<close> and \<open>power\<close>
    callbacks are set, and what \<open>power\<close> returns;
  \<^item> \<^verbatim>\<open>cd->bus_ops\<close>: \<open>bus_read\<close> and \<open>bus_write\<close> answer a transfer from the events
    so far, so a device may answer the same request differently each time. A read gives
    the return code and the bytes;
  \<^item> \<open>msecs_to_jiffies\<close>, the kernel's conversion of a timeout;
  \<^item> \<open>sleeper\<close>: what the other contexts (interrupt handler, work items, other callers) do
    to the driver state while a caller sleeps in its \<open>k\<close>-th wait with timeout \<open>t\<close>, and the
    time left when it wakes;
  \<^item> \<open>contender\<close>: what the other contexts do between a caller's wake-up from its \<open>k\<close>-th
    wait and its taking the system lock again;
  \<^item> \<open>stray_byte\<close>: the byte found past the end of the three-byte header the interrupt
    handler reads, should \<^verbatim>\<open>si_ofs.cmd_ofs\<close> point there.
\<close>

record platform = cyttsp4_regs +
  level_irq_udelay :: int
  cpdata_flags :: "32 word"
  has_xres :: bool
  has_power :: bool
  power_rc :: "event list \<Rightarrow> int"
  bus_read :: "event list \<Rightarrow> nat \<Rightarrow> nat \<Rightarrow> int \<times> u8 list"
  bus_write :: "event list \<Rightarrow> nat \<Rightarrow> u8 list \<Rightarrow> int"
  msecs_to_jiffies :: "int \<Rightarrow> int"
  sleeper :: "nat \<Rightarrow> int \<Rightarrow> core_data \<Rightarrow> int \<times> core_data"
  contender :: "nat \<Rightarrow> core_data \<Rightarrow> core_data"
  stray_byte :: u8

text \<open>Linux error numbers (\<^verbatim>\<open>errno-base.h\<close>, \<^verbatim>\<open>errno.h\<close>); the functions return them
  negated.\<close>

definition EIO :: int where "EIO = 5"
definition ENOMEM :: int where "ENOMEM = 12"
definition EACCES :: int where "EACCES = 13"
definition EBUSY :: int where "EBUSY = 16"
definition ENODEV :: int where "ENODEV = 19"
definition EINVAL :: int where "EINVAL = 22"
definition ENOSYS :: int where "ENOSYS = 38"
definition ETIME :: int where "ETIME = 62"

text \<open>Flags of \<^verbatim>\<open>enum cyttsp4_core_platform_flags\<close> (\<^verbatim>\<open>cyttsp4.h\<close>).\<close>

definition CY_CORE_FLAG_POWEROFF_ON_SLEEP :: "32 word" where
  "CY_CORE_FLAG_POWEROFF_ON_SLEEP = push_bit 1 1"

definition CY_CORE_FLAG_SCAN_MODE_USES_RAM_ID_SCAN_TYPE :: "32 word" where
  "CY_CORE_FLAG_SCAN_MODE_USES_RAM_ID_SCAN_TYPE = push_bit 2 1"

section \<open>Bus access\<close>

text \<open>
  \<^verbatim>\<open>cyttsp4_adap_read(cd, addr, buf, size)\<close>: the transfer is recorded, the adapter's answer
  is returned as (return code, buffer, state). The buffer has \<open>size\<close> bytes whatever the
  adapter returned.
\<close>

definition cyttsp4_adap_read ::
  "platform \<Rightarrow> core_data \<Rightarrow> nat \<Rightarrow> nat \<Rightarrow> int \<times> u8 list \<times> core_data" where
  "cyttsp4_adap_read P cd addr sz =
     (case bus_read P (trace cd) addr sz of
        (rc, bytes) \<Rightarrow>
          (rc, take sz (bytes @ replicate sz 0),
           cd\<lparr>trace := trace cd @ [Bus_read addr sz]\<rparr>))"

definition cyttsp4_adap_write ::
  "platform \<Rightarrow> core_data \<Rightarrow> nat \<Rightarrow> u8 list \<Rightarrow> int \<times> core_data" where
  "cyttsp4_adap_write P cd addr buf =
     (bus_write P (trace cd) addr buf,
      cd\<lparr>trace := trace cd @ [Bus_write addr buf]\<rparr>)"

section \<open>Handshake\<close>

text \<open>
  \<^verbatim>\<open>cyttsp4_handshake(cd, mode)\<close>: \<open>cmd = mode ^ CY_HST_TOGGLE\<close>; with the mode-change bit
  set in \<open>mode\<close> it returns 0 at once, otherwise it writes \<open>cmd\<close> to the base register and
  returns the write's code.
\<close>

definition cyttsp4_handshake :: "platform \<Rightarrow> core_data \<Rightarrow> u8 \<Rightarrow> int \<times> core_data" where
  "cyttsp4_handshake P cd md =
     (let cmd = md XOR CY_HST_TOGGLE P in
      if md AND CY_HST_MODE_CHANGE P \<noteq> 0 then (0, cd)
      else cyttsp4_adap_write P cd (CY_REG_BASE P) [cmd])"

section \<open>Waiting on the driver's wait queue\<close>

text \<open>
  \<^verbatim>\<open>wait_event_timeout(cd->wait_q, condition, timeout)\<close>, by the kernel's contract: with the
  condition already true it returns at once (the timeout, or 1 for a zero timeout); with
  a zero timeout it returns 0; otherwise the caller sleeps, the other contexts run
  (\<open>sleeper\<close>), and it returns 0 when the condition is still false at the end and at
  least 1 (the time left) when it is true.
\<close>

definition wait_event_timeout ::
  "platform \<Rightarrow> (core_data \<Rightarrow> bool) \<Rightarrow> int \<Rightarrow> core_data \<Rightarrow> int \<times> core_data" where
  "wait_event_timeout P cond timeout cd =
     (if cond cd then (if timeout = 0 then 1 else timeout, cd)
      else if timeout = 0 then (0, cd)
      else (case sleeper P (nwaits cd) timeout cd of
              (left, cd') \<Rightarrow>
                (let cd'' = cd'\<lparr>nwaits := Suc (nwaits cd)\<rparr> in
                 (if cond cd'' then max 1 (min left timeout) else 0, cd''))))"

section \<open>Command executor\<close>

text \<open>Opcodes, by their index in the name tables \<^verbatim>\<open>cy_cat_cmd_str_\<close> and
  \<^verbatim>\<open>cy_op_cmd_str_\<close> of the core driver.\<close>

definition CY_CMD_CAT_GET_CFG_ROW_SZ :: u8 where "CY_CMD_CAT_GET_CFG_ROW_SZ = 2"
definition CY_CMD_CAT_READ_CFG_BLK :: u8 where "CY_CMD_CAT_READ_CFG_BLK = 3"
definition CY_CMD_CAT_WRITE_CFG_BLK :: u8 where "CY_CMD_CAT_WRITE_CFG_BLK = 4"
definition CY_CMD_CAT_VERIFY_CFG_BLK_CRC :: u8 where "CY_CMD_CAT_VERIFY_CFG_BLK_CRC = 17"
definition CY_CMD_OP_WAIT_FOR_EVENT :: u8 where "CY_CMD_OP_WAIT_FOR_EVENT = 6"

text \<open>
  \<^verbatim>\<open>_cyttsp4_wait_cmd_exec(cd, timeout_ms)\<close> (in the names of this theory \<open>U_\<close> at
  the front stands for the leading underscore of a C name, \<open>_U\<close> at the end for the
  trailing one): wait until the command-pending flag is clear; on a timeout clear
  it and return \<open>-ETIME\<close>.
\<close>

definition U_cyttsp4_wait_cmd_exec :: "platform \<Rightarrow> core_data \<Rightarrow> int \<Rightarrow> int \<times> core_data" where
  "U_cyttsp4_wait_cmd_exec P cd timeout_ms =
     (case wait_event_timeout P (\<lambda>s. int_status s AND CY_INT_EXEC_CMD P = 0)
             (msecs_to_jiffies P timeout_ms) cd of
        (rc, cd1) \<Rightarrow>
          if IS_TMO P rc
          then (- ETIME, cd1\<lparr>int_status := int_status cd1 AND NOT (CY_INT_EXEC_CMD P)\<rparr>)
          else (0, cd1))"

text \<open>\<^verbatim>\<open>_get_cmd_offs(cd, mode)\<close>: the command register of the mode, or \<open>-EACCES\<close>.\<close>

definition U_get_cmd_offs :: "platform \<Rightarrow> core_data \<Rightarrow> cyttsp4_mode \<Rightarrow> int" where
  "U_get_cmd_offs P cd md =
     (case md of
        CY_MODE_CAT \<Rightarrow> int (CY_REG_CAT_CMD P)
      | CY_MODE_OPERATIONAL \<Rightarrow> int (si_cmd_ofs cd)
      | _ \<Rightarrow> - EACCES)"

text \<open>
  \<^verbatim>\<open>_cyttsp4_exec_cmd(cd, mode, cmd_buf, cmd_size)\<close>. The command buffer is its first byte
  \<open>cmd\<close> and the parameter bytes \<open>params\<close> (\<open>cmd_size = 1 + length params\<close>). The steps:
  the mode check; the command offset; one read of the command register; the toggle and
  the command-pending flag; \<open>-EBUSY\<close> with the completion bit clear; otherwise the
  parameters, when there are any, and then the masked opcode are written.
\<close>

definition U_cyttsp4_exec_cmd ::
  "platform \<Rightarrow> core_data \<Rightarrow> cyttsp4_mode \<Rightarrow> u8 \<Rightarrow> u8 list \<Rightarrow> int \<times> core_data" where
  "U_cyttsp4_exec_cmd P cd md cmd params =
     (if md \<noteq> mode cd then (- EACCES, cd)
      else let cmd_ofs = U_get_cmd_offs P cd md in
      if cmd_ofs < 0 then (- EACCES, cd)
      else case cyttsp4_adap_read P cd (nat cmd_ofs) 1 of
        (rc, buf, cd1) \<Rightarrow>
          if rc < 0 then (rc, cd1)
          else let command = hd buf;
                   cd2 = cd1\<lparr>cmd_toggle := GET_TOGGLE P command,
                             int_status := int_status cd1 OR CY_INT_EXEC_CMD P\<rparr> in
          if command AND CY_CMD_COMPLETE_MASK P = 0 then (- EBUSY, cd2)
          else case (if params \<noteq> []
                     then cyttsp4_adap_write P cd2 (nat (cmd_ofs + 1)) params
                     else (rc, cd2)) of
            (rc1, cd3) \<Rightarrow>
              if rc1 < 0 then (rc1, cd3)
              else case cyttsp4_adap_write P cd3 (nat cmd_ofs) [cmd AND CY_CMD_MASK P] of
                (rc2, cd4) \<Rightarrow> if rc2 < 0 then (rc2, cd4) else (0, cd4))"

text \<open>
  The part of \<^verbatim>\<open>cyttsp4_exec_cmd\<close> from \<^verbatim>\<open>if (rc < 0) return rc;\<close> on, with \<open>rc\<close> the
  result of the last \<^verbatim>\<open>_cyttsp4_exec_cmd\<close>: the wait for completion (none with
  \<open>timeout_ms = 0\<close>) and the read of the response at the command offset plus one. The
  response buffer is \<open>None\<close> for a \<^verbatim>\<open>NULL\<close> pointer.
\<close>

definition exec_cmd_response ::
  "platform \<Rightarrow> core_data \<Rightarrow> cyttsp4_mode \<Rightarrow> u8 list option \<Rightarrow> nat \<Rightarrow> int \<Rightarrow> int
     \<Rightarrow> int \<times> u8 list option \<times> core_data" where
  "exec_cmd_response P cd md return_buf return_buf_size timeout_ms rc =
     (if rc < 0 then (rc, return_buf, cd)
      else if timeout_ms = 0 then (0, return_buf, cd)
      else case U_cyttsp4_wait_cmd_exec P cd timeout_ms of
        (rcw, cd1) \<Rightarrow>
          if rcw < 0 then (rcw, return_buf, cd1)
          else if return_buf_size = 0 \<or> return_buf = None then (0, return_buf, cd1)
          else let cmd_ofs = U_get_cmd_offs P cd1 md in
          if cmd_ofs < 0 then (- EACCES, return_buf, cd1)
          else case cyttsp4_adap_read P cd1 (nat (cmd_ofs + 1)) return_buf_size of
            (rcr, buf, cd2) \<Rightarrow>
              if rcr < 0 then (rcr, Some buf, cd2) else (0, Some buf, cd2))"

text \<open>
  \<^verbatim>\<open>cyttsp4_exec_cmd(cd, mode, cmd_buf, cmd_size, return_buf, return_buf_size,
  timeout_ms)\<close>: one attempt; on \<open>-EBUSY\<close> a wait for the pending command
  (\<^verbatim>\<open>CY_COMMAND_COMPLETE_TIMEOUT\<close>) and a second attempt; then the response. The result
  is (return code, response buffer, state).
\<close>

definition cyttsp4_exec_cmd ::
  "platform \<Rightarrow> core_data \<Rightarrow> cyttsp4_mode \<Rightarrow> u8 \<Rightarrow> u8 list \<Rightarrow> u8 list option \<Rightarrow> nat \<Rightarrow> int
     \<Rightarrow> int \<times> u8 list option \<times> core_data" where
  "cyttsp4_exec_cmd P cd md cmd params return_buf return_buf_size timeout_ms =
     (let cd0 = cd\<lparr>cmds := cmds cd @ [(md, cmd # params, return_buf_size)]\<rparr> in
      case U_cyttsp4_exec_cmd P cd0 md cmd params of
        (rc, cd1) \<Rightarrow>
          if rc = - EBUSY then
            (case U_cyttsp4_wait_cmd_exec P cd1 (CY_COMMAND_COMPLETE_TIMEOUT P) of
               (rcw, cd2) \<Rightarrow>
                 if rcw \<noteq> 0 then (rcw, return_buf, cd2)
                 else case U_cyttsp4_exec_cmd P cd2 md cmd params of
                   (rc', cd3) \<Rightarrow>
                     exec_cmd_response P cd3 md return_buf return_buf_size timeout_ms rc')
          else exec_cmd_response P cd1 md return_buf return_buf_size timeout_ms rc)"

section \<open>Mode changes and resets\<close>

text \<open>\<^verbatim>\<open>cyttsp4_wait_bl_heartbeat\<close>: wait for the bootloader mode; \<open>-ETIME\<close> on a timeout.\<close>

definition cyttsp4_wait_bl_heartbeat :: "platform \<Rightarrow> core_data \<Rightarrow> int \<times> core_data" where
  "cyttsp4_wait_bl_heartbeat P cd =
     (case wait_event_timeout P (\<lambda>s. mode s = CY_MODE_BOOTLOADER)
             (msecs_to_jiffies P (CY_CORE_RESET_AND_WAIT_TIMEOUT P)) cd of
        (t, cd1) \<Rightarrow> if IS_TMO P t then (- ETIME, cd1) else (0, cd1))"

text \<open>\<^verbatim>\<open>cyttsp4_wait_sysinfo_mode\<close>: wait for the SysInfo mode; on a timeout clear the
  mode-change flag and return \<open>-ETIME\<close>.\<close>

definition cyttsp4_wait_sysinfo_mode :: "platform \<Rightarrow> core_data \<Rightarrow> int \<times> core_data" where
  "cyttsp4_wait_sysinfo_mode P cd =
     (case wait_event_timeout P (\<lambda>s. mode s = CY_MODE_SYSINFO)
             (msecs_to_jiffies P (CY_CORE_WAIT_SYSINFO_MODE_TIMEOUT P)) cd of
        (t, cd1) \<Rightarrow>
          if IS_TMO P t
          then (- ETIME, cd1\<lparr>int_status := int_status cd1 AND NOT (CY_INT_MODE_CHANGE P)\<rparr>)
          else (0, cd1))"

text \<open>\<^verbatim>\<open>cyttsp4_hw_soft_reset_\<close>, \<^verbatim>\<open>cyttsp4_hw_hard_reset_\<close> and \<^verbatim>\<open>cyttsp4_hw_reset_\<close>:
  the hard reset through the platform's \<open>xres\<close> callback, the soft reset command as the
  fallback when there is none.\<close>

definition cyttsp4_hw_soft_reset_U :: "platform \<Rightarrow> core_data \<Rightarrow> int \<times> core_data" where
  "cyttsp4_hw_soft_reset_U P cd =
     (case cyttsp4_adap_write P cd (CY_REG_BASE P) [CY_HST_RESET P] of
        (rc, cd1) \<Rightarrow> if rc < 0 then (rc, cd1) else (0, cd1))"

definition cyttsp4_hw_hard_reset_U :: "platform \<Rightarrow> core_data \<Rightarrow> int \<times> core_data" where
  "cyttsp4_hw_hard_reset_U P cd =
     (if has_xres P then (0, cd\<lparr>trace := trace cd @ [Xres]\<rparr>) else (- ENOSYS, cd))"

definition cyttsp4_hw_reset_U :: "platform \<Rightarrow> core_data \<Rightarrow> int \<times> core_data" where
  "cyttsp4_hw_reset_U P cd =
     (case cyttsp4_hw_hard_reset_U P cd of
        (rc, cd1) \<Rightarrow> if rc = - ENOSYS then cyttsp4_hw_soft_reset_U P cd1 else (rc, cd1))"

text \<open>\<^verbatim>\<open>cyttsp4_reset_and_wait\<close>: reset, mode unknown, then the wait for the heartbeat.\<close>

definition cyttsp4_reset_and_wait :: "platform \<Rightarrow> core_data \<Rightarrow> int \<times> core_data" where
  "cyttsp4_reset_and_wait P cd =
     (case cyttsp4_hw_reset_U P cd of
        (rc, cd1) \<Rightarrow>
          (let cd2 = cd1\<lparr>mode := CY_MODE_UNKNOWN\<rparr> in
           if rc < 0 then (rc, cd2) else cyttsp4_wait_bl_heartbeat P cd2))"

text \<open>
  \<^verbatim>\<open>set_mode(cd, new_mode)\<close>, in its three parts.

  The \<^verbatim>\<open>switch\<close>: the device-mode bits of Operational, SysInfo and CAT; no other mode
  is accepted.
\<close>

definition set_mode_bits :: "platform \<Rightarrow> cyttsp4_mode \<Rightarrow> u8 option" where
  "set_mode_bits P new_mode =
     (case new_mode of
        CY_MODE_OPERATIONAL \<Rightarrow> Some (CY_HST_OPERATE P)
      | CY_MODE_SYSINFO \<Rightarrow> Some (CY_HST_SYSINFO P)
      | CY_MODE_CAT \<Rightarrow> Some (CY_HST_CAT P)
      | _ \<Rightarrow> None)"

text \<open>
  The request (\<^verbatim>\<open>/* change mode */\<close>): the host mode register is read, its device-mode
  bits are replaced and the mode-change bit is set; the mode-change flag is raised and the
  register written. The result is the code of the failed transfer, or of the write.
\<close>

definition set_mode_request :: "platform \<Rightarrow> core_data \<Rightarrow> u8 \<Rightarrow> int \<times> core_data" where
  "set_mode_request P cd new_dev_mode =
     (case cyttsp4_adap_read P cd (CY_REG_BASE P) 1 of
        (rc, buf, cd1) \<Rightarrow>
          if rc < 0 then (rc, cd1)
          else let md = (hd buf AND NOT (CY_HST_DEVICE_MODE P))
                          OR (new_dev_mode OR CY_HST_MODE_CHANGE P);
                   cd2 = cd1\<lparr>int_status := int_status cd1 OR CY_INT_MODE_CHANGE P\<rparr> in
          cyttsp4_adap_write P cd2 (CY_REG_BASE P) [md])"

text \<open>
  The wait (\<^verbatim>\<open>/* wait for mode change done interrupt */\<close>) for the mode-change flag
  to clear; on a timeout the flag is cleared and the result is \<open>-EINVAL\<close>, otherwise the
  result is the code \<open>rc\<close> of the write.
\<close>

definition set_mode_wait :: "platform \<Rightarrow> core_data \<Rightarrow> int \<Rightarrow> int \<times> core_data" where
  "set_mode_wait P cd rc =
     (case wait_event_timeout P (\<lambda>s. int_status s AND CY_INT_MODE_CHANGE P = 0)
             (msecs_to_jiffies P (CY_CORE_MODE_CHANGE_TIMEOUT P)) cd of
        (t, cd1) \<Rightarrow>
          if IS_TMO P t
          then (- EINVAL, cd1\<lparr>int_status := int_status cd1 AND NOT (CY_INT_MODE_CHANGE P)\<rparr>)
          else (rc, cd1))"

definition set_mode :: "platform \<Rightarrow> core_data \<Rightarrow> cyttsp4_mode \<Rightarrow> int \<times> core_data" where
  "set_mode P cd new_mode =
     (case set_mode_bits P new_mode of
        None \<Rightarrow> (- EINVAL, cd)
      | Some new_dev_mode \<Rightarrow>
         (case set_mode_request P cd new_dev_mode of
            (rc, cd1) \<Rightarrow> if rc < 0 then (rc, cd1) else set_mode_wait P cd1 rc))"

section \<open>Exclusive access\<close>





section \<open>Interrupt handler\<close>

text \<open>\<^verbatim>\<open>cyttsp4_queue_startup\<close>: with no startup queued or running, mark one queued and
  schedule the startup work; otherwise nothing.\<close>

definition cyttsp4_queue_startup :: "core_data \<Rightarrow> core_data" where
  "cyttsp4_queue_startup cd =
     (if startup_state cd = STARTUP_NONE
      then cd\<lparr>startup_state := STARTUP_QUEUED, trace := trace cd @ [Schedule_startup_work]\<rparr>
      else cd)"

text \<open>\<^verbatim>\<open>call_atten_cb(cd, type, mode)\<close>: the subscribers are other modules; the call is
  recorded. The mode filter is \<open>None\<close> where the C code passes the literal 0.\<close>

definition call_atten_cb ::
  "core_data \<Rightarrow> cyttsp4_atten_type \<Rightarrow> cyttsp4_mode option \<Rightarrow> core_data" where
  "call_atten_cb cd ty md = cd\<lparr>trace := trace cd @ [Atten_cb ty md]\<rparr>"

text \<open>\<^verbatim>\<open>_cyttsp4_put_device_into_deep_sleep(cd, hst_mode_reg)\<close>.\<close>

definition U_cyttsp4_put_device_into_deep_sleep ::
  "platform \<Rightarrow> core_data \<Rightarrow> u8 \<Rightarrow> int \<times> core_data" where
  "U_cyttsp4_put_device_into_deep_sleep P cd hst_mode_reg =
     (case cyttsp4_adap_write P cd (CY_REG_BASE P) [hst_mode_reg OR CY_HST_SLEEP P] of
        (rc, cd1) \<Rightarrow>
          if rc \<noteq> 0 then (- EINVAL, cd1)
          else case (if has_power P
                     then (power_rc P (trace cd1), cd1\<lparr>trace := trace cd1 @ [Power_off]\<rparr>)
                     else (0, cd1)) of
            (rc1, cd2) \<Rightarrow> if rc1 < 0 then (- EINVAL, cd2) else (0, cd2))"

text \<open>
  Byte \<open>i\<close> of a buffer; past its end, the stray byte of the environment. \<open>buf_store\<close>
  copies bytes into a buffer at an offset and leaves the buffer's length as it is.
\<close>

definition byte_at :: "platform \<Rightarrow> u8 list \<Rightarrow> nat \<Rightarrow> u8" where
  "byte_at P buf i = (if i < length buf then buf ! i else stray_byte P)"

definition buf_store :: "u8 list \<Rightarrow> nat \<Rightarrow> u8 list \<Rightarrow> u8 list" where
  "buf_store buf ofs bytes =
     take (length buf) (take ofs buf @ bytes @ drop (ofs + length bytes) buf)"

text \<open>
  \<^verbatim>\<open>cyttsp4_load_status_and_touch_regs(cd, optimize)\<close>: the report header (with one touch
  record when \<open>optimize\<close> is set) is read into \<open>xy_mode\<close> at the report offset; from the
  touch status byte the number of records to fetch in a second read.
\<close>

definition cyttsp4_load_status_and_touch_regs ::
  "platform \<Rightarrow> core_data \<Rightarrow> bool \<Rightarrow> int \<times> core_data" where
  "cyttsp4_load_status_and_touch_regs P cd optimize =
     (case xy_mode cd of
        None \<Rightarrow> (- EINVAL, cd)
      | Some buf \<Rightarrow>
         (let first_read_len =
                si_rep_hdr_size cd + (if optimize then si_tch_rec_size cd else 0) in
          case cyttsp4_adap_read P cd (si_rep_ofs cd) first_read_len of
            (rc, bytes, cd1) \<Rightarrow>
              (let buf1 = buf_store buf (si_rep_ofs cd) bytes;
                   cd2 = cd1\<lparr>xy_mode := Some buf1\<rparr> in
               if rc < 0 then (rc, cd2)
               else let rep_len = byte_at P buf1 (si_rep_ofs cd);
                        tt_stat = byte_at P buf1 (si_tt_stat_ofs cd);
                        num_cur_rec = GET_NUM_TOUCH_RECORDS P tt_stat in
               if rep_len = 0 \<and> num_cur_rec > 0 then (- EIO, cd2)
               else let num_cur_rec' =
                          (if unat num_cur_rec > si_max_tchs cd
                           then (of_nat (si_max_tchs cd) :: u8) else num_cur_rec);
                        num_read_rec = int (unat num_cur_rec') - (if optimize then 1 else 0);
                        second_read_off =
                          si_tt_stat_ofs cd + 1 + (if optimize then si_tch_rec_size cd else 0) in
               if num_read_rec \<le> 0 then (0, cd2)
               else case cyttsp4_adap_read P cd2 second_read_off
                           (nat num_read_rec * si_tch_rec_size cd) of
                 (rc2, bytes2, cd3) \<Rightarrow>
                   (let cd4 = cd3\<lparr>xy_mode := Some (buf_store buf1 second_read_off bytes2)\<rparr> in
                    if rc2 < 0 then (rc2, cd4) else (0, cd4)))))"

text \<open>
  The label \<^verbatim>\<open>cyttsp4_irq_handshake\<close> of \<^verbatim>\<open>cyttsp4_irq\<close>: the handshake with the header
  byte, then the settle delay.
\<close>

definition cyttsp4_irq_handshake :: "platform \<Rightarrow> core_data \<Rightarrow> u8 list \<Rightarrow> core_data" where
  "cyttsp4_irq_handshake P cd md =
     (case cyttsp4_handshake P cd (md ! 0) of
        (rc, cd1) \<Rightarrow> cd1\<lparr>trace := trace cd1 @ [Udelay (level_irq_udelay P)]\<rparr>)"

text \<open>
  The bootloader branch of \<^verbatim>\<open>cyttsp4_irq\<close> (\<^verbatim>\<open>if (IS_BOOTLOADER(mode[0], mode[1]))\<close>),
  \<open>md\<close> being the three header bytes: the attention callbacks; the heartbeat counter
  reset when the driver was not in bootloader mode; a restart queued when the driver was
  in a mode other than Bootloader and Unknown; in bootloader mode with the idle header, a
  restart queued and the counter reset when the counter is above 3, the counter
  incremented otherwise; else the mode is set and the waiters are woken.
\<close>

definition cyttsp4_irq_bootloader :: "platform \<Rightarrow> core_data \<Rightarrow> u8 list \<Rightarrow> core_data" where
  "cyttsp4_irq_bootloader P cd md =
     (let cd1 = call_atten_cb cd CY_ATTEN_IRQ (Some CY_MODE_BOOTLOADER);
          cd2 = (if mode cd1 \<noteq> CY_MODE_BOOTLOADER then cd1\<lparr>heartbeat_count := 0\<rparr> else cd1) in
      if mode cd2 \<noteq> CY_MODE_BOOTLOADER \<and> mode cd2 \<noteq> CY_MODE_UNKNOWN
      then cyttsp4_queue_startup (cd2\<lparr>mode := CY_MODE_UNKNOWN\<rparr>)
      else if mode cd2 = CY_MODE_BOOTLOADER \<and> IS_BOOTLOADER_IDLE P (md ! 0) (md ! 1)
              \<and> heartbeat_count cd2 > 3
      then cyttsp4_queue_startup (cd2\<lparr>heartbeat_count := 0\<rparr>)
      else let cd3 = (if mode cd2 = CY_MODE_BOOTLOADER \<and> IS_BOOTLOADER_IDLE P (md ! 0) (md ! 1)
                      then cd2\<lparr>heartbeat_count := heartbeat_count cd2 + 1\<rparr> else cd2) in
      cd3\<lparr>mode := CY_MODE_BOOTLOADER, trace := trace cd3 @ [Wake_up]\<rparr>)"

text \<open>The \<^verbatim>\<open>switch (mode[0] & CY_HST_DEVICE_MODE)\<close> of \<^verbatim>\<open>cyttsp4_irq\<close>.\<close>

definition irq_cur_mode :: "platform \<Rightarrow> u8 \<Rightarrow> cyttsp4_mode" where
  "irq_cur_mode P hst =
     (let m = hst AND CY_HST_DEVICE_MODE P in
      if m = CY_HST_OPERATE P then CY_MODE_OPERATIONAL
      else if m = CY_HST_CAT P then CY_MODE_CAT
      else if m = CY_HST_SYSINFO P then CY_MODE_SYSINFO
      else CY_MODE_UNKNOWN)"

text \<open>
  \<^verbatim>\<open>cyttsp4_irq\<close> from the check for an unexpected mode change to the handshake: the
  restart on a mode that differs from the driver's; the command-complete flag; the copy
  of the header into \<open>xy_mode\<close>; in operational mode the status and touch registers; the
  attention callbacks; the handshake.
\<close>

definition cyttsp4_irq_report ::
  "platform \<Rightarrow> core_data \<Rightarrow> u8 list \<Rightarrow> cyttsp4_mode \<Rightarrow> core_data" where
  "cyttsp4_irq_report P cd md cur_mode =
     (if md ! 0 AND CY_HST_MODE_CHANGE P = 0 \<and> mode cd \<noteq> cur_mode
      then cyttsp4_queue_startup cd
      else let command_complete =
                 (int_status cd AND CY_INT_EXEC_CMD P \<noteq> 0
                  \<and> byte_at P md (si_cmd_ofs cd mod 256) AND CY_CMD_COMPLETE P \<noteq> 0);
               cd1 = (if command_complete
                      then cd\<lparr>int_status := int_status cd AND NOT (CY_INT_EXEC_CMD P),
                              trace := trace cd @ [Wake_up]\<rparr>
                      else cd);
               cd2 = (case xy_mode cd1 of
                        None \<Rightarrow> cd1
                      | Some buf \<Rightarrow> cd1\<lparr>xy_mode := Some (buf_store buf 0 md)\<rparr>);
               cd3 = (if mode cd2 = CY_MODE_OPERATIONAL
                      then snd (cyttsp4_load_status_and_touch_regs P cd2 (\<not> command_complete))
                      else cd2);
               cd4 = call_atten_cb cd3 CY_ATTEN_IRQ (Some (mode cd3)) in
      cyttsp4_irq_handshake P cd4 md)"

text \<open>
  \<^verbatim>\<open>cyttsp4_irq\<close> after the bootloader branch: the classification of the header; the
  ignored interrupt (back to deep sleep, or the wake signal of a completed
  wait-for-event command); the awaited wake-up; the awaited mode change; then the rest.
\<close>

definition cyttsp4_irq_application :: "platform \<Rightarrow> core_data \<Rightarrow> u8 list \<Rightarrow> core_data" where
  "cyttsp4_irq_application P cd md =
     (let cur_mode = irq_cur_mode P (md ! 0);
          cmd_byte = byte_at P md (si_cmd_ofs cd mod 256) in
      if int_status cd AND CY_INT_IGNORE P \<noteq> 0
         \<and> IS_DEEP_SLEEP_CONFIGURED P (easy_wakeup_gesture cd)
      then snd (U_cyttsp4_put_device_into_deep_sleep P cd (md ! 0))
      else if int_status cd AND CY_INT_IGNORE P \<noteq> 0
              \<and> cmd_byte AND CY_CMD_MASK P = CY_CMD_OP_WAIT_FOR_EVENT
              \<and> cmd_byte AND CY_CMD_COMPLETE P \<noteq> 0
      then cyttsp4_irq_handshake P
             (call_atten_cb (cd\<lparr>wake_initiated_by_device := True\<rparr>) CY_ATTEN_WAKE None) md
      else if int_status cd AND CY_INT_AWAKE P \<noteq> 0
      then cyttsp4_irq_handshake P
             (cd\<lparr>int_status := int_status cd AND NOT (CY_INT_AWAKE P),
                 trace := trace cd @ [Wake_up]\<rparr>) md
      else if int_status cd AND CY_INT_MODE_CHANGE P \<noteq> 0
              \<and> md ! 0 AND CY_HST_MODE_CHANGE P = 0
      then cyttsp4_irq_handshake P
             (cd\<lparr>int_status := int_status cd AND NOT (CY_INT_MODE_CHANGE P),
                 mode := cur_mode, trace := trace cd @ [Wake_up]\<rparr>) md
      else cyttsp4_irq_report P cd md cur_mode)"

text \<open>
  \<^verbatim>\<open>cyttsp4_irq\<close>: nothing while the sleep state is \<^verbatim>\<open>SS_SLEEP_ON\<close>; the three-byte
  header is read from the base register, and a read that does not return 0 ends the
  handler; then the bootloader branch or the application branch.
\<close>

definition cyttsp4_irq :: "platform \<Rightarrow> core_data \<Rightarrow> core_data" where
  "cyttsp4_irq P cd =
     (if sleep_state cd = SS_SLEEP_ON then cd
      else case cyttsp4_adap_read P cd (CY_REG_BASE P) 3 of
        (rc, md, cd1) \<Rightarrow>
          if rc \<noteq> 0 then cd1
          else if IS_BOOTLOADER P (md ! 0) (md ! 1) then cyttsp4_irq_bootloader P cd1 md
          else cyttsp4_irq_application P cd1 md)"

section \<open>Startup\<close>

text \<open>The byte sequences at the head of the core driver.\<close>

definition ldr_exit :: "u8 list" where
  "ldr_exit = [0xFF, 0x01, 0x3B, 0x00, 0x00, 0x4F, 0x6D, 0x17]"

definition ldr_fast_exit :: "u8 list" where
  "ldr_fast_exit = [0xFF, 0x01, 0x3C, 0x00, 0x00, 0xC3, 0x68, 0x17]"

definition ldr_err_app :: "u8 list" where
  "ldr_err_app = [0x01, 0x02, 0x00, 0x00, 0x55, 0xDD, 0x17]"

text \<open>\<^verbatim>\<open>cyttsp4_start_wd_timer\<close> and \<^verbatim>\<open>cyttsp4_stop_wd_timer\<close>: nothing with a zero
  \<^verbatim>\<open>CY_WATCHDOG_TIMEOUT\<close>.\<close>

definition cyttsp4_start_wd_timer :: "platform \<Rightarrow> core_data \<Rightarrow> core_data" where
  "cyttsp4_start_wd_timer P cd =
     (if CY_WATCHDOG_TIMEOUT P = 0 then cd else cd\<lparr>trace := trace cd @ [Wd_timer_start]\<rparr>)"

definition cyttsp4_stop_wd_timer :: "platform \<Rightarrow> core_data \<Rightarrow> core_data" where
  "cyttsp4_stop_wd_timer P cd =
     (if CY_WATCHDOG_TIMEOUT P = 0 then cd else cd\<lparr>trace := trace cd @ [Wd_timer_stop]\<rparr>)"

text \<open>\<^verbatim>\<open>_cyttsp4_ldr_exit\<close>: the fast exit sequence after a power-off sleep, the normal
  one otherwise, written to the base register.\<close>

definition U_cyttsp4_ldr_exit :: "platform \<Rightarrow> core_data \<Rightarrow> int \<times> core_data" where
  "U_cyttsp4_ldr_exit P cd =
     (if cpdata_flags P AND CY_CORE_FLAG_POWEROFF_ON_SLEEP \<noteq> 0 \<and> bl_fast_exit cd
      then cyttsp4_adap_write P cd (CY_REG_BASE P) ldr_fast_exit
      else cyttsp4_adap_write P cd (CY_REG_BASE P) ldr_exit)"

text \<open>
  The steps of \<^verbatim>\<open>cyttsp4_startup_\<close> that follow the wait for the SysInfo mode, other than
  \<^verbatim>\<open>set_mode\<close>, are parameters of the model: each may be any function of the driver
  state. They are \<^verbatim>\<open>cyttsp4_get_sysinfo_regs\<close>, \<^verbatim>\<open>cyttsp4_set_initial_scantype\<close>,
  \<^verbatim>\<open>cyttsp4_set_proximity(cd, false)\<close>, \<^verbatim>\<open>cyttsp4_get_ttconfig_info\<close>,
  \<^verbatim>\<open>cyttsp4_get_active_refresh_cycle\<close> and \<^verbatim>\<open>cyttsp4_core_sleep_\<close>.
\<close>

record startup_steps =
  get_sysinfo_regs :: "core_data \<Rightarrow> int \<times> core_data"
  set_initial_scantype :: "core_data \<Rightarrow> int \<times> core_data"
  set_proximity_off :: "core_data \<Rightarrow> int \<times> core_data"
  get_ttconfig_info :: "core_data \<Rightarrow> int \<times> core_data"
  get_active_refresh_cycle :: "core_data \<Rightarrow> int \<times> core_data"
  core_sleep :: "core_data \<Rightarrow> core_data"

text \<open>
  How one pass from the label \<^verbatim>\<open>reset:\<close> ends: at a \<^verbatim>\<open>RETRY_OR_EXIT\<close>, at the label
  \<^verbatim>\<open>exit:\<close> or at the label \<^verbatim>\<open>exit_no_wd:\<close>.
\<close>

datatype startup_goto = Retry_or_exit | Goto_exit | Goto_exit_no_wd

text \<open>
  The part of one pass after a successful wait for the SysInfo mode: the fault flag is
  cleared, then the descriptor, the operational mode, the scan type, the configuration
  data, the refresh cycle (whose failure is logged only), the startup attention and the
  return to sleep.
\<close>

definition startup_configure ::
  "platform \<Rightarrow> startup_steps \<Rightarrow> core_data \<Rightarrow> startup_goto \<times> int \<times> core_data" where
  "startup_configure P S cd =
     (let cd1 = cd\<lparr>invalid_touch_app := False\<rparr> in
      case get_sysinfo_regs S cd1 of
        (rc, cd2) \<Rightarrow>
          if rc < 0 then (Retry_or_exit, rc, cd2)
          else case set_mode P cd2 CY_MODE_OPERATIONAL of
            (rc, cd3) \<Rightarrow>
              if rc < 0 then (Retry_or_exit, rc, cd3)
              else case (if cpdata_flags P AND CY_CORE_FLAG_SCAN_MODE_USES_RAM_ID_SCAN_TYPE \<noteq> 0
                         then set_initial_scantype S cd3 else set_proximity_off S cd3) of
                (rc, cd4) \<Rightarrow>
                  if rc < 0 then (Retry_or_exit, rc, cd4)
                  else case get_ttconfig_info S cd4 of
                    (rc, cd5) \<Rightarrow>
                      if rc < 0 then (Retry_or_exit, rc, cd5)
                      else case get_active_refresh_cycle S cd5 of
                        (rc, cd6) \<Rightarrow>
                          (let cd7 = (call_atten_cb cd6 CY_ATTEN_STARTUP None)
                                       \<lparr>bl_fast_exit := True\<rparr> in
                           if sleep_state cd7 = SS_SLEEP_ON
                           then (Goto_exit_no_wd, rc,
                                 core_sleep S (cd7\<lparr>sleep_state := SS_SLEEP_OFF\<rparr>))
                           else (Goto_exit, rc, cd7)))"

text \<open>
  One pass of \<^verbatim>\<open>cyttsp4_startup_\<close> from the label \<^verbatim>\<open>reset:\<close>, with the value of
  \<open>detected\<close> on entry; the result is how the pass ends, \<open>rc\<close>, \<open>detected\<close> and the state.
  After a failed wait for the SysInfo mode the driver reads as many bytes as
  \<open>ldr_err_app\<close> has from the base register; when that read returns 0 and the bytes are
  \<open>ldr_err_app\<close>, it sets \<open>invalid_touch_app\<close> and leaves through \<^verbatim>\<open>exit_no_wd\<close>.
\<close>

definition startup_pass ::
  "platform \<Rightarrow> startup_steps \<Rightarrow> bool \<Rightarrow> core_data
     \<Rightarrow> startup_goto \<times> int \<times> bool \<times> core_data" where
  "startup_pass P S detected cd =
     (case cyttsp4_reset_and_wait P cd of
        (rc, cd1) \<Rightarrow>
          if rc < 0 then (Retry_or_exit, rc, detected, cd1)
          else let cd2 = cd1\<lparr>int_status := (int_status cd1 AND NOT (CY_INT_IGNORE P))
                                              OR CY_INT_MODE_CHANGE P\<rparr> in
          case U_cyttsp4_ldr_exit P cd2 of
            (rc, cd3) \<Rightarrow>
              if rc < 0 then (Retry_or_exit, rc, True, cd3)
              else case cyttsp4_wait_sysinfo_mode P cd3 of
                (rc, cd4) \<Rightarrow>
                  if rc < 0 then
                    (case cyttsp4_adap_read P cd4 (CY_REG_BASE P) (length ldr_err_app) of
                       (rc1, buf, cd5) \<Rightarrow>
                         if rc1 \<noteq> 0 then (Retry_or_exit, rc, True, cd5)
                         else if buf = ldr_err_app
                         then (Goto_exit_no_wd, rc, True, cd5\<lparr>invalid_touch_app := True\<rparr>)
                         else (Retry_or_exit, rc, True, cd5))
                  else case startup_configure P S cd4 of
                    (g, rc, cd5) \<Rightarrow> (g, rc, True, cd5))"

text \<open>The labels \<^verbatim>\<open>exit_no_wd:\<close> (a device never detected is \<open>-ENODEV\<close>) and \<^verbatim>\<open>exit:\<close>
  (the watchdog timer is started first).\<close>

definition startup_exit_no_wd :: "int \<Rightarrow> bool \<Rightarrow> core_data \<Rightarrow> int \<times> core_data" where
  "startup_exit_no_wd rc detected cd = (if \<not> detected then - ENODEV else rc, cd)"

definition startup_exit :: "platform \<Rightarrow> int \<Rightarrow> bool \<Rightarrow> core_data \<Rightarrow> int \<times> core_data" where
  "startup_exit P rc detected cd = startup_exit_no_wd rc detected (cyttsp4_start_wd_timer P cd)"

text \<open>
  Modelled from the spec: the macro \<^verbatim>\<open>RETRY_OR_EXIT(retry--, reset, exit)\<close> of the absent
  \<^verbatim>\<open>cyttsp4_regs.h\<close>. The startup protocol is \<open>retried up to 3 times on any step
  failure\<close>: the macro goes to \<^verbatim>\<open>reset\<close> while the count it is given is not zero, and to
  \<^verbatim>\<open>exit\<close> otherwise; \<open>retry--\<close> leaves one retry less.

  \<open>startup_from P S retry detected cd\<close> is \<^verbatim>\<open>cyttsp4_startup_\<close> from the label
  \<^verbatim>\<open>reset:\<close> with \<open>retry\<close> retries left.
\<close>

fun startup_from ::
  "platform \<Rightarrow> startup_steps \<Rightarrow> nat \<Rightarrow> bool \<Rightarrow> core_data \<Rightarrow> int \<times> core_data" where
  "startup_from P S 0 detected cd =
     (case startup_pass P S detected cd of
        (Retry_or_exit, rc, det, cd1) \<Rightarrow> startup_exit P rc det cd1
      | (Goto_exit, rc, det, cd1) \<Rightarrow> startup_exit P rc det cd1
      | (Goto_exit_no_wd, rc, det, cd1) \<Rightarrow> startup_exit_no_wd rc det cd1)"
| "startup_from P S (Suc retry) detected cd =
     (case startup_pass P S detected cd of
        (Retry_or_exit, rc, det, cd1) \<Rightarrow> startup_from P S retry det cd1
      | (Goto_exit, rc, det, cd1) \<Rightarrow> startup_exit P rc det cd1
      | (Goto_exit_no_wd, rc, det, cd1) \<Rightarrow> startup_exit_no_wd rc det cd1)"

text \<open>\<^verbatim>\<open>cyttsp4_startup_\<close>: the watchdog is stopped, then the passes with
  \<^verbatim>\<open>CY_CORE_STARTUP_RETRY_COUNT = 3\<close> retries.\<close>

definition CY_CORE_STARTUP_RETRY_COUNT :: nat where
  "CY_CORE_STARTUP_RETRY_COUNT = 3"

definition cyttsp4_startup_U :: "platform \<Rightarrow> startup_steps \<Rightarrow> core_data \<Rightarrow> int \<times> core_data" where
  "cyttsp4_startup_U P S cd =
     startup_from P S CY_CORE_STARTUP_RETRY_COUNT False (cyttsp4_stop_wd_timer P cd)"

section \<open>Configuration blocks\<close>

definition security_key :: "u8 list" where
  "security_key = [0xA5, 0x01, 0x02, 0x03, 0xFF, 0xFE, 0xFD, 0x5A]"

text \<open>
  Modelled from the spec: the macros \<^verbatim>\<open>HI_BYTE\<close> and \<^verbatim>\<open>LO_BYTE\<close> of the absent
  \<^verbatim>\<open>cyttsp4_regs.h\<close>, the high and the low byte of a 16-bit value (the request is
  \<open>{opcode, row-hi, row-lo, length-hi, length-lo, block-id}\<close>). \<open>get_unaligned_be16\<close> is
  the kernel's big-endian load.
\<close>

definition HI_BYTE :: "u16 \<Rightarrow> u8" where "HI_BYTE x = ucast (drop_bit 8 x)"
definition LO_BYTE :: "u16 \<Rightarrow> u8" where "LO_BYTE x = ucast x"

definition get_unaligned_be16 :: "u8 \<Rightarrow> u8 \<Rightarrow> u16" where
  "get_unaligned_be16 b0 b1 = push_bit 8 (ucast b0) OR ucast b1"

text \<open>
  Buffer sizes. The comments of \<^verbatim>\<open>cyttsp4_read_config_block\<close> and
  \<^verbatim>\<open>cyttsp4_write_config_block\<close> give the response of a read as header (5), data and
  CRC (2), and the command of a write as header (6), data, security key (8) and CRC (2).
  The other command buffers hold the bytes their functions set: one for the row size, two
  for the CRC verification, six for a read.
\<close>

definition CY_CMD_CAT_READ_CFG_BLK_CMD_SZ :: nat where "CY_CMD_CAT_READ_CFG_BLK_CMD_SZ = 6"
definition CY_CMD_CAT_READ_CFG_BLK_RET_SZ :: nat where "CY_CMD_CAT_READ_CFG_BLK_RET_SZ = 7"
definition CY_CMD_CAT_READ_CFG_BLK_RET_HDR_SZ :: nat where
  "CY_CMD_CAT_READ_CFG_BLK_RET_HDR_SZ = 5"
definition CY_CMD_CAT_WRITE_CFG_BLK_CMD_SZ :: nat where "CY_CMD_CAT_WRITE_CFG_BLK_CMD_SZ = 8"
definition CY_CMD_CAT_WRITE_CFG_BLK_CMD_HDR_SZ :: nat where
  "CY_CMD_CAT_WRITE_CFG_BLK_CMD_HDR_SZ = 6"

text \<open>
  The remaining constants of the absent header that the configuration functions use, the
  field accessors \<^verbatim>\<open>GET_FIELD16\<close> and \<^verbatim>\<open>PUT_FIELD16\<close> (two bytes to a value and back,
  in the byte order of the device), and whether \<^verbatim>\<open>kmalloc\<close> succeeds, are parameters.
\<close>

record cfg_env =
  CY_CMD_CAT_GET_CFG_ROW_SIZE_RET_SZ :: nat
  CY_CMD_CAT_WRITE_CFG_BLK_RET_SZ :: nat
  CY_CMD_CAT_VERIFY_CFG_BLK_CRC_RET_SZ :: nat
  CY_CONFIG_LENGTH_INFO_SIZE :: nat
  CY_CONFIG_LENGTH_INFO_OFFSET :: u16
  CY_CONFIG_LENGTH_OFFSET :: nat
  CY_CONFIG_MAXLENGTH_OFFSET :: nat
  GET_FIELD16 :: "u8 \<Rightarrow> u8 \<Rightarrow> u16"
  PUT_FIELD16 :: "u16 \<Rightarrow> u8 list"
  kmalloc_ok :: "event list \<Rightarrow> nat \<Rightarrow> bool"

text \<open>\<open>n\<close> bytes from a caller's buffer; past its end the model reads zeros.\<close>

definition bytes_from :: "u8 list \<Rightarrow> nat \<Rightarrow> u8 list" where
  "bytes_from data n = take n (data @ replicate n 0)"

text \<open>The command buffers of a configuration-block read and write.\<close>

definition read_cfg_blk_cmd :: "u8 \<Rightarrow> u16 \<Rightarrow> u16 \<Rightarrow> u8 list" where
  "read_cfg_blk_cmd ebid row len =
     [CY_CMD_CAT_READ_CFG_BLK, HI_BYTE row, LO_BYTE row, HI_BYTE len, LO_BYTE len, ebid]"

definition write_cfg_blk_cmd :: "u8 \<Rightarrow> u16 \<Rightarrow> u8 list \<Rightarrow> u16 \<Rightarrow> u8 list" where
  "write_cfg_blk_cmd ebid row data len =
     (let payload = bytes_from data (unat len);
          crc = cyttsp4_calc_app_crc payload (unat len) in
      [CY_CMD_CAT_WRITE_CFG_BLK, HI_BYTE row, LO_BYTE row, HI_BYTE len, LO_BYTE len, ebid]
        @ payload @ security_key @ [HI_BYTE crc, LO_BYTE crc])"

text \<open>
  \<^verbatim>\<open>cyttsp4_read_config_block(cd, ebid, row, data, length)\<close>: the read command in CAT mode;
  the response is checked (status, block, length, CRC of the data) and its data copied to
  the front of \<open>data\<close>. The result is (return code, \<open>data\<close>, state).
\<close>

definition cyttsp4_read_config_block ::
  "cfg_env \<Rightarrow> platform \<Rightarrow> core_data \<Rightarrow> u8 \<Rightarrow> u16 \<Rightarrow> u8 list \<Rightarrow> u16
     \<Rightarrow> int \<times> u8 list \<times> core_data" where
  "cyttsp4_read_config_block C P cd ebid row data len =
     (let return_buf_sz = CY_CMD_CAT_READ_CFG_BLK_RET_SZ + unat len in
      if \<not> kmalloc_ok C (trace cd) return_buf_sz then (- ENOMEM, data, cd)
      else case cyttsp4_exec_cmd P cd CY_MODE_CAT
                  (hd (read_cfg_blk_cmd ebid row len)) (tl (read_cfg_blk_cmd ebid row len))
                  (Some (replicate return_buf_sz 0)) return_buf_sz
                  (CY_COMMAND_COMPLETE_TIMEOUT P) of
        (rc, ret, cd1) \<Rightarrow>
          if rc \<noteq> 0 then (rc, data, cd1)
          else let return_buf = (case ret of Some b \<Rightarrow> b | None \<Rightarrow> []);
                   body = take (unat len) (drop CY_CMD_CAT_READ_CFG_BLK_RET_HDR_SZ return_buf);
                   crc = cyttsp4_calc_app_crc body (unat len) in
          if byte_at P return_buf 0 \<noteq> CY_CMD_STATUS_SUCCESS P
             \<or> byte_at P return_buf 1 \<noteq> ebid
             \<or> byte_at P return_buf 2 \<noteq> HI_BYTE len
             \<or> byte_at P return_buf 3 \<noteq> LO_BYTE len
             \<or> byte_at P return_buf (CY_CMD_CAT_READ_CFG_BLK_RET_HDR_SZ + unat len) \<noteq> HI_BYTE crc
             \<or> byte_at P return_buf (CY_CMD_CAT_READ_CFG_BLK_RET_HDR_SZ + unat len + 1)
                  \<noteq> LO_BYTE crc
          then (- EINVAL, data, cd1)
          else (0, body @ drop (unat len) data, cd1))"

text \<open>
  \<^verbatim>\<open>cyttsp4_write_config_block(cd, ebid, row, data, length)\<close>: the write command with the
  data, the security key and the CRC of the data; the response is checked (status, block,
  length).
\<close>

definition cyttsp4_write_config_block ::
  "cfg_env \<Rightarrow> platform \<Rightarrow> core_data \<Rightarrow> u8 \<Rightarrow> u16 \<Rightarrow> u8 list \<Rightarrow> u16 \<Rightarrow> int \<times> core_data" where
  "cyttsp4_write_config_block C P cd ebid row data len =
     (let command_buf_sz = CY_CMD_CAT_WRITE_CFG_BLK_CMD_SZ + unat len + length security_key in
      if \<not> kmalloc_ok C (trace cd) command_buf_sz then (- ENOMEM, cd)
      else case cyttsp4_exec_cmd P cd CY_MODE_CAT
                  (hd (write_cfg_blk_cmd ebid row data len))
                  (tl (write_cfg_blk_cmd ebid row data len))
                  (Some (replicate (CY_CMD_CAT_WRITE_CFG_BLK_RET_SZ C) 0))
                  (CY_CMD_CAT_WRITE_CFG_BLK_RET_SZ C)
                  (CY_COMMAND_COMPLETE_TIMEOUT P) of
        (rc, ret, cd1) \<Rightarrow>
          if rc \<noteq> 0 then (rc, cd1)
          else let return_buf = (case ret of Some b \<Rightarrow> b | None \<Rightarrow> []) in
          if byte_at P return_buf 0 \<noteq> CY_CMD_STATUS_SUCCESS P
             \<or> byte_at P return_buf 1 \<noteq> ebid
             \<or> byte_at P return_buf 2 \<noteq> HI_BYTE len
             \<or> byte_at P return_buf 3 \<noteq> LO_BYTE len
          then (- EINVAL, cd1)
          else (0, cd1))"

text \<open>\<^verbatim>\<open>cyttsp4_get_config_row_size\<close>: (return code, row size, state); the row size is 0
  (the caller's initial value) when the command fails.\<close>

definition cyttsp4_get_config_row_size ::
  "cfg_env \<Rightarrow> platform \<Rightarrow> core_data \<Rightarrow> int \<times> u16 \<times> core_data" where
  "cyttsp4_get_config_row_size C P cd =
     (case cyttsp4_exec_cmd P cd CY_MODE_CAT CY_CMD_CAT_GET_CFG_ROW_SZ []
             (Some (replicate (CY_CMD_CAT_GET_CFG_ROW_SIZE_RET_SZ C) 0))
             (CY_CMD_CAT_GET_CFG_ROW_SIZE_RET_SZ C) (CY_COMMAND_COMPLETE_TIMEOUT P) of
        (rc, ret, cd1) \<Rightarrow>
          if rc \<noteq> 0 then (rc, 0, cd1)
          else let return_buf = (case ret of Some b \<Rightarrow> b | None \<Rightarrow> []) in
          (0, get_unaligned_be16 (byte_at P return_buf 0) (byte_at P return_buf 1), cd1))"

text \<open>\<^verbatim>\<open>cyttsp4_verify_config_block_crc\<close> with \<open>match = NULL\<close>: (return code, calculated
  CRC, stored CRC, state).\<close>

definition cyttsp4_verify_config_block_crc ::
  "cfg_env \<Rightarrow> platform \<Rightarrow> core_data \<Rightarrow> u8 \<Rightarrow> int \<times> u16 \<times> u16 \<times> core_data" where
  "cyttsp4_verify_config_block_crc C P cd ebid =
     (case cyttsp4_exec_cmd P cd CY_MODE_CAT CY_CMD_CAT_VERIFY_CFG_BLK_CRC [ebid]
             (Some (replicate (CY_CMD_CAT_VERIFY_CFG_BLK_CRC_RET_SZ C) 0))
             (CY_CMD_CAT_VERIFY_CFG_BLK_CRC_RET_SZ C) (CY_COMMAND_COMPLETE_TIMEOUT P) of
        (rc, ret, cd1) \<Rightarrow>
          if rc \<noteq> 0 then (rc, 0, 0, cd1)
          else let return_buf = (case ret of Some b \<Rightarrow> b | None \<Rightarrow> []) in
          (0, get_unaligned_be16 (byte_at P return_buf 1) (byte_at P return_buf 2),
              get_unaligned_be16 (byte_at P return_buf 3) (byte_at P return_buf 4), cd1))"

text \<open>\<^verbatim>\<open>cyttsp4_get_config_length\<close>: (return code, length, maximum length, state).\<close>

definition cyttsp4_get_config_length ::
  "cfg_env \<Rightarrow> platform \<Rightarrow> core_data \<Rightarrow> u8 \<Rightarrow> int \<times> u16 \<times> u16 \<times> core_data" where
  "cyttsp4_get_config_length C P cd ebid =
     (if \<not> si_ready cd then (- ENODEV, 0, 0, cd)
      else case cyttsp4_read_config_block C P cd ebid (CY_CONFIG_LENGTH_INFO_OFFSET C)
                  (replicate (CY_CONFIG_LENGTH_INFO_SIZE C) 0)
                  (of_nat (CY_CONFIG_LENGTH_INFO_SIZE C)) of
        (rc, data, cd1) \<Rightarrow>
          if rc \<noteq> 0 then (rc, 0, 0, cd1)
          else (0,
                GET_FIELD16 C (byte_at P data (CY_CONFIG_LENGTH_OFFSET C))
                              (byte_at P data (CY_CONFIG_LENGTH_OFFSET C + 1)),
                GET_FIELD16 C (byte_at P data (CY_CONFIG_MAXLENGTH_OFFSET C))
                              (byte_at P data (CY_CONFIG_MAXLENGTH_OFFSET C + 1)),
                cd1))"

text \<open>
  The loop \<^verbatim>\<open>while (cur_block < end_block)\<close> of \<^verbatim>\<open>cyttsp4_write_config_common\<close>: one
  whole row is written per round, the data pointer moves on by a row, and a failed write
  ends the loop. The result is (return code, \<open>cur_block\<close>, \<open>data\<close>, state).
\<close>

function write_whole_rows ::
  "cfg_env \<Rightarrow> platform \<Rightarrow> core_data \<Rightarrow> u8 \<Rightarrow> u16 \<Rightarrow> u16 \<Rightarrow> u8 list \<Rightarrow> u16
     \<Rightarrow> int \<times> u16 \<times> u8 list \<times> core_data" where
  "write_whole_rows C P cd ebid cur_block end_block data config_row_size =
     (if cur_block < end_block then
        (case cyttsp4_write_config_block C P cd ebid cur_block data config_row_size of
           (rc, cd1) \<Rightarrow>
             if rc \<noteq> 0 then (rc, cur_block, data, cd1)
             else write_whole_rows C P cd1 ebid (cur_block + 1) end_block
                    (drop (unat config_row_size) data) config_row_size)
      else (0, cur_block, data, cd))"
  by pat_completeness auto
termination
proof (relation "measure (\<lambda>(C, P, cd, ebid, cur_block, end_block, data, rs).
                            unat end_block - unat cur_block)")
  show "wf (measure (\<lambda>(C, P, cd, ebid, cur_block, end_block, data, rs).
                            unat end_block - unat cur_block))"
    by simp
next
  fix C :: cfg_env and P :: platform and cd :: core_data and ebid :: u8
    and cur_block end_block :: u16 and data :: "u8 list" and config_row_size :: u16
    and x :: "int \<times> core_data" and rc :: int and cd1 :: core_data
  assume lt: "cur_block < end_block"
  then have "unat cur_block < unat end_block" by (simp add: word_less_nat_alt)
  moreover have "unat end_block < 2 ^ 16"
    using unsigned_less [of end_block, where ?'a = nat] by simp
  ultimately have "unat (cur_block + 1) = unat cur_block + 1"
    by (simp add: unat_word_ariths)
  with \<open>unat cur_block < unat end_block\<close> show "((C, P, cd1, ebid, cur_block + 1, end_block,
                     drop (unat config_row_size) data, config_row_size),
                    (C, P, cd, ebid, cur_block, end_block, data, config_row_size))
                   \<in> measure (\<lambda>(C, P, cd, ebid, cur_block, end_block, data, rs).
                            unat end_block - unat cur_block)"
    by simp
qed

text \<open>
  \<^verbatim>\<open>cyttsp4_write_config_common\<close> from the label \<^verbatim>\<open>no_offset:\<close>: the whole rows, then
  the last row, written from its start for \<open>end_off\<close> bytes, when the loop ended at it.
\<close>

definition write_config_no_offset ::
  "cfg_env \<Rightarrow> platform \<Rightarrow> core_data \<Rightarrow> u8 \<Rightarrow> u16 \<Rightarrow> u16 \<Rightarrow> u16 \<Rightarrow> u8 list \<Rightarrow> u16
     \<Rightarrow> int \<times> core_data" where
  "write_config_no_offset C P cd ebid cur_block end_block end_off data config_row_size =
     (case write_whole_rows C P cd ebid cur_block end_block data config_row_size of
        (rc, cur_block', data', cd1) \<Rightarrow>
          if rc \<noteq> 0 then (rc, cd1)
          else if cur_block' = end_block
          then cyttsp4_write_config_block C P cd1 ebid end_block data' end_off
          else (0, cd1))"

text \<open>
  \<^verbatim>\<open>cyttsp4_write_config_common(cd, ebid, offset, data, length)\<close>. The row size comes
  from the device; a row size of 0 makes the divisions trap, which is \<open>None\<close>. The sums
  and quotients are computed in \<^verbatim>\<open>int\<close> and stored in 16 bits. With a write that starts
  inside a row, the row is read up to the offset into a new buffer, the new bytes are
  copied behind, and the buffer is written back.
\<close>

definition cyttsp4_write_config_common ::
  "cfg_env \<Rightarrow> platform \<Rightarrow> core_data \<Rightarrow> u8 \<Rightarrow> u16 \<Rightarrow> u8 list \<Rightarrow> u16
     \<Rightarrow> (int \<times> core_data) option" where
  "cyttsp4_write_config_common C P cd ebid offset data len =
     (case cyttsp4_get_config_row_size C P cd of
        (rc, config_row_size, cd1) \<Rightarrow>
          if rc \<noteq> 0 then Some (rc, cd1)
          else if config_row_size = 0 then None
          else let cur_block = (of_nat (unat offset div unat config_row_size) :: u16);
                   cur_off = (of_nat (unat offset mod unat config_row_size) :: u16);
                   end_block =
                     (of_nat ((unat offset + unat len) div unat config_row_size) :: u16);
                   end_off =
                     (of_nat ((unat offset + unat len) mod unat config_row_size) :: u16) in
          if cur_off = 0
          then Some (write_config_no_offset C P cd1 ebid cur_block end_block end_off data
                       config_row_size)
          else if \<not> kmalloc_ok C (trace cd1) (unat config_row_size) then Some (- ENOMEM, cd1)
          else let copy_len = (if cur_block = end_block then unat len
                               else unat config_row_size - unat cur_off) in
          case cyttsp4_read_config_block C P cd1 ebid cur_block
                 (replicate (unat config_row_size) 0) cur_off of
            (rc, row_data, cd2) \<Rightarrow>
              if rc \<noteq> 0 then Some (rc, cd2)
              else let row_data' = take (unat cur_off) row_data @ bytes_from data copy_len
                                     @ drop (unat cur_off + copy_len) row_data in
              case cyttsp4_write_config_block C P cd2 ebid cur_block row_data'
                     (of_nat (unat cur_off + copy_len)) of
                (rc, cd3) \<Rightarrow>
                  if rc \<noteq> 0 then Some (rc, cd3)
                  else Some (write_config_no_offset C P cd3 ebid (cur_block + 1) end_block
                               end_off (drop copy_len data) config_row_size))"

text \<open>
  \<^verbatim>\<open>cyttsp4_write_config(cd, ebid, offset, data, length)\<close>: the stored CRC is at the
  configuration's maximum length; the write may reach two bytes past it. After the write
  the device verifies the block's CRC, and when the calculated and the stored CRC differ
  the calculated one is written to the CRC field.
\<close>

definition cyttsp4_write_config ::
  "cfg_env \<Rightarrow> platform \<Rightarrow> core_data \<Rightarrow> u8 \<Rightarrow> u16 \<Rightarrow> u8 list \<Rightarrow> u16
     \<Rightarrow> (int \<times> core_data) option" where
  "cyttsp4_write_config C P cd ebid offset data len =
     (if \<not> si_ready cd then Some (- ENODEV, cd)
      else case cyttsp4_get_config_length C P cd ebid of
        (rc, conf_len, crc_offset, cd1) \<Rightarrow>
          if rc \<noteq> 0 then Some (rc, cd1)
          else if unat offset + unat len > unat crc_offset + 2 then Some (- EINVAL, cd1)
          else (case cyttsp4_write_config_common C P cd1 ebid offset data len of
                  None \<Rightarrow> None
                | Some (rc, cd2) \<Rightarrow>
                    if rc \<noteq> 0 then Some (rc, cd2)
                    else (case cyttsp4_verify_config_block_crc C P cd2 ebid of
                            (rc, crc_new, crc_old, cd3) \<Rightarrow>
                              if rc \<noteq> 0 then Some (rc, cd3)
                              else if crc_new = crc_old then Some (0, cd3)
                              else cyttsp4_write_config_common C P cd3 ebid crc_offset
                                     (bytes_from (PUT_FIELD16 C crc_new) 2) 2)))"

text \<open>
  The sequence of commands that a configuration write is to issue, for a row size
  \<open>rs\<close>, a write of \<open>len\<close> bytes at \<open>offset\<close> and the bytes \<open>old\<close> that the device holds in front of the offset in the first row: the row size is asked for; a
  first row that the write enters at a non-zero offset is read up to that offset and
  written back with the new bytes behind; every following row before the last is written
  whole; the last row is written from its start up to the end offset, with no read.
  An entry is (mode, command buffer, response size), as in \<open>cmds\<close>.
\<close>

definition row_size_entry :: "cfg_env \<Rightarrow> cyttsp4_mode \<times> u8 list \<times> nat" where
  "row_size_entry C =
     (CY_MODE_CAT, [CY_CMD_CAT_GET_CFG_ROW_SZ], CY_CMD_CAT_GET_CFG_ROW_SIZE_RET_SZ C)"

definition read_entry :: "u8 \<Rightarrow> nat \<Rightarrow> nat \<Rightarrow> cyttsp4_mode \<times> u8 list \<times> nat" where
  "read_entry ebid row len =
     (CY_MODE_CAT, read_cfg_blk_cmd ebid (of_nat row) (of_nat len),
      CY_CMD_CAT_READ_CFG_BLK_RET_SZ + len)"

definition write_entry ::
  "cfg_env \<Rightarrow> u8 \<Rightarrow> nat \<Rightarrow> u8 list \<Rightarrow> nat \<Rightarrow> cyttsp4_mode \<times> u8 list \<times> nat" where
  "write_entry C ebid row data len =
     (CY_MODE_CAT, write_cfg_blk_cmd ebid (of_nat row) data (of_nat len),
      CY_CMD_CAT_WRITE_CFG_BLK_RET_SZ C)"

definition cfg_write_plan ::
  "cfg_env \<Rightarrow> u8 \<Rightarrow> nat \<Rightarrow> nat \<Rightarrow> u8 list \<Rightarrow> nat \<Rightarrow> u8 list
     \<Rightarrow> (cyttsp4_mode \<times> u8 list \<times> nat) list" where
  "cfg_write_plan C ebid rs offset data len old =
     (let first_row = offset div rs; first_off = offset mod rs;
          last_row = (offset + len) div rs; last_off = (offset + len) mod rs;
          head_len = (if first_off = 0 then 0
                      else if first_row = last_row then len else rs - first_off);
          next_row = (if first_off = 0 then first_row else first_row + 1);
          rest = drop head_len data in
      [row_size_entry C]
      @ (if first_off = 0 then []
         else [read_entry ebid first_row first_off,
               write_entry C ebid first_row (old @ bytes_from data head_len)
                 (first_off + head_len)])
      @ map (\<lambda>row. write_entry C ebid row (drop ((row - next_row) * rs) rest) rs)
          [next_row ..< last_row]
      @ (if next_row \<le> last_row
         then [write_entry C ebid last_row (drop ((last_row - next_row) * rs) rest) last_off]
         else []))"

section \<open>A test bench\<close>

text \<open>
  One assignment of the header's constants and one quiet environment, for running the
  model on concrete inputs: the register layout of the spec (base register 0, mode bits,
  mode-change marker, toggle bit; completion bit above the six opcode bits), a platform
  with a reset line and no power callback, a bus that answers every read with zeros and
  accepts every write, and waits during which nothing happens. The theorems do not depend
  on it. \<open>cd0\<close> is the zeroed driver state of \<^verbatim>\<open>cyttsp4_probe\<close>.
\<close>

definition bench :: platform where
  "bench =
     \<lparr> CY_REG_BASE = 0, CY_REG_CAT_CMD = 2,
       CY_HST_TOGGLE = 0x80, CY_HST_MODE_CHANGE = 0x08, CY_HST_DEVICE_MODE = 0x70,
       CY_HST_OPERATE = 0x00, CY_HST_SYSINFO = 0x10, CY_HST_CAT = 0x20,
       CY_HST_SLEEP = 0x02, CY_HST_RESET = 0x01,
       CY_CMD_MASK = 0x3F, CY_CMD_COMPLETE = 0x40, CY_CMD_COMPLETE_MASK = 0x40,
       CY_CMD_STATUS_SUCCESS = 0,
       CY_INT_IGNORE = 1, CY_INT_MODE_CHANGE = 2, CY_INT_EXEC_CMD = 4, CY_INT_AWAKE = 8,
       IS_BOOTLOADER = (\<lambda>hst rst. hst AND 0x01 \<noteq> 0 \<or> rst \<noteq> 0),
       IS_BOOTLOADER_IDLE = (\<lambda>hst rst. hst AND 0x01 \<noteq> 0 \<and> rst AND 0x01 \<noteq> 0),
       IS_DEEP_SLEEP_CONFIGURED = (\<lambda>g. g = 0 \<or> g = 0xFF),
       GET_TOGGLE = (\<lambda>r. drop_bit 7 (r AND 0x80)),
       GET_NUM_TOUCH_RECORDS = (\<lambda>r. r AND 0x1F),
       CY_COMMAND_COMPLETE_TIMEOUT = 500, CY_CORE_MODE_CHANGE_TIMEOUT = 1000,
       CY_CORE_RESET_AND_WAIT_TIMEOUT = 500, CY_CORE_WAIT_SYSINFO_MODE_TIMEOUT = 2000,
       CY_WATCHDOG_TIMEOUT = 1000,
       IS_TMO = (\<lambda>t. t = 0),
       level_irq_udelay = 0, cpdata_flags = 0, has_xres = True, has_power = False,
       power_rc = (\<lambda>h. 0),
       bus_read = (\<lambda>h addr n. (0, replicate n 0)),
       bus_write = (\<lambda>h addr buf. 0),
       msecs_to_jiffies = (\<lambda>ms. ms),
       sleeper = (\<lambda>k t s. (0, s)),
       contender = (\<lambda>k s. s),
       stray_byte = 0 \<rparr>"

definition cd0 :: core_data where
  "cd0 =
     \<lparr> mode = CY_MODE_UNKNOWN, int_status = 0, heartbeat_count = 0,
       startup_state = STARTUP_NONE, sleep_state = SS_SLEEP_OFF,
       exclusive_dev = 0, exclusive_waits = 0, cmd_toggle = 0,
       invalid_touch_app = False, bl_fast_exit = False, wake_initiated_by_device = False,
       easy_wakeup_gesture = 0, si_ready = False, si_cmd_ofs = 0, si_rep_ofs = 0,
       si_rep_hdr_size = 0, si_tt_stat_ofs = 0, si_tch_rec_size = 0, si_max_tchs = 0,
       xy_mode = None, trace = [], cmds = [], nwaits = 0 \<rparr>"

text \<open>
  Three devices for the command executor, all in CAT mode with the command register at
  offset 2. The quiet bench itself: the command register always reads 0 (completion bit
  clear) and no interrupt arrives. \<open>bench_stuck\<close>: the same register, but an interrupt
  whose header shows the completion bit arrives during every wait. \<open>bench_router\<close>: the
  register reads busy on the first read and complete afterwards, an interrupt with the
  completion bit arrives during every wait, and the response is \<open>00 80\<close>.
\<close>

definition stuck_dev :: "event list \<Rightarrow> nat \<Rightarrow> nat \<Rightarrow> int \<times> u8 list" where
  "stuck_dev h addr n = (if addr = 0 then (0, [0x20, 0x00, 0x40]) else (0, replicate n 0))"

definition router_dev :: "event list \<Rightarrow> nat \<Rightarrow> nat \<Rightarrow> int \<times> u8 list" where
  "router_dev h addr n =
     (if addr = 0 then (0, [0x20, 0x00, 0x40])
      else if addr = 2 then (0, [if Bus_read 2 1 \<in> set h then 0x40 else 0x00])
      else (0, [0x00, 0x80]))"

definition bench_stuck :: platform where
  "bench_stuck =
     bench\<lparr>bus_read := stuck_dev,
           sleeper := (\<lambda>k t s. (1, cyttsp4_irq (bench\<lparr>bus_read := stuck_dev\<rparr>) s))\<rparr>"

definition bench_router :: platform where
  "bench_router =
     bench\<lparr>bus_read := router_dev,
           sleeper := (\<lambda>k t s. (1, cyttsp4_irq (bench\<lparr>bus_read := router_dev\<rparr>) s))\<rparr>"

definition cd_cat :: core_data where
  "cd_cat = cd0\<lparr>mode := CY_MODE_CAT, si_cmd_ofs := 2\<rparr>"

text \<open>
  A device with a corrupted application image: every read starts with the bytes of
  \<open>ldr_err_app\<close> (so the three-byte header is a bootloader header), and an interrupt
  arrives during every wait. \<open>no_steps\<close> are startup steps that do nothing and succeed.
\<close>

definition corrupt_dev :: "event list \<Rightarrow> nat \<Rightarrow> nat \<Rightarrow> int \<times> u8 list" where
  "corrupt_dev h addr n = (0, take n ldr_err_app)"

definition bench_corrupt :: platform where
  "bench_corrupt =
     bench\<lparr>bus_read := corrupt_dev,
           sleeper := (\<lambda>k t s. (1, cyttsp4_irq (bench\<lparr>bus_read := corrupt_dev\<rparr>) s))\<rparr>"

definition no_steps :: startup_steps where
  "no_steps =
     \<lparr> get_sysinfo_regs = (\<lambda>cd. (0, cd)), set_initial_scantype = (\<lambda>cd. (0, cd)),
       set_proximity_off = (\<lambda>cd. (0, cd)), get_ttconfig_info = (\<lambda>cd. (0, cd)),
       get_active_refresh_cycle = (\<lambda>cd. (0, cd)), core_sleep = (\<lambda>cd. cd) \<rparr>"

text \<open>
  A device that serves configuration commands, with rows of 128 bytes. \<open>last_cmd_rev\<close>
  finds, in the events so far (the latest first), the last opcode written to the command
  register at offset 2 and the parameters written just before it at offset 3. The device
  answers a read of the command register with the completion bit, a read of the header
  with CAT mode and the completion bit, and a read of the response according to the last
  command: the row size 128; for a block read the status, the block, the length, a reserved
  byte, bytes \<open>11 22 33 ..\<close> and their CRC; for a block write the status, the block and
  the length; for the CRC verification a calculated CRC \<open>BEEF\<close> and a stored CRC
  \<open>1234\<close>. An interrupt arrives during every wait. \<open>cfg_consts\<close> are the
  configuration constants of the bench, \<open>cd_cfg\<close> is the driver in CAT mode with the
  descriptor loaded, and \<open>new_cfg\<close> are 60 bytes to write.
\<close>

fun last_cmd_rev :: "event list \<Rightarrow> u8 \<times> u8 list" where
  "last_cmd_rev [] = (0, [])"
| "last_cmd_rev (Bus_write a bs # rest) =
     (if a = 2
      then (hd bs, case rest of
                     Bus_write a' ps # _ \<Rightarrow> if a' = 3 then ps else []
                   | _ \<Rightarrow> [])
      else last_cmd_rev rest)"
| "last_cmd_rev (_ # rest) = last_cmd_rev rest"

definition cfg_pattern :: "nat \<Rightarrow> u8 list" where
  "cfg_pattern n = map (\<lambda>i. of_nat (17 * (i + 1))) [0 ..< n]"

definition cfg_response :: "u8 \<times> u8 list \<Rightarrow> u8 list" where
  "cfg_response c =
     (case c of (op, ps) \<Rightarrow>
        if op = CY_CMD_CAT_GET_CFG_ROW_SZ then [0x00, 0x80]
        else if op = CY_CMD_CAT_READ_CFG_BLK
        then (let n = unat (get_unaligned_be16 (ps ! 2) (ps ! 3)) in
              [0x00, ps ! 4, ps ! 2, ps ! 3, 0x00] @ cfg_pattern n
                @ [HI_BYTE (cyttsp4_calc_app_crc (cfg_pattern n) n),
                   LO_BYTE (cyttsp4_calc_app_crc (cfg_pattern n) n)])
        else if op = CY_CMD_CAT_WRITE_CFG_BLK then [0x00, ps ! 4, ps ! 2, ps ! 3, 0x00]
        else [0x01, 0xBE, 0xEF, 0x12, 0x34])"

definition cfg_dev :: "event list \<Rightarrow> nat \<Rightarrow> nat \<Rightarrow> int \<times> u8 list" where
  "cfg_dev h addr n =
     (if addr = 0 then (0, [0x20, 0x00, 0x40])
      else if addr = 2 then (0, [0x40])
      else (0, cfg_response (last_cmd_rev (rev h))))"

definition bench_cfg :: platform where
  "bench_cfg =
     bench\<lparr>bus_read := cfg_dev,
           sleeper := (\<lambda>k t s. (1, cyttsp4_irq (bench\<lparr>bus_read := cfg_dev\<rparr>) s))\<rparr>"

definition cfg_consts :: cfg_env where
  "cfg_consts =
     \<lparr> CY_CMD_CAT_GET_CFG_ROW_SIZE_RET_SZ = 2, CY_CMD_CAT_WRITE_CFG_BLK_RET_SZ = 5,
       CY_CMD_CAT_VERIFY_CFG_BLK_CRC_RET_SZ = 5, CY_CONFIG_LENGTH_INFO_SIZE = 4,
       CY_CONFIG_LENGTH_INFO_OFFSET = 0, CY_CONFIG_LENGTH_OFFSET = 0,
       CY_CONFIG_MAXLENGTH_OFFSET = 2,
       GET_FIELD16 = (\<lambda>b0 b1. get_unaligned_be16 b1 b0),
       PUT_FIELD16 = (\<lambda>v. [LO_BYTE v, HI_BYTE v]),
       kmalloc_ok = (\<lambda>h n. True) \<rparr>"

definition cd_cfg :: core_data where
  "cd_cfg = cd0\<lparr>mode := CY_MODE_CAT, si_ready := True, si_cmd_ofs := 2\<rparr>"


definition new_cfg :: "u8 list" where
  "new_cfg = replicate 60 0xC3"

text \<open>
  The device that answers every header read with the bootloader-idle header \<open>01 01 00\<close>.
\<close>

definition bench_idle :: platform where
  "bench_idle = bench\<lparr>bus_read := (\<lambda>h addr n. (0, [0x01, 0x01, 0x00]))\<rparr>"




section \<open>Observations on a run\<close>

text \<open>The number of times the startup work has been scheduled.\<close>

definition restarts :: "core_data \<Rightarrow> nat" where
  "restarts cd = count_list (trace cd) Schedule_startup_work"

text \<open>The other contexts issue no commands of their own while a caller waits.\<close>

definition keeps_cmds :: "platform \<Rightarrow> bool" where
  "keeps_cmds P = (\<forall>k t s. cmds (snd (sleeper P k t s)) = cmds s)"



text \<open>
  The configuration-block reads among recorded commands, as (row, length), and the rows
  that a write of \<open>len\<close> bytes at \<open>offset\<close> enters or leaves inside the row.
\<close>

definition is_cfg_read :: "cyttsp4_mode \<times> u8 list \<times> nat \<Rightarrow> bool" where
  "is_cfg_read e = (hd (fst (snd e)) = CY_CMD_CAT_READ_CFG_BLK)"

definition cfg_read_of :: "cyttsp4_mode \<times> u8 list \<times> nat \<Rightarrow> nat \<times> nat" where
  "cfg_read_of e =
     (unat (get_unaligned_be16 (fst (snd e) ! 1) (fst (snd e) ! 2)),
      unat (get_unaligned_be16 (fst (snd e) ! 3) (fst (snd e) ! 4)))"

definition cfg_reads :: "(cyttsp4_mode \<times> u8 list \<times> nat) list \<Rightarrow> (nat \<times> nat) list" where
  "cfg_reads es = map cfg_read_of (filter is_cfg_read es)"

definition partial_rows :: "nat \<Rightarrow> nat \<Rightarrow> nat \<Rightarrow> nat list" where
  "partial_rows rs offset len =
     remdups ((if offset mod rs \<noteq> 0 then [offset div rs] else [])
              @ (if (offset + len) mod rs \<noteq> 0 then [(offset + len) div rs] else []))"

text \<open>
  The bytes in front of the offset that the read of the first row returns, the state
  \<open>cd\<close> being the one after the row size command.
\<close>

definition row_front :: "cfg_env \<Rightarrow> platform \<Rightarrow> core_data \<Rightarrow> u8 \<Rightarrow> u16 \<Rightarrow> u16 \<Rightarrow> u8 list" where
  "row_front C P cd ebid rs offset =
     take (unat offset mod unat rs)
       (fst (snd (cyttsp4_read_config_block C P cd ebid
                    (of_nat (unat offset div unat rs)) (replicate (unat rs) 0)
                    (of_nat (unat offset mod unat rs)))))"

definition verify_entry :: "cfg_env \<Rightarrow> u8 \<Rightarrow> cyttsp4_mode \<times> u8 list \<times> nat" where
  "verify_entry C ebid =
     (CY_MODE_CAT, [CY_CMD_CAT_VERIFY_CFG_BLK_CRC, ebid], CY_CMD_CAT_VERIFY_CFG_BLK_CRC_RET_SZ C)"

text \<open>
  The bench of the configuration device between two commands, the bus traffic of one
  command there, and the state after it.
\<close>

definition cfg_idle :: "core_data \<Rightarrow> bool" where
  "cfg_idle cd \<longleftrightarrow> mode cd = CY_MODE_CAT \<and> int_status cd = 0 \<and> sleep_state cd = SS_SLEEP_OFF
     \<and> xy_mode cd = None \<and> si_cmd_ofs cd = 2 \<and> si_ready cd"

definition exec_events :: "u8 \<Rightarrow> u8 list \<Rightarrow> nat \<Rightarrow> event list" where
  "exec_events cmd params n =
     [Bus_read 2 1] @ (if params = [] then [] else [Bus_write 3 params])
       @ [Bus_write 2 [cmd AND 0x3F], Bus_read 0 3, Wake_up,
          Atten_cb CY_ATTEN_IRQ (Some CY_MODE_CAT), Bus_write 0 [0xA0], Udelay 0,
          Bus_read 3 n]"

definition after_exec :: "core_data \<Rightarrow> u8 \<Rightarrow> u8 list \<Rightarrow> nat \<Rightarrow> core_data" where
  "after_exec cd cmd params n =
     cd\<lparr>cmd_toggle := 0, trace := trace cd @ exec_events cmd params n,
        cmds := cmds cd @ [(CY_MODE_CAT, cmd # params, n)], nwaits := Suc (nwaits cd)\<rparr>"

text \<open>
  The states of the bench during the write of \<open>new_cfg\<close> at offset 100 of block 0: after
  the read of the length information, after the write, and after the CRC verification.
\<close>

definition cfg_run1 :: core_data where
  "cfg_run1 = after_exec cd_cfg CY_CMD_CAT_READ_CFG_BLK (tl (read_cfg_blk_cmd 0 0 4)) 11"

definition cfg_written :: "core_data \<Rightarrow> core_data" where
  "cfg_written cd =
     after_exec (after_exec (after_exec (after_exec cd
       CY_CMD_CAT_GET_CFG_ROW_SZ [] 2)
       CY_CMD_CAT_READ_CFG_BLK (tl (read_cfg_blk_cmd 0 0 100)) 107)
       CY_CMD_CAT_WRITE_CFG_BLK
         (tl (write_cfg_blk_cmd 0 0 (cfg_pattern 100 @ bytes_from new_cfg 28) 128)) 5)
       CY_CMD_CAT_WRITE_CFG_BLK (tl (write_cfg_blk_cmd 0 1 (drop 28 new_cfg) 32)) 5"

definition cfg_run2 :: core_data where
  "cfg_run2 = cfg_written cfg_run1"

definition cfg_run3 :: core_data where
  "cfg_run3 = after_exec cfg_run2 CY_CMD_CAT_VERIFY_CFG_BLK_CRC [0] 5"

chapter \<open>Verified properties\<close>

section \<open>Properties of the CRC\<close>

text \<open>
  C7. The CRC of a concatenation is the partial CRC of the second part, started from the
  partial CRC of the first part with the initial value \<open>0xFFFF\<close>: for all byte sequences
  \<open>A\<close> and \<open>B\<close>, \<open>crc (A @ B) = crc_partial B (crc_partial A 0xFFFF)\<close>. The function is
  CRC-16/CCITT-FALSE: on the ASCII digits \<open>123456789\<close> it gives the check value
  \<open>0x29B1\<close> of that CRC.
\<close>

theorem crc_concat:
  "cyttsp4_calc_app_crc (A @ B) (length (A @ B)) =
     cyttsp4_calc_partial_app_crc B (length B)
       (cyttsp4_calc_partial_app_crc A (length A) 0xFFFF)
   \<and> cyttsp4_calc_app_crc [0x31, 0x32, 0x33, 0x34, 0x35, 0x36, 0x37, 0x38, 0x39] 9 = 0x29B1"
proof (rule conjI)
  show "cyttsp4_calc_app_crc (A @ B) (length (A @ B)) =
     cyttsp4_calc_partial_app_crc B (length B)
       (cyttsp4_calc_partial_app_crc A (length A) 0xFFFF)"
    by (simp add: cyttsp4_calc_app_crc_def cyttsp4_calc_partial_app_crc_def)
  show "cyttsp4_calc_app_crc [0x31, 0x32, 0x33, 0x34, 0x35, 0x36, 0x37, 0x38, 0x39] 9 = 0x29B1"
    by code_simp
qed

section \<open>Properties of the touch decoder\<close>

lemma length_be_bytes: "length (be_bytes n x) = n"
  by (induction n arbitrary: x) simp_all

lemma be_bytes_numeral:
  "be_bytes (numeral k) x = be_bytes (pred_numeral k) (x div 256) @ [of_nat x]"
  by (subst numeral_eq_Suc) (rule be_bytes.simps)

lemma fold_axis_step_be_bytes:
  "fold (axis_step 0) (be_bytes n x) 0 = of_nat (x mod 256 ^ n)"
proof (induction n arbitrary: x)
  case 0
  show ?case by simp
next
  case (Suc n)
  have "fold (axis_step 0) (be_bytes (Suc n) x) 0 =
        of_nat ((x div 256) mod 256 ^ n) * 256 + ucast (of_nat x :: u8)"
    by (simp add: Suc axis_step_def)
  also have "\<dots> = of_nat (((x div 256) mod 256 ^ n) * 256 + x mod 256)"
    by (simp add: unsigned_of_nat take_bit_eq_mod)
  also have "((x div 256) mod 256 ^ n) * 256 + x mod 256 = x mod 256 ^ Suc n"
    by (simp add: mod_mult2_eq)
  finally show ?case .
qed

lemma unat_u8_bound: "unat (b :: u8) < 256"
  using unsigned_less [of b, where ?'a = nat] by simp

lemma bits_2_bytes_u8:
  "cyttsp4_bits_2_bytes (ucast (bits :: u8)) =
     ((unat bits + 7) div 8, push_bit (unat bits) 1)"
proof -
  have u: "unat (ucast bits :: 32 word) = unat bits"
    using unat_u8_bound [of bits] by (simp add: unsigned_ucast_eq take_bit_nat_eq_self)
  then have "unat (ucast bits + 7 :: 32 word) = unat bits + 7"
    using unat_u8_bound [of bits] by (simp add: unat_word_ariths)
  then have "unat ((ucast bits + 7) div 8 :: 32 word) = (unat bits + 7) div 8"
    by (simp add: unat_div)
  with u show ?thesis
    by (simp add: cyttsp4_bits_2_bytes_def)
qed

lemma narrowed_max_minus_1:
  assumes "n \<le> 31"
  shows "(ucast (2 ^ n :: 64 word) :: s32) - 1 = mask n"
proof -
  have "(ucast (2 ^ n :: 64 word) :: s32) = 2 ^ n"
    using assms by - (rule bit_word_eqI, auto simp: bit_simps)
  then show ?thesis by (simp add: mask_eq_decr_exp)
qed

lemma sint_of_nat_small:
  assumes "v < 2 ^ 31"
  shows "sint (of_nat v :: s32) = int v"
  using assms by (simp add: signed_of_nat signed_take_bit_int_eq_self)

lemma of_nat_and_mask_small:
  assumes "v < 2 ^ n"
  shows "(of_nat v :: s32) AND mask n = of_nat v"
  using assms by (simp flip: take_bit_eq_mask add: take_bit_of_nat take_bit_nat_eq_self)

lemma drop_bit_of_shifted:
  assumes "v * 2 ^ k < 2 ^ 32"
  shows "drop_bit k (of_nat (v * 2 ^ k) :: s32) = of_nat v"
proof -
  have "unat (drop_bit k (of_nat (v * 2 ^ k) :: s32)) =
        drop_bit k (unat (of_nat (v * 2 ^ k) :: s32))"
    by (rule unat_drop_bit_eq)
  also have "unat (of_nat (v * 2 ^ k) :: s32) = v * 2 ^ k"
    by (subst unat_of_nat) (use assms in simp)
  also have "drop_bit k (v * 2 ^ k) = v"
    by (simp add: drop_bit_eq_div)
  finally have "of_nat (unat (drop_bit k (of_nat (v * 2 ^ k) :: s32))) = (of_nat v :: s32)"
    by simp
  then show ?thesis by simp
qed

lemma ucast_of_nat_small:
  assumes "x < 256"
  shows "ucast (of_nat x :: u8) = (of_nat x :: s32)"
  using assms by (simp add: unsigned_of_nat take_bit_nat_eq_self)

lemma value_below_int_range:
  assumes "n \<le> 31" and "v < (2::nat) ^ n"
  shows "v < 2 ^ 31"
proof -
  have "(2::nat) ^ n \<le> 2 ^ 31" using assms(1) by (rule power_increasing) simp
  with assms(2) show ?thesis by simp
qed

lemma roundtrip_byte_aligned:
  assumes bits: "unat bits \<le> 31" and v: "v < 2 ^ unat bits"
  shows "decode_touch_field bits 0 (encode_touch_field bits 0 v) = Some (int v)"
proof -
  let ?n = "(unat bits + 7) div 8"
  have "unat bits \<le> 8 * ?n" by arith
  then have "(2::nat) ^ unat bits \<le> 2 ^ (8 * ?n)" by (rule power_increasing) simp
  also have "(2::nat) ^ (8 * ?n) = 256 ^ ?n" by (simp add: power_mult)
  finally have "v mod 256 ^ ?n = v" using v by simp
  then have f: "fold (axis_step 0) (be_bytes ?n v) 0 = (of_nat v :: s32)"
    by (simp add: fold_axis_step_be_bytes)
  have "v < 2 ^ 31" using bits v by (rule value_below_int_range)
  then have "sint ((of_nat v :: s32) AND mask (unat bits)) = int v"
    using v by (simp add: of_nat_and_mask_small sint_of_nat_small)
  with f show ?thesis
    using bits
    by (simp add: decode_touch_field_def encode_touch_field_def bits_2_bytes_u8
        cyttsp4_get_touch_axis_def length_be_bytes narrowed_max_minus_1)
qed

lemma roundtrip_within_byte:
  assumes fit: "unat bits + bofs \<le> 8" and v: "v < 2 ^ unat bits"
  shows "decode_touch_field bits bofs (encode_touch_field bits bofs v) = Some (int v)"
proof (cases "unat bits = 0")
  case True
  with v have "v = 0" by simp
  with True show ?thesis
    by (simp add: decode_touch_field_def encode_touch_field_def bits_2_bytes_u8
        cyttsp4_get_touch_axis_def)
next
  case False
  with fit have n: "(unat bits + 7) div 8 = Suc 0" by arith
  have bits: "unat bits \<le> 31" using fit by simp
  have "v * 2 ^ bofs < 2 ^ unat bits * 2 ^ bofs" using v by simp
  also have "\<dots> = (2::nat) ^ (unat bits + bofs)" by (simp add: power_add)
  also have "\<dots> \<le> 2 ^ 8" using fit by (rule power_increasing) simp
  finally have small: "v * 2 ^ bofs < 256" by simp
  then have "ucast (of_nat (v * 2 ^ bofs) :: u8) = (of_nat (v * 2 ^ bofs) :: s32)"
    by (rule ucast_of_nat_small)
  moreover have "drop_bit bofs (of_nat (v * 2 ^ bofs) :: s32) = of_nat v"
    using small by (intro drop_bit_of_shifted) simp
  ultimately have f:
    "fold (axis_step bofs) (be_bytes (Suc 0) (v * 2 ^ bofs)) 0 = (of_nat v :: s32)"
    by (simp add: axis_step_def del: of_nat_mult of_nat_power)
  have "v < 2 ^ 31" using bits v by (rule value_below_int_range)
  then have "sint ((of_nat v :: s32) AND mask (unat bits)) = int v"
    using v by (simp add: of_nat_and_mask_small sint_of_nat_small)
  with f show ?thesis
    using bits n
    by (simp add: decode_touch_field_def encode_touch_field_def bits_2_bytes_u8
        cyttsp4_get_touch_axis_def narrowed_max_minus_1)
qed

text \<open>
  C6, as stated, fails: a 12-bit field at bit offset 4 occupies \<open>ceil(12/8) = 2\<close> bytes;
  the value \<open>0xABC\<close> is encoded as \<open>AB C0\<close>, and the decoder, which shifts each byte
  on its own, returns \<open>0xA0C\<close>.
\<close>

theorem touch_field_roundtrip_counterexample:
  "(0xABC :: nat) < 2 ^ 12 \<and> encode_touch_field 12 4 0xABC = [0xAB, 0xC0]
   \<and> decode_touch_field 12 4 (encode_touch_field 12 4 0xABC) = Some 0xA0C
   \<and> decode_touch_field 12 4 (encode_touch_field 12 4 0xABC) \<noteq> Some 0xABC"
proof -
  have "encode_touch_field 12 4 0xABC = be_bytes 2 (0xABC * 2 ^ 4)"
    by (simp add: encode_touch_field_def)
  also have "\<dots> = [0xAB, 0xC0]"
    by (simp add: be_bytes_numeral)
  finally have e: "encode_touch_field 12 4 0xABC = [0xAB, 0xC0]" .
  have d: "decode_touch_field 12 4 [0xAB, 0xC0] = Some 0xA0C"
    by code_simp
  show ?thesis unfolding e d by simp
qed

text \<open>
  C6, amended. For a field of at most 31 bits that either starts on a byte boundary
  (bit offset 0) or lies within a single byte (\<open>bits + bofs \<le> 8\<close>), decoding the
  reference encoding of any value \<open>v\<close> in \<open>[0, 2^bits)\<close> returns \<open>v\<close>.
\<close>

theorem touch_field_roundtrip:
  assumes "unat bits \<le> 31" and "v < 2 ^ unat bits"
    and "bofs = 0 \<or> unat bits + bofs \<le> 8"
  shows "decode_touch_field bits bofs (encode_touch_field bits bofs v) = Some (int v)"
  using assms roundtrip_byte_aligned roundtrip_within_byte by blast

theorem touch_field_roundtrip_witness:
  "decode_touch_field 12 0 (encode_touch_field 12 0 0xABC) = Some 0xABC
   \<and> decode_touch_field 2 5 (encode_touch_field 2 5 3) = Some 3"
  using touch_field_roundtrip [of 12 "0xABC" 0] touch_field_roundtrip [of 2 3 5]
  by simp

section \<open>Handshake\<close>

text \<open>
  C10. For every header byte with the mode-change bit set, \<^verbatim>\<open>cyttsp4_handshake\<close> returns
  0 and leaves the state, and so the record of bus transfers, as it was: no write. With
  the bit clear it issues exactly one write, of the header byte with the toggle bit
  flipped, to the base register, and returns that write's code.
\<close>

theorem handshake_mode_change_bit:
  "(md AND CY_HST_MODE_CHANGE P \<noteq> 0 \<longrightarrow> cyttsp4_handshake P cd md = (0, cd))
   \<and> (md AND CY_HST_MODE_CHANGE P = 0 \<longrightarrow>
        cyttsp4_handshake P cd md =
          (bus_write P (trace cd) (CY_REG_BASE P) [md XOR CY_HST_TOGGLE P],
           cd\<lparr>trace := trace cd @ [Bus_write (CY_REG_BASE P) [md XOR CY_HST_TOGGLE P]]\<rparr>))"
  by (simp add: cyttsp4_handshake_def cyttsp4_adap_write_def Let_def)

theorem handshake_mode_change_bit_witness:
  "cyttsp4_handshake bench cd0 0x18 = (0, cd0)
   \<and> cyttsp4_handshake bench cd0 0x10 = (0, cd0\<lparr>trace := [Bus_write 0 [0x90]]\<rparr>)"
  using handshake_mode_change_bit [of "0x18" bench cd0]
    handshake_mode_change_bit [of "0x10" bench cd0]
  by (simp add: bench_def cd0_def)

section \<open>Command executor in the wrong mode\<close>

text \<open>
  C3. When the mode passed to the command executor differs from the driver's current
  mode, \<^verbatim>\<open>_cyttsp4_exec_cmd\<close> returns \<open>-EACCES\<close> with the state untouched, and
  \<^verbatim>\<open>cyttsp4_exec_cmd\<close> returns \<open>-EACCES\<close> with the response buffer as it was and no
  event added: no bus read, no bus write, no wait.
\<close>

theorem exec_cmd_wrong_mode:
  assumes "md \<noteq> mode cd"
  shows "U_cyttsp4_exec_cmd P cd md cmd params = (- EACCES, cd)
    \<and> cyttsp4_exec_cmd P cd md cmd params return_buf return_buf_size timeout_ms =
        (- EACCES, return_buf, cd\<lparr>cmds := cmds cd @ [(md, cmd # params, return_buf_size)]\<rparr>)
    \<and> trace (snd (snd (cyttsp4_exec_cmd P cd md cmd params return_buf return_buf_size timeout_ms)))
        = trace cd
    \<and> nwaits (snd (snd (cyttsp4_exec_cmd P cd md cmd params return_buf return_buf_size timeout_ms)))
        = nwaits cd"
  using assms
  by (simp add: cyttsp4_exec_cmd_def U_cyttsp4_exec_cmd_def exec_cmd_response_def Let_def
      EACCES_def EBUSY_def)

theorem exec_cmd_wrong_mode_witness:
  "cyttsp4_exec_cmd bench cd0 CY_MODE_CAT 2 [] (Some [0, 0]) 2 500 =
     (- 13, Some [0, 0], cd0\<lparr>cmds := [(CY_MODE_CAT, [2], 2)]\<rparr>)"
  using exec_cmd_wrong_mode [of CY_MODE_CAT cd0 bench 2 "[]" "Some [0, 0]" 2 500]
  by (simp add: cd0_def EACCES_def)

section \<open>Busy, wait, one retry, response\<close>

text \<open>
  C2. A command is executed in the current mode \<open>md\<close>, whose command register is at
  \<open>ofs\<close>; the first read of that register (one byte) succeeds. Name the steps the
  executor may take: \<open>(rc0, cd1)\<close> the first attempt, \<open>(rcw, cd2)\<close> the wait for the pending
  command after a busy first attempt, \<open>(rc2, cd3)\<close> the second attempt; \<open>(rca, cda)\<close> the
  attempt that counts, the second after a busy first one and the first otherwise;
  \<open>(rcw2, cd4)\<close> the wait for completion, \<open>(rcr, resp, cd5)\<close> the read of
  \<open>return_buf_size\<close> bytes one byte after the command offset. Then, for every command:
  \<^item> with the completion bit clear the first attempt reports \<open>-EBUSY\<close> and has done
    nothing on the bus but the read of the command register; with the bit set an
    attempt that succeeds has written the parameters, when there are any, one byte
    after the command register and then the masked opcode to the register;
  \<^item> after a busy first attempt: when the wait fails, its code is the result and there
    is no second attempt; when the wait succeeds there is one second attempt, and when
    it is busy again (or fails) that code is the result and the state is the one it
    left: no third attempt, no further wait;
  \<^item> a first attempt that is not busy is the only one: when it fails its code is the
    result;
  \<^item> after the attempt that counts has succeeded: with a zero timeout the result is 0
    with no wait; a failed wait for completion gives its code; after a completed wait,
    with no response requested (length 0 or no buffer) the result is 0 with no read,
    and with a response of non-zero length requested the response is read at the
    command offset plus one: that read is the last event, its bytes are returned, and
    its code, when negative, is the result.
\<close>

theorem exec_cmd_busy_retry_once:
  assumes md: "md = mode cd" and ofs: "U_get_cmd_offs P cd md = int ofs"
    and rd: "bus_read P (trace cd) ofs 1 = (rc1, bytes)" and ok: "0 \<le> rc1"
    and first: "U_cyttsp4_exec_cmd P
                  (cd\<lparr>cmds := cmds cd @ [(md, cmd # params, return_buf_size)]\<rparr>)
                  md cmd params = (rc0, cd1)"
    and wait: "U_cyttsp4_wait_cmd_exec P cd1 (CY_COMMAND_COMPLETE_TIMEOUT P) = (rcw, cd2)"
    and second: "U_cyttsp4_exec_cmd P cd2 md cmd params = (rc2, cd3)"
    and acc: "(if rc0 = - EBUSY then (rc2, cd3) else (rc0, cd1)) = (rca, cda)"
    and wait2: "U_cyttsp4_wait_cmd_exec P cda timeout_ms = (rcw2, cd4)"
    and rd2: "cyttsp4_adap_read P cd4 (nat (U_get_cmd_offs P cd4 md + 1)) return_buf_size
                = (rcr, resp, cd5)"
  shows "(hd (take 1 (bytes @ [0])) AND CY_CMD_COMPLETE_MASK P = 0 \<longrightarrow>
            rc0 = - EBUSY \<and> trace cd1 = trace cd @ [Bus_read ofs 1])
    \<and> (hd (take 1 (bytes @ [0])) AND CY_CMD_COMPLETE_MASK P \<noteq> 0 \<and> 0 \<le> rc0 \<longrightarrow>
            rc0 = 0
          \<and> trace cd1 = trace cd @ [Bus_read ofs 1]
                @ (if params = [] then [] else [Bus_write (ofs + 1) params])
                @ [Bus_write ofs [cmd AND CY_CMD_MASK P]])
    \<and> (rc0 = - EBUSY \<and> rcw \<noteq> 0 \<longrightarrow>
         cyttsp4_exec_cmd P cd md cmd params return_buf return_buf_size timeout_ms
           = (rcw, return_buf, cd2))
    \<and> (rc0 = - EBUSY \<and> rcw = 0 \<and> rc2 < 0 \<longrightarrow>
         cyttsp4_exec_cmd P cd md cmd params return_buf return_buf_size timeout_ms
           = (rc2, return_buf, cd3))
    \<and> (rc0 = - EBUSY \<and> rcw = 0 \<and> rc2 = - EBUSY \<longrightarrow>
         cyttsp4_exec_cmd P cd md cmd params return_buf return_buf_size timeout_ms
           = (- EBUSY, return_buf, cd3))
    \<and> (rc0 \<noteq> - EBUSY \<and> rc0 < 0 \<longrightarrow>
         cyttsp4_exec_cmd P cd md cmd params return_buf return_buf_size timeout_ms
           = (rc0, return_buf, cd1))
    \<and> ((rc0 = - EBUSY \<longrightarrow> rcw = 0) \<and> 0 \<le> rca \<longrightarrow>
         (timeout_ms = 0 \<longrightarrow>
            cyttsp4_exec_cmd P cd md cmd params return_buf return_buf_size timeout_ms
              = (0, return_buf, cda))
       \<and> (timeout_ms \<noteq> 0 \<and> rcw2 < 0 \<longrightarrow>
            cyttsp4_exec_cmd P cd md cmd params return_buf return_buf_size timeout_ms
              = (rcw2, return_buf, cd4))
       \<and> (timeout_ms \<noteq> 0 \<and> 0 \<le> rcw2 \<and> (return_buf_size = 0 \<or> return_buf = None) \<longrightarrow>
            cyttsp4_exec_cmd P cd md cmd params return_buf return_buf_size timeout_ms
              = (0, return_buf, cd4))
       \<and> (timeout_ms \<noteq> 0 \<and> 0 \<le> rcw2 \<and> return_buf_size \<noteq> 0 \<and> return_buf \<noteq> None
            \<and> U_get_cmd_offs P cd4 md < 0 \<longrightarrow>
            cyttsp4_exec_cmd P cd md cmd params return_buf return_buf_size timeout_ms
              = (- EACCES, return_buf, cd4))
       \<and> (timeout_ms \<noteq> 0 \<and> 0 \<le> rcw2 \<and> return_buf_size \<noteq> 0 \<and> return_buf \<noteq> None
            \<and> 0 \<le> U_get_cmd_offs P cd4 md \<longrightarrow>
            cyttsp4_exec_cmd P cd md cmd params return_buf return_buf_size timeout_ms
              = (if rcr < 0 then rcr else 0, Some resp, cd5)
          \<and> trace cd5 =
               trace cd4 @ [Bus_read (nat (U_get_cmd_offs P cd4 md + 1)) return_buf_size]
          \<and> resp = take return_buf_size
                      (snd (bus_read P (trace cd4) (nat (U_get_cmd_offs P cd4 md + 1))
                              return_buf_size) @ replicate return_buf_size 0)))"
proof -
  let ?busy = "hd (take 1 (bytes @ [0])) AND CY_CMD_COMPLETE_MASK P = 0"
  let ?run = "cyttsp4_exec_cmd P cd md cmd params return_buf return_buf_size timeout_ms"
  have ofs': "U_get_cmd_offs P
      (cd\<lparr>cmds := cmds cd @ [(md, cmd # params, return_buf_size)]\<rparr>) md = int ofs"
    using ofs by (cases md) (simp_all add: U_get_cmd_offs_def)
  have c1: "?busy \<longrightarrow> rc0 = - EBUSY \<and> trace cd1 = trace cd @ [Bus_read ofs 1]"
    using first md ofs' rd ok
    by (auto simp add: U_cyttsp4_exec_cmd_def cyttsp4_adap_read_def Let_def)
  have c2: "\<not> ?busy \<and> 0 \<le> rc0 \<longrightarrow>
            rc0 = 0
          \<and> trace cd1 = trace cd @ [Bus_read ofs 1]
                @ (if params = [] then [] else [Bus_write (ofs + 1) params])
                @ [Bus_write ofs [cmd AND CY_CMD_MASK P]]"
    using first md ofs' rd ok
    by (auto simp add: U_cyttsp4_exec_cmd_def cyttsp4_adap_read_def cyttsp4_adap_write_def
        Let_def nat_add_distrib split: if_splits)
  have e: "?run =
      (if rc0 = - EBUSY
       then (if rcw \<noteq> 0 then (rcw, return_buf, cd2)
             else exec_cmd_response P cd3 md return_buf return_buf_size timeout_ms rc2)
       else exec_cmd_response P cd1 md return_buf return_buf_size timeout_ms rc0)"
    using first wait second by (simp add: cyttsp4_exec_cmd_def Let_def)
  have neg: "exec_cmd_response P s md return_buf return_buf_size timeout_ms r
        = (r, return_buf, s)" if "r < 0" for r s
    using that by (simp add: exec_cmd_response_def)
  have nb: "- EBUSY < 0" by (simp add: EBUSY_def)
  have c3: "rc0 = - EBUSY \<and> rcw \<noteq> 0 \<longrightarrow> ?run = (rcw, return_buf, cd2)"
    using e by simp
  have c4: "rc0 = - EBUSY \<and> rcw = 0 \<and> rc2 < 0 \<longrightarrow> ?run = (rc2, return_buf, cd3)"
    using e neg by simp
  have c5: "rc0 = - EBUSY \<and> rcw = 0 \<and> rc2 = - EBUSY \<longrightarrow> ?run = (- EBUSY, return_buf, cd3)"
    using c4 nb by simp
  have c6: "rc0 \<noteq> - EBUSY \<and> rc0 < 0 \<longrightarrow> ?run = (rc0, return_buf, cd1)"
    using e neg by simp
  have a: "?run = exec_cmd_response P cda md return_buf return_buf_size timeout_ms rca"
    if "rc0 = - EBUSY \<longrightarrow> rcw = 0"
    using e acc that by (auto split: if_splits)
  have last: "trace cd5 =
        trace cd4 @ [Bus_read (nat (U_get_cmd_offs P cd4 md + 1)) return_buf_size]"
    "resp = take return_buf_size
              (snd (bus_read P (trace cd4) (nat (U_get_cmd_offs P cd4 md + 1))
                      return_buf_size) @ replicate return_buf_size 0)"
    using rd2 by (auto simp add: cyttsp4_adap_read_def split: prod.splits)
  have c7: "(rc0 = - EBUSY \<longrightarrow> rcw = 0) \<and> 0 \<le> rca \<longrightarrow>
         (timeout_ms = 0 \<longrightarrow> ?run = (0, return_buf, cda))
       \<and> (timeout_ms \<noteq> 0 \<and> rcw2 < 0 \<longrightarrow> ?run = (rcw2, return_buf, cd4))
       \<and> (timeout_ms \<noteq> 0 \<and> 0 \<le> rcw2 \<and> (return_buf_size = 0 \<or> return_buf = None) \<longrightarrow>
            ?run = (0, return_buf, cd4))
       \<and> (timeout_ms \<noteq> 0 \<and> 0 \<le> rcw2 \<and> return_buf_size \<noteq> 0 \<and> return_buf \<noteq> None
            \<and> U_get_cmd_offs P cd4 md < 0 \<longrightarrow> ?run = (- EACCES, return_buf, cd4))
       \<and> (timeout_ms \<noteq> 0 \<and> 0 \<le> rcw2 \<and> return_buf_size \<noteq> 0 \<and> return_buf \<noteq> None
            \<and> 0 \<le> U_get_cmd_offs P cd4 md \<longrightarrow>
            ?run = (if rcr < 0 then rcr else 0, Some resp, cd5)
          \<and> trace cd5 =
               trace cd4 @ [Bus_read (nat (U_get_cmd_offs P cd4 md + 1)) return_buf_size]
          \<and> resp = take return_buf_size
                      (snd (bus_read P (trace cd4) (nat (U_get_cmd_offs P cd4 md + 1))
                              return_buf_size) @ replicate return_buf_size 0))"
  proof (rule impI)
    assume h: "(rc0 = - EBUSY \<longrightarrow> rcw = 0) \<and> 0 \<le> rca"
    show "(timeout_ms = 0 \<longrightarrow> ?run = (0, return_buf, cda))
       \<and> (timeout_ms \<noteq> 0 \<and> rcw2 < 0 \<longrightarrow> ?run = (rcw2, return_buf, cd4))
       \<and> (timeout_ms \<noteq> 0 \<and> 0 \<le> rcw2 \<and> (return_buf_size = 0 \<or> return_buf = None) \<longrightarrow>
            ?run = (0, return_buf, cd4))
       \<and> (timeout_ms \<noteq> 0 \<and> 0 \<le> rcw2 \<and> return_buf_size \<noteq> 0 \<and> return_buf \<noteq> None
            \<and> U_get_cmd_offs P cd4 md < 0 \<longrightarrow> ?run = (- EACCES, return_buf, cd4))
       \<and> (timeout_ms \<noteq> 0 \<and> 0 \<le> rcw2 \<and> return_buf_size \<noteq> 0 \<and> return_buf \<noteq> None
            \<and> 0 \<le> U_get_cmd_offs P cd4 md \<longrightarrow>
            ?run = (if rcr < 0 then rcr else 0, Some resp, cd5)
          \<and> trace cd5 =
               trace cd4 @ [Bus_read (nat (U_get_cmd_offs P cd4 md + 1)) return_buf_size]
          \<and> resp = take return_buf_size
                      (snd (bus_read P (trace cd4) (nat (U_get_cmd_offs P cd4 md + 1))
                              return_buf_size) @ replicate return_buf_size 0))"
      unfolding a [OF conjunct1 [OF h]] using conjunct2 [OF h] wait2 rd2 last
      by (simp add: exec_cmd_response_def Let_def)
  qed
  show ?thesis
    by (rule conjI c1 c2 c3 c4 c5 c6 c7)+
qed

lemma pair_names: "p = (fst p, snd p)" by simp
lemma triple_names: "p = (fst p, fst (snd p), snd (snd p))" by simp

lemmas bench_exec_eval = U_cyttsp4_exec_cmd_def U_cyttsp4_wait_cmd_exec_def U_get_cmd_offs_def
  cyttsp4_exec_cmd_def exec_cmd_response_def
  wait_event_timeout_def cyttsp4_adap_read_def cyttsp4_adap_write_def cyttsp4_irq_def
  cyttsp4_irq_application_def cyttsp4_irq_report_def cyttsp4_irq_handshake_def
  cyttsp4_handshake_def call_atten_cb_def irq_cur_mode_def byte_at_def
  bench_def bench_stuck_def bench_router_def stuck_dev_def router_dev_def cd_cat_def cd0_def
  Let_def EBUSY_def ETIME_def EACCES_def CY_CMD_OP_WAIT_FOR_EVENT_def

lemma named_step: "fst p = v \<Longrightarrow> s = snd p \<Longrightarrow> p = (v, s)"
  by auto

lemma named_step3: "fst p = v \<Longrightarrow> fst (snd p) = b \<Longrightarrow> s = snd (snd p) \<Longrightarrow> p = (v, b, s)"
  by auto

lemma counts_second: "(if - EBUSY = - EBUSY then (r, s) else y) = (r, s)"
  by simp

lemma counts_first: "(if (0 :: int) = - EBUSY then x else (0, s)) = (0, s)"
  by (simp add: EBUSY_def)

text \<open>
  The outcomes on the bench, in CAT mode with the command \<open>02\<close> and a two-byte
  response: on the quiet bench the wait after the busy report times out; on \<open>bench_stuck\<close>
  the second attempt is busy again and is the last thing done; on \<open>bench_router\<close> the
  interrupt handler resolves the wait, the second attempt writes the command, and the
  response \<open>00 80\<close> is read at offset 3, one byte after the command register; on
  \<open>bench_cfg\<close> the command is accepted at once, there is one attempt, and the response
  \<open>00 80\<close> is read at offset 3 after the wait for completion.
\<close>

theorem exec_cmd_busy_retry_once_witness:
  "fst (cyttsp4_exec_cmd bench cd_cat CY_MODE_CAT 2 [] (Some [0, 0]) 2 500) = - ETIME
   \<and> fst (cyttsp4_exec_cmd bench_stuck cd_cat CY_MODE_CAT 2 [] (Some [0, 0]) 2 500) = - EBUSY
   \<and> trace (snd (snd (cyttsp4_exec_cmd bench_stuck cd_cat CY_MODE_CAT 2 [] (Some [0, 0]) 2 500)))
       = [Bus_read 2 1, Bus_read 0 3, Wake_up, Atten_cb CY_ATTEN_IRQ (Some CY_MODE_CAT),
          Bus_write 0 [0xA0], Udelay 0, Bus_read 2 1]
   \<and> fst (cyttsp4_exec_cmd bench_router cd_cat CY_MODE_CAT 2 [] (Some [0, 0]) 2 500) = 0
   \<and> fst (snd (cyttsp4_exec_cmd bench_router cd_cat CY_MODE_CAT 2 [] (Some [0, 0]) 2 500))
       = Some [0x00, 0x80]
   \<and> trace (snd (snd (cyttsp4_exec_cmd bench_router cd_cat CY_MODE_CAT 2 [] (Some [0, 0]) 2 500)))
       = [Bus_read 2 1, Bus_read 0 3, Wake_up, Atten_cb CY_ATTEN_IRQ (Some CY_MODE_CAT),
          Bus_write 0 [0xA0], Udelay 0, Bus_read 2 1, Bus_write 2 [2], Bus_read 0 3, Wake_up,
          Atten_cb CY_ATTEN_IRQ (Some CY_MODE_CAT), Bus_write 0 [0xA0], Udelay 0,
          Bus_read 3 2]
   \<and> cyttsp4_exec_cmd bench_cfg cd_cfg CY_MODE_CAT 2 [] (Some [0, 0]) 2 500
       = (0, Some [0x00, 0x80],
          cd_cfg\<lparr>trace := [Bus_read 2 1, Bus_write 2 [2], Bus_read 0 3, Wake_up,
                    Atten_cb CY_ATTEN_IRQ (Some CY_MODE_CAT), Bus_write 0 [0xA0], Udelay 0,
                    Bus_read 3 2],
                 cmds := [(CY_MODE_CAT, [2], 2)], nwaits := 1\<rparr>)"
proof -
  note ev = bench_exec_eval
  note evc = bench_cfg_def cfg_dev_def cfg_response_def cd_cfg_def CY_CMD_CAT_GET_CFG_ROW_SZ_def
  have a: "CY_MODE_CAT = mode cd_cat" by (simp add: cd_cat_def)
  have a4: "CY_MODE_CAT = mode cd_cfg" by (simp add: cd_cfg_def)
  have b: "U_get_cmd_offs P s CY_MODE_CAT = int (CY_REG_CAT_CMD P)"
    for P :: platform and s :: core_data
    by (simp add: U_get_cmd_offs_def)
  have c1: "bus_read bench (trace cd_cat) (CY_REG_CAT_CMD bench) 1 = (0, [0])"
    by (simp add: bench_def)
  have c2: "bus_read bench_stuck (trace cd_cat) (CY_REG_CAT_CMD bench_stuck) 1 = (0, [0])"
    by (simp add: bench_stuck_def bench_def stuck_dev_def)
  have c3: "bus_read bench_router (trace cd_cat) (CY_REG_CAT_CMD bench_router) 1 = (0, [0])"
    by (simp add: bench_router_def bench_def router_dev_def cd_cat_def cd0_def)
  have c4: "bus_read bench_cfg (trace cd_cfg) (CY_REG_CAT_CMD bench_cfg) 1 = (0, [0x40])"
    by (simp add: bench_cfg_def bench_def cfg_dev_def)
  have codes: "- EBUSY \<noteq> (0 :: int)" "- ETIME \<noteq> (0 :: int)" "- EBUSY < (0 :: int)"
    by (simp_all add: EBUSY_def ETIME_def)
  define q1 where "q1 = snd (U_cyttsp4_exec_cmd bench (cd_cat\<lparr>cmds := cmds cd_cat @ [(CY_MODE_CAT, [2], 2)]\<rparr>) CY_MODE_CAT 2 [])"
  have qf1: "U_cyttsp4_exec_cmd bench (cd_cat\<lparr>cmds := cmds cd_cat @ [(CY_MODE_CAT, [2], 2)]\<rparr>) CY_MODE_CAT 2 [] = (- EBUSY, q1)"
    by (rule named_step [OF _ q1_def]) (simp add:  ev)
  define q2 where "q2 = snd (U_cyttsp4_wait_cmd_exec bench q1 (CY_COMMAND_COMPLETE_TIMEOUT bench))"
  have qf2: "U_cyttsp4_wait_cmd_exec bench q1 (CY_COMMAND_COMPLETE_TIMEOUT bench) = (- ETIME, q2)"
    by (rule named_step [OF _ q2_def]) (simp add: q1_def ev)
  define s1 where "s1 = snd (U_cyttsp4_exec_cmd bench_stuck (cd_cat\<lparr>cmds := cmds cd_cat @ [(CY_MODE_CAT, [2], 2)]\<rparr>) CY_MODE_CAT 2 [])"
  have sf1: "U_cyttsp4_exec_cmd bench_stuck (cd_cat\<lparr>cmds := cmds cd_cat @ [(CY_MODE_CAT, [2], 2)]\<rparr>) CY_MODE_CAT 2 [] = (- EBUSY, s1)"
    by (rule named_step [OF _ s1_def]) (simp add:  ev)
  define s2 where "s2 = snd (U_cyttsp4_wait_cmd_exec bench_stuck s1 (CY_COMMAND_COMPLETE_TIMEOUT bench_stuck))"
  have sf2: "U_cyttsp4_wait_cmd_exec bench_stuck s1 (CY_COMMAND_COMPLETE_TIMEOUT bench_stuck) = (0, s2)"
    by (rule named_step [OF _ s2_def]) (simp add: s1_def ev)
  define s3 where "s3 = snd (U_cyttsp4_exec_cmd bench_stuck s2 CY_MODE_CAT 2 [])"
  have sf3: "U_cyttsp4_exec_cmd bench_stuck s2 CY_MODE_CAT 2 [] = (- EBUSY, s3)"
    by (rule named_step [OF _ s3_def]) (simp add: s2_def s1_def ev)
  define r1 where "r1 = snd (U_cyttsp4_exec_cmd bench_router (cd_cat\<lparr>cmds := cmds cd_cat @ [(CY_MODE_CAT, [2], 2)]\<rparr>) CY_MODE_CAT 2 [])"
  have rf1: "U_cyttsp4_exec_cmd bench_router (cd_cat\<lparr>cmds := cmds cd_cat @ [(CY_MODE_CAT, [2], 2)]\<rparr>) CY_MODE_CAT 2 [] = (- EBUSY, r1)"
    by (rule named_step [OF _ r1_def]) (simp add:  ev)
  define r2 where "r2 = snd (U_cyttsp4_wait_cmd_exec bench_router r1 (CY_COMMAND_COMPLETE_TIMEOUT bench_router))"
  have rf2: "U_cyttsp4_wait_cmd_exec bench_router r1 (CY_COMMAND_COMPLETE_TIMEOUT bench_router) = (0, r2)"
    by (rule named_step [OF _ r2_def]) (simp add: r1_def ev)
  define r3 where "r3 = snd (U_cyttsp4_exec_cmd bench_router r2 CY_MODE_CAT 2 [])"
  have rf3: "U_cyttsp4_exec_cmd bench_router r2 CY_MODE_CAT 2 [] = (0, r3)"
    by (rule named_step [OF _ r3_def]) (simp add: r2_def r1_def ev)
  define r4 where "r4 = snd (U_cyttsp4_wait_cmd_exec bench_router r3 500)"
  have rf4: "U_cyttsp4_wait_cmd_exec bench_router r3 500 = (0, r4)"
    by (rule named_step [OF _ r4_def]) (simp add: r3_def r2_def r1_def ev)
  define r5 where "r5 = snd (snd (cyttsp4_adap_read bench_router r4 (nat (U_get_cmd_offs bench_router r4 CY_MODE_CAT + 1)) 2))"
  have rf5: "cyttsp4_adap_read bench_router r4 (nat (U_get_cmd_offs bench_router r4 CY_MODE_CAT + 1)) 2 = (0, [0x00, 0x80], r5)"
    by (rule named_step3 [OF _ _ r5_def]) (simp_all add: r4_def r3_def r2_def r1_def ev)
  define g1 where "g1 = snd (U_cyttsp4_exec_cmd bench_cfg (cd_cfg\<lparr>cmds := cmds cd_cfg @ [(CY_MODE_CAT, [2], 2)]\<rparr>) CY_MODE_CAT 2 [])"
  have gf1: "U_cyttsp4_exec_cmd bench_cfg (cd_cfg\<lparr>cmds := cmds cd_cfg @ [(CY_MODE_CAT, [2], 2)]\<rparr>) CY_MODE_CAT 2 [] = (0, g1)"
    by (rule named_step [OF _ g1_def]) (simp add:  ev evc)
  define g4 where "g4 = snd (U_cyttsp4_wait_cmd_exec bench_cfg g1 500)"
  have gf4: "U_cyttsp4_wait_cmd_exec bench_cfg g1 500 = (0, g4)"
    by (rule named_step [OF _ g4_def]) (simp add: g1_def ev evc)
  define g5 where "g5 = snd (snd (cyttsp4_adap_read bench_cfg g4 (nat (U_get_cmd_offs bench_cfg g4 CY_MODE_CAT + 1)) 2))"
  have gf5: "cyttsp4_adap_read bench_cfg g4 (nat (U_get_cmd_offs bench_cfg g4 CY_MODE_CAT + 1)) 2 = (0, [0x00, 0x80], g5)"
    by (rule named_step3 [OF _ _ g5_def]) (simp_all add: g4_def g1_def ev evc)
  note t1 = exec_cmd_busy_retry_once [OF a b c1 order_refl qf1 qf2 pair_names pair_names
      pair_names triple_names,
      where timeout_ms = 500 and return_buf = "Some [0, 0]"]
  have quiet: "cyttsp4_exec_cmd bench cd_cat CY_MODE_CAT 2 [] (Some [0, 0]) 2 500
      = (- ETIME, Some [0, 0], q2)"
    using t1 codes by simp
  note t2 = exec_cmd_busy_retry_once [OF a b c2 order_refl sf1 sf2 sf3 pair_names
      pair_names triple_names,
      where timeout_ms = 500 and return_buf = "Some [0, 0]"]
  have stuck: "cyttsp4_exec_cmd bench_stuck cd_cat CY_MODE_CAT 2 [] (Some [0, 0]) 2 500
      = (- EBUSY, Some [0, 0], s3)"
    using t2 codes by simp
  have stuck_trace: "trace s3
       = [Bus_read 2 1, Bus_read 0 3, Wake_up, Atten_cb CY_ATTEN_IRQ (Some CY_MODE_CAT),
          Bus_write 0 [0xA0], Udelay 0, Bus_read 2 1]"
    by (simp add: s3_def s2_def s1_def ev)
  note t3 = exec_cmd_busy_retry_once [OF a b c3 order_refl rf1 rf2 rf3 counts_second
      rf4 rf5,
      where return_buf = "Some [0, 0]"]
  have router: "cyttsp4_exec_cmd bench_router cd_cat CY_MODE_CAT 2 [] (Some [0, 0]) 2 500
      = (0, Some [0x00, 0x80], r5)"
    using t3 codes b by simp
  have router_trace: "trace r5
       = [Bus_read 2 1, Bus_read 0 3, Wake_up, Atten_cb CY_ATTEN_IRQ (Some CY_MODE_CAT),
          Bus_write 0 [0xA0], Udelay 0, Bus_read 2 1, Bus_write 2 [2], Bus_read 0 3, Wake_up,
          Atten_cb CY_ATTEN_IRQ (Some CY_MODE_CAT), Bus_write 0 [0xA0], Udelay 0,
          Bus_read 3 2]"
    by (simp add: r5_def r4_def r3_def r2_def r1_def ev)
  note t4 = exec_cmd_busy_retry_once [OF a4 b c4 order_refl gf1 pair_names pair_names
      counts_first gf4 gf5,
      where return_buf = "Some [0, 0]"]
  have once: "cyttsp4_exec_cmd bench_cfg cd_cfg CY_MODE_CAT 2 [] (Some [0, 0]) 2 500
      = (0, Some [0x00, 0x80], g5)"
    using t4 codes b by simp
  have once_state: "g5 = cd_cfg\<lparr>trace := [Bus_read 2 1, Bus_write 2 [2], Bus_read 0 3, Wake_up,
                    Atten_cb CY_ATTEN_IRQ (Some CY_MODE_CAT), Bus_write 0 [0xA0], Udelay 0,
                    Bus_read 3 2],
                 cmds := [(CY_MODE_CAT, [2], 2)], nwaits := 1\<rparr>"
    by (simp add: g5_def g4_def g1_def ev evc)
  show ?thesis
    unfolding quiet stuck router once
    using stuck_trace router_trace once_state by simp
qed
section \<open>Stuck in the bootloader\<close>

text \<open>
  One interrupt with a bootloader-idle header, the driver in bootloader mode and awake:
  up to a count of 3 the counter goes up by one and nothing is scheduled; above 3, with no
  startup queued or running, the startup work is scheduled once and the counter is reset.
\<close>

lemma irq_bootloader_idle_counts:
  assumes "bus_read P (trace cd) (CY_REG_BASE P) 3 = (0, [b0, b1, b2])"
    and "IS_BOOTLOADER P b0 b1" and "IS_BOOTLOADER_IDLE P b0 b1"
    and "mode cd = CY_MODE_BOOTLOADER" and "sleep_state cd \<noteq> SS_SLEEP_ON"
    and "heartbeat_count cd \<le> 3"
  shows "mode (cyttsp4_irq P cd) = CY_MODE_BOOTLOADER
    \<and> sleep_state (cyttsp4_irq P cd) = sleep_state cd
    \<and> startup_state (cyttsp4_irq P cd) = startup_state cd
    \<and> heartbeat_count (cyttsp4_irq P cd) = heartbeat_count cd + 1
    \<and> restarts (cyttsp4_irq P cd) = restarts cd"
  using assms
  by (simp add: cyttsp4_irq_def cyttsp4_adap_read_def cyttsp4_irq_bootloader_def
      call_atten_cb_def restarts_def Let_def)

lemma irq_bootloader_idle_restarts:
  assumes "bus_read P (trace cd) (CY_REG_BASE P) 3 = (0, [b0, b1, b2])"
    and "IS_BOOTLOADER P b0 b1" and "IS_BOOTLOADER_IDLE P b0 b1"
    and "mode cd = CY_MODE_BOOTLOADER" and "sleep_state cd \<noteq> SS_SLEEP_ON"
    and "heartbeat_count cd > 3" and "startup_state cd = STARTUP_NONE"
  shows "heartbeat_count (cyttsp4_irq P cd) = 0
    \<and> startup_state (cyttsp4_irq P cd) = STARTUP_QUEUED
    \<and> restarts (cyttsp4_irq P cd) = restarts cd + 1"
  using assms
  by (simp add: cyttsp4_irq_def cyttsp4_adap_read_def cyttsp4_irq_bootloader_def
      call_atten_cb_def cyttsp4_queue_startup_def restarts_def Let_def)

lemma irq_bootloader_idle_run:
  assumes dev: "\<forall>h. bus_read P h (CY_REG_BASE P) 3 = (0, [b0, b1, b2])"
    and bl: "IS_BOOTLOADER P b0 b1" and idle: "IS_BOOTLOADER_IDLE P b0 b1"
    and m: "mode cd = CY_MODE_BOOTLOADER" and s: "sleep_state cd \<noteq> SS_SLEEP_ON"
    and h: "heartbeat_count cd = 0"
  shows "n \<le> 4 \<Longrightarrow>
     mode ((cyttsp4_irq P ^^ n) cd) = CY_MODE_BOOTLOADER
     \<and> sleep_state ((cyttsp4_irq P ^^ n) cd) \<noteq> SS_SLEEP_ON
     \<and> startup_state ((cyttsp4_irq P ^^ n) cd) = startup_state cd
     \<and> heartbeat_count ((cyttsp4_irq P ^^ n) cd) = int n
     \<and> restarts ((cyttsp4_irq P ^^ n) cd) = restarts cd"
proof (induction n)
  case 0
  show ?case using m s h by simp
next
  case (Suc n)
  let ?s = "(cyttsp4_irq P ^^ n) cd"
  have ih: "mode ?s = CY_MODE_BOOTLOADER" "sleep_state ?s \<noteq> SS_SLEEP_ON"
    "startup_state ?s = startup_state cd" "heartbeat_count ?s = int n"
    "restarts ?s = restarts cd"
    using Suc by simp_all
  have r: "bus_read P (trace ?s) (CY_REG_BASE P) 3 = (0, [b0, b1, b2])"
    using dev by simp
  have "heartbeat_count ?s \<le> 3" using ih(4) Suc.prems by simp
  from irq_bootloader_idle_counts [OF r bl idle ih(1) ih(2) this]
  show ?case using ih by simp
qed

text \<open>
  C1, as stated, fails: with the driver in bootloader mode and the counter at 0, four
  bootloader-idle interrupts in a row leave the counter at 4 and schedule no restart.
  \<open>bench_idle\<close> is the bench with a device that answers every header read with the
  bootloader-idle header \<open>01 01 00\<close>.
\<close>

theorem bootloader_idle_restart_counterexample:
  "IS_BOOTLOADER_IDLE bench_idle 0x01 0x01
   \<and> heartbeat_count ((cyttsp4_irq bench_idle ^^ 4) (cd0\<lparr>mode := CY_MODE_BOOTLOADER\<rparr>)) = 4
   \<and> restarts ((cyttsp4_irq bench_idle ^^ 4) (cd0\<lparr>mode := CY_MODE_BOOTLOADER\<rparr>)) = 0
   \<and> startup_state ((cyttsp4_irq bench_idle ^^ 4) (cd0\<lparr>mode := CY_MODE_BOOTLOADER\<rparr>))
       = STARTUP_NONE"
proof -
  have "\<forall>h. bus_read bench_idle h (CY_REG_BASE bench_idle) 3 = (0, [0x01, 0x01, 0x00])"
    by (simp add: bench_idle_def)
  from irq_bootloader_idle_run [OF this, of "cd0\<lparr>mode := CY_MODE_BOOTLOADER\<rparr>" 4]
  show ?thesis
    by (simp add: bench_idle_def bench_def cd0_def restarts_def)
qed

text \<open>
  C1, amended. With the driver in bootloader mode, awake, the counter at 0 and no startup
  queued or running, and a device that answers every header read with a bootloader-idle
  header: after each of the first four interrupts in a row no restart has been scheduled
  and the counter equals the number of interrupts; the fifth schedules the deferred
  restart, exactly once, and resets the counter to zero.
\<close>

theorem bootloader_idle_restart:
  assumes dev: "\<forall>h. bus_read P h (CY_REG_BASE P) 3 = (0, [b0, b1, b2])"
    and bl: "IS_BOOTLOADER P b0 b1" and idle: "IS_BOOTLOADER_IDLE P b0 b1"
    and m: "mode cd = CY_MODE_BOOTLOADER" and s: "sleep_state cd \<noteq> SS_SLEEP_ON"
    and h: "heartbeat_count cd = 0" and st: "startup_state cd = STARTUP_NONE"
  shows "(\<forall>n\<le>4. restarts ((cyttsp4_irq P ^^ n) cd) = restarts cd
                \<and> heartbeat_count ((cyttsp4_irq P ^^ n) cd) = int n)
    \<and> restarts ((cyttsp4_irq P ^^ 5) cd) = restarts cd + 1
    \<and> heartbeat_count ((cyttsp4_irq P ^^ 5) cd) = 0
    \<and> startup_state ((cyttsp4_irq P ^^ 5) cd) = STARTUP_QUEUED"
proof -
  note run = irq_bootloader_idle_run [OF dev bl idle m s h]
  let ?s = "(cyttsp4_irq P ^^ 4) cd"
  have four: "mode ?s = CY_MODE_BOOTLOADER" "sleep_state ?s \<noteq> SS_SLEEP_ON"
    "startup_state ?s = STARTUP_NONE" "heartbeat_count ?s = 4" "restarts ?s = restarts cd"
    using run [of 4] st by simp_all
  have r: "bus_read P (trace ?s) (CY_REG_BASE P) 3 = (0, [b0, b1, b2])"
    using dev by simp
  have "heartbeat_count ?s > 3" using four(4) by simp
  from irq_bootloader_idle_restarts [OF r bl idle four(1) four(2) this four(3)]
  have fifth: "heartbeat_count (cyttsp4_irq P ?s) = 0"
    "startup_state (cyttsp4_irq P ?s) = STARTUP_QUEUED"
    "restarts (cyttsp4_irq P ?s) = restarts cd + 1"
    using four(5) by simp_all
  have "(cyttsp4_irq P ^^ 5) cd = cyttsp4_irq P ?s"
    by (simp add: eval_nat_numeral)
  with fifth run show ?thesis by simp
qed

theorem bootloader_idle_restart_witness:
  "restarts ((cyttsp4_irq bench_idle ^^ 3) (cd0\<lparr>mode := CY_MODE_BOOTLOADER\<rparr>)) = 0
   \<and> restarts ((cyttsp4_irq bench_idle ^^ 5) (cd0\<lparr>mode := CY_MODE_BOOTLOADER\<rparr>)) = 1
   \<and> heartbeat_count ((cyttsp4_irq bench_idle ^^ 5) (cd0\<lparr>mode := CY_MODE_BOOTLOADER\<rparr>)) = 0"
proof -
  have "\<forall>h. bus_read bench_idle h (CY_REG_BASE bench_idle) 3 = (0, [0x01, 0x01, 0x00])"
    by (simp add: bench_idle_def)
  from bootloader_idle_restart [OF this, of "cd0\<lparr>mode := CY_MODE_BOOTLOADER\<rparr>"]
  show ?thesis
    by (simp add: bench_idle_def bench_def cd0_def restarts_def)
qed

section \<open>Waits that time out\<close>

lemma and_not_self_zero: "(x AND NOT f) AND f = (0 :: 32 word)"
  by (simp add: bit_eq_iff bit_simps)

text \<open>
  C8, as stated, fails for the mode-change wait: on the bench, where nothing happens
  during a wait, \<^verbatim>\<open>set_mode\<close> to Operational times out and returns \<open>-EINVAL\<close>, not the
  timeout error \<open>-ETIME\<close> that the other waits return.
\<close>

theorem wait_timeout_counterexample:
  "fst (set_mode bench cd0 CY_MODE_OPERATIONAL) = - EINVAL
   \<and> fst (set_mode bench cd0 CY_MODE_OPERATIONAL) \<noteq> - ETIME
   \<and> fst (cyttsp4_wait_sysinfo_mode bench cd0) = - ETIME"
  by (simp add: set_mode_def set_mode_bits_def set_mode_request_def set_mode_wait_def
      cyttsp4_wait_sysinfo_mode_def wait_event_timeout_def cyttsp4_adap_read_def
      cyttsp4_adap_write_def bench_def cd0_def EINVAL_def ETIME_def Let_def)

text \<open>
  C8, amended. Every one of the three waits that elapses clears its pending flag before
  it returns an error: the command-complete wait clears the command-pending flag and
  returns \<open>-ETIME\<close>; the SysInfo wait clears the mode-change flag and returns \<open>-ETIME\<close>;
  the mode-change wait of \<^verbatim>\<open>set_mode\<close>, reached after a request that succeeded, clears
  the mode-change flag and returns a negative code.
\<close>

theorem wait_timeout_clears_flag:
  "(IS_TMO P (fst (wait_event_timeout P (\<lambda>s. int_status s AND CY_INT_EXEC_CMD P = 0)
                     (msecs_to_jiffies P timeout_ms) cd)) \<longrightarrow>
      fst (U_cyttsp4_wait_cmd_exec P cd timeout_ms) = - ETIME
      \<and> int_status (snd (U_cyttsp4_wait_cmd_exec P cd timeout_ms)) AND CY_INT_EXEC_CMD P = 0)
   \<and> (IS_TMO P (fst (wait_event_timeout P (\<lambda>s. mode s = CY_MODE_SYSINFO)
                     (msecs_to_jiffies P (CY_CORE_WAIT_SYSINFO_MODE_TIMEOUT P)) cd)) \<longrightarrow>
      fst (cyttsp4_wait_sysinfo_mode P cd) = - ETIME
      \<and> int_status (snd (cyttsp4_wait_sysinfo_mode P cd)) AND CY_INT_MODE_CHANGE P = 0)
   \<and> (set_mode_bits P new_mode = Some bits
      \<and> set_mode_request P cd bits = (rc, cd1) \<and> 0 \<le> rc
      \<and> IS_TMO P (fst (wait_event_timeout P (\<lambda>s. int_status s AND CY_INT_MODE_CHANGE P = 0)
                     (msecs_to_jiffies P (CY_CORE_MODE_CHANGE_TIMEOUT P)) cd1)) \<longrightarrow>
      fst (set_mode P cd new_mode) < 0
      \<and> int_status (snd (set_mode P cd new_mode)) AND CY_INT_MODE_CHANGE P = 0)"
proof (intro conjI impI)
  assume a: "IS_TMO P (fst (wait_event_timeout P (\<lambda>s. int_status s AND CY_INT_EXEC_CMD P = 0)
                     (msecs_to_jiffies P timeout_ms) cd))"
  obtain t s where w: "wait_event_timeout P (\<lambda>s. int_status s AND CY_INT_EXEC_CMD P = 0)
                     (msecs_to_jiffies P timeout_ms) cd = (t, s)"
    by (cases "wait_event_timeout P (\<lambda>s. int_status s AND CY_INT_EXEC_CMD P = 0)
                     (msecs_to_jiffies P timeout_ms) cd")
  with a show "fst (U_cyttsp4_wait_cmd_exec P cd timeout_ms) = - ETIME"
    and "int_status (snd (U_cyttsp4_wait_cmd_exec P cd timeout_ms)) AND CY_INT_EXEC_CMD P = 0"
    by (simp_all add: U_cyttsp4_wait_cmd_exec_def and_not_self_zero)
next
  assume a: "IS_TMO P (fst (wait_event_timeout P (\<lambda>s. mode s = CY_MODE_SYSINFO)
                     (msecs_to_jiffies P (CY_CORE_WAIT_SYSINFO_MODE_TIMEOUT P)) cd))"
  obtain t s where w: "wait_event_timeout P (\<lambda>s. mode s = CY_MODE_SYSINFO)
                     (msecs_to_jiffies P (CY_CORE_WAIT_SYSINFO_MODE_TIMEOUT P)) cd = (t, s)"
    by (cases "wait_event_timeout P (\<lambda>s. mode s = CY_MODE_SYSINFO)
                     (msecs_to_jiffies P (CY_CORE_WAIT_SYSINFO_MODE_TIMEOUT P)) cd")
  with a show "fst (cyttsp4_wait_sysinfo_mode P cd) = - ETIME"
    and "int_status (snd (cyttsp4_wait_sysinfo_mode P cd)) AND CY_INT_MODE_CHANGE P = 0"
    by (simp_all add: cyttsp4_wait_sysinfo_mode_def and_not_self_zero)
next
  assume a: "set_mode_bits P new_mode = Some bits
      \<and> set_mode_request P cd bits = (rc, cd1) \<and> 0 \<le> rc
      \<and> IS_TMO P (fst (wait_event_timeout P (\<lambda>s. int_status s AND CY_INT_MODE_CHANGE P = 0)
                     (msecs_to_jiffies P (CY_CORE_MODE_CHANGE_TIMEOUT P)) cd1))"
  then have e: "set_mode P cd new_mode = set_mode_wait P cd1 rc"
    by (simp add: set_mode_def)
  obtain t s where w: "wait_event_timeout P (\<lambda>s. int_status s AND CY_INT_MODE_CHANGE P = 0)
                     (msecs_to_jiffies P (CY_CORE_MODE_CHANGE_TIMEOUT P)) cd1 = (t, s)"
    by (cases "wait_event_timeout P (\<lambda>s. int_status s AND CY_INT_MODE_CHANGE P = 0)
                     (msecs_to_jiffies P (CY_CORE_MODE_CHANGE_TIMEOUT P)) cd1")
  with a e show "fst (set_mode P cd new_mode) < 0"
    and "int_status (snd (set_mode P cd new_mode)) AND CY_INT_MODE_CHANGE P = 0"
    by (simp_all add: set_mode_wait_def and_not_self_zero EINVAL_def)
qed

text \<open>
  On the bench, with the command-pending and mode-change flags set (\<open>int_status = 6\<close>),
  every wait elapses: each function returns its error and leaves its own flag clear.
\<close>

theorem wait_timeout_clears_flag_witness:
  "fst (U_cyttsp4_wait_cmd_exec bench (cd0\<lparr>int_status := 6\<rparr>) 500) = - ETIME
   \<and> int_status (snd (U_cyttsp4_wait_cmd_exec bench (cd0\<lparr>int_status := 6\<rparr>) 500)) AND 4 = 0
   \<and> fst (cyttsp4_wait_sysinfo_mode bench (cd0\<lparr>int_status := 6\<rparr>)) = - ETIME
   \<and> int_status (snd (cyttsp4_wait_sysinfo_mode bench (cd0\<lparr>int_status := 6\<rparr>))) AND 2 = 0
   \<and> fst (set_mode bench (cd0\<lparr>int_status := 6\<rparr>) CY_MODE_CAT) < 0
   \<and> int_status (snd (set_mode bench (cd0\<lparr>int_status := 6\<rparr>) CY_MODE_CAT)) AND 2 = 0"
proof -
  have w: "fst (wait_event_timeout bench c t (cd0\<lparr>int_status := 6\<rparr>)) = 0"
    if "\<not> c (cd0\<lparr>int_status := 6\<rparr>)" "\<not> c (cd0\<lparr>int_status := 6, nwaits := 1\<rparr>)" for c t
    using that by (simp add: wait_event_timeout_def bench_def cd0_def)
  have w1: "fst (wait_event_timeout bench (\<lambda>s. int_status s AND CY_INT_EXEC_CMD bench = 0)
              (msecs_to_jiffies bench 500) (cd0\<lparr>int_status := 6\<rparr>)) = 0"
    by (rule w) (simp_all add: bench_def)
  have w2: "fst (wait_event_timeout bench (\<lambda>s. mode s = CY_MODE_SYSINFO)
              (msecs_to_jiffies bench (CY_CORE_WAIT_SYSINFO_MODE_TIMEOUT bench))
              (cd0\<lparr>int_status := 6\<rparr>)) = 0"
    by (rule w) (simp_all add: cd0_def)
  have r: "set_mode_request bench (cd0\<lparr>int_status := 6\<rparr>) 0x20 =
      (0, cd0\<lparr>int_status := 6, trace := [Bus_read 0 1, Bus_write 0 [0x28]]\<rparr>)"
    by (simp add: set_mode_request_def cyttsp4_adap_read_def cyttsp4_adap_write_def
        bench_def cd0_def Let_def)
  have w3: "fst (wait_event_timeout bench (\<lambda>s. int_status s AND CY_INT_MODE_CHANGE bench = 0)
       (msecs_to_jiffies bench (CY_CORE_MODE_CHANGE_TIMEOUT bench))
       (cd0\<lparr>int_status := 6, trace := [Bus_read 0 1, Bus_write 0 [0x28]]\<rparr>)) = 0"
    by (simp add: wait_event_timeout_def bench_def cd0_def)
  have b: "set_mode_bits bench CY_MODE_CAT = Some 0x20"
    by (simp add: set_mode_bits_def bench_def)
  have c: "CY_INT_EXEC_CMD bench = 4" "CY_INT_MODE_CHANGE bench = 2" "IS_TMO bench 0"
    by (simp_all add: bench_def)
  from wait_timeout_clears_flag [of bench 500 "cd0\<lparr>int_status := 6\<rparr>" CY_MODE_CAT "0x20" 0
      "cd0\<lparr>int_status := 6, trace := [Bus_read 0 1, Bus_write 0 [0x28]]\<rparr>"]
  show ?thesis
    unfolding w1 w2 w3 r b by (simp add: c)
qed

section \<open>Startup with a corrupted application image\<close>

lemma wait_sysinfo_mode_codes:
  "fst (cyttsp4_wait_sysinfo_mode P cd) = 0 \<or> fst (cyttsp4_wait_sysinfo_mode P cd) = - ETIME"
  by (simp add: cyttsp4_wait_sysinfo_mode_def split: prod.splits)

lemma startup_pass_corrupted_app:
  assumes reset: "cyttsp4_reset_and_wait P cd = (rc0, cd1)" and ok0: "0 \<le> rc0"
    and exit: "U_cyttsp4_ldr_exit P
                 (cd1\<lparr>int_status := (int_status cd1 AND NOT (CY_INT_IGNORE P))
                                          OR CY_INT_MODE_CHANGE P\<rparr>) = (rc1, cd3)"
    and ok1: "0 \<le> rc1"
    and wait: "cyttsp4_wait_sysinfo_mode P cd3 = (rc2, cd4)" and failed: "rc2 < 0"
    and sig: "bus_read P (trace cd4) (CY_REG_BASE P) 7 = (0, ldr_err_app)"
  shows "startup_pass P S detected cd =
     (Goto_exit_no_wd, - ETIME, True,
      cd4\<lparr>trace := trace cd4 @ [Bus_read (CY_REG_BASE P) 7], invalid_touch_app := True\<rparr>)"
proof -
  have "rc2 = - ETIME"
    using wait_sysinfo_mode_codes [of P cd3] wait failed by simp
  moreover have len: "length ldr_err_app = 7"
    by (simp add: ldr_err_app_def)
  moreover have "cyttsp4_adap_read P cd4 (CY_REG_BASE P) 7 =
      (0, ldr_err_app, cd4\<lparr>trace := trace cd4 @ [Bus_read (CY_REG_BASE P) 7]\<rparr>)"
    using sig len by (simp add: cyttsp4_adap_read_def)
  ultimately show ?thesis
    using reset ok0 exit ok1 wait failed
    by (simp add: startup_pass_def Let_def ETIME_def)
qed

text \<open>
  C9. In any pass of the startup protocol, whatever the number of retries left, whatever
  happened in the passes before and whatever the later steps would do: when the reset and
  the loader exit succeed, the wait for the SysInfo mode fails, and the seven bytes read
  from the base register are the error signature \<open>ldr_err_app\<close>, the startup ends there.
  The state is the one after the signature read, with \<open>invalid_touch_app\<close> set: that read
  is the last event, so there is no further reset and the watchdog is not started. The
  result is the error of the wait, \<open>-ETIME\<close>, and not \<open>-ENODEV\<close> (not detected).
\<close>

theorem startup_corrupted_app_short_circuit:
  assumes reset: "cyttsp4_reset_and_wait P cd = (rc0, cd1)" and ok0: "0 \<le> rc0"
    and exit: "U_cyttsp4_ldr_exit P
                 (cd1\<lparr>int_status := (int_status cd1 AND NOT (CY_INT_IGNORE P))
                                          OR CY_INT_MODE_CHANGE P\<rparr>) = (rc1, cd3)"
    and ok1: "0 \<le> rc1"
    and wait: "cyttsp4_wait_sysinfo_mode P cd3 = (rc2, cd4)" and failed: "rc2 < 0"
    and sig: "bus_read P (trace cd4) (CY_REG_BASE P) 7 = (0, ldr_err_app)"
  shows "startup_from P S retry detected cd =
     (- ETIME,
      cd4\<lparr>trace := trace cd4 @ [Bus_read (CY_REG_BASE P) 7], invalid_touch_app := True\<rparr>)
    \<and> fst (startup_from P S retry detected cd) \<noteq> - ENODEV
    \<and> invalid_touch_app (snd (startup_from P S retry detected cd))
    \<and> count_list (trace (snd (startup_from P S retry detected cd))) Xres
        = count_list (trace cd4) Xres
    \<and> count_list (trace (snd (startup_from P S retry detected cd))) Wd_timer_start
        = count_list (trace cd4) Wd_timer_start"
proof -
  note p = startup_pass_corrupted_app [OF reset ok0 exit ok1 wait failed sig, of S detected]
  have "startup_from P S retry detected cd =
     (- ETIME,
      cd4\<lparr>trace := trace cd4 @ [Bus_read (CY_REG_BASE P) 7], invalid_touch_app := True\<rparr>)"
    by (cases retry) (simp_all add: p startup_exit_no_wd_def)
  then show ?thesis by (simp add: ETIME_def ENODEV_def)
qed

lemmas bench_startup_eval = cyttsp4_startup_U_def cyttsp4_stop_wd_timer_def
  cyttsp4_reset_and_wait_def cyttsp4_hw_reset_U_def cyttsp4_hw_hard_reset_U_def
  cyttsp4_wait_bl_heartbeat_def cyttsp4_wait_sysinfo_mode_def U_cyttsp4_ldr_exit_def
  wait_event_timeout_def cyttsp4_adap_read_def cyttsp4_adap_write_def cyttsp4_irq_def
  cyttsp4_irq_bootloader_def call_atten_cb_def
  bench_def bench_corrupt_def corrupt_dev_def ldr_err_app_def ldr_exit_def cd0_def
  CY_CORE_STARTUP_RETRY_COUNT_def CY_CORE_FLAG_POWEROFF_ON_SLEEP_def
  Let_def ETIME_def ENOSYS_def

text \<open>
  On \<open>bench_corrupt\<close> the first pass already ends the startup: one reset, the heartbeat,
  the loader exit sequence, a wait that times out in bootloader mode, and the signature
  read as the last event.
\<close>

theorem startup_corrupted_app_short_circuit_witness:
  "cyttsp4_startup_U bench_corrupt no_steps cd0 =
     (- ETIME,
      cd0\<lparr>mode := CY_MODE_BOOTLOADER, invalid_touch_app := True,
          trace := [Wd_timer_stop, Xres, Bus_read 0 3,
                    Atten_cb CY_ATTEN_IRQ (Some CY_MODE_BOOTLOADER), Wake_up,
                    Bus_write 0 ldr_exit, Bus_read 0 3,
                    Atten_cb CY_ATTEN_IRQ (Some CY_MODE_BOOTLOADER), Wake_up,
                    Bus_read 0 7],
          nwaits := 2\<rparr>)"
proof -
  let ?cd = "cyttsp4_stop_wd_timer bench_corrupt cd0"
  have ok0: "0 \<le> fst (cyttsp4_reset_and_wait bench_corrupt ?cd)"
    by (simp add: bench_startup_eval)
  have sig: "bus_read bench_corrupt h (CY_REG_BASE bench_corrupt) 7 = (0, ldr_err_app)" for h
    by (simp add: bench_corrupt_def bench_def corrupt_dev_def ldr_err_app_def)
  note t = startup_corrupted_app_short_circuit [where P = bench_corrupt and cd = ?cd
      and S = no_steps and retry = 3 and detected = False,
      OF pair_names ok0 pair_names _ pair_names _ sig]
  show ?thesis using t by (simp add: bench_startup_eval)
qed

section \<open>Configuration writes\<close>

lemma adap_read_cmds [simp]:
  "cmds (snd (snd (cyttsp4_adap_read P cd addr n))) = cmds cd"
  by (simp add: cyttsp4_adap_read_def split: prod.splits)

lemma adap_read_length [simp]:
  "length (fst (snd (cyttsp4_adap_read P cd addr n))) = n"
  by (auto simp add: cyttsp4_adap_read_def split: prod.splits)

lemma adap_write_cmds [simp]:
  "cmds (snd (cyttsp4_adap_write P cd addr buf)) = cmds cd"
  by (simp add: cyttsp4_adap_write_def)

lemma wait_event_timeout_cmds:
  assumes "keeps_cmds P"
  shows "cmds (snd (wait_event_timeout P c t cd)) = cmds cd"
proof -
  have "cmds (snd (sleeper P (nwaits cd) t cd)) = cmds cd"
    using assms by (simp add: keeps_cmds_def)
  then show ?thesis
    by (auto simp add: wait_event_timeout_def Let_def split: prod.splits)
qed

lemma wait_cmd_exec_cmds:
  assumes "keeps_cmds P"
  shows "cmds (snd (U_cyttsp4_wait_cmd_exec P cd t)) = cmds cd"
  using wait_event_timeout_cmds [OF assms]
  by (simp add: U_cyttsp4_wait_cmd_exec_def split: prod.splits)
    (metis snd_conv)

lemma U_exec_cmd_cmds:
  "cmds (snd (U_cyttsp4_exec_cmd P cd md cmd params)) = cmds cd"
proof -
  have w: "cmds (snd (cyttsp4_adap_write P s a b)) = cmds s" for s a b by simp
  have r: "cmds (snd (snd (cyttsp4_adap_read P s a n))) = cmds s" for s a n by simp
  show ?thesis
    unfolding U_cyttsp4_exec_cmd_def Let_def
    by (auto split: prod.splits if_splits simp add: cyttsp4_adap_read_def cyttsp4_adap_write_def)
qed

lemma exec_cmd_response_cmds:
  assumes "keeps_cmds P"
  shows "cmds (snd (snd (exec_cmd_response P cd md rb n t rc))) = cmds cd"
proof -
  obtain rcw cd1 where w: "U_cyttsp4_wait_cmd_exec P cd t = (rcw, cd1)"
    by (cases "U_cyttsp4_wait_cmd_exec P cd t")
  then have c1: "cmds cd1 = cmds cd"
    using wait_cmd_exec_cmds [OF assms, of cd t] by simp
  obtain rcr buf cd2 where r:
    "cyttsp4_adap_read P cd1 (nat (U_get_cmd_offs P cd1 md + 1)) n = (rcr, buf, cd2)"
    by (cases "cyttsp4_adap_read P cd1 (nat (U_get_cmd_offs P cd1 md + 1)) n")
  then have c2: "cmds cd2 = cmds cd1"
    using adap_read_cmds [of P cd1 "nat (U_get_cmd_offs P cd1 md + 1)" n] by simp
  show ?thesis
    using w r c1 c2 by (simp add: exec_cmd_response_def Let_def)
qed

lemma exec_cmd_response_buf:
  assumes "length b = n"
  shows "\<exists>b'. fst (snd (exec_cmd_response P cd md (Some b) n t rc)) = Some b' \<and> length b' = n"
proof -
  obtain rcw cd1 where w: "U_cyttsp4_wait_cmd_exec P cd t = (rcw, cd1)"
    by (cases "U_cyttsp4_wait_cmd_exec P cd t")
  obtain rcr buf cd2 where r:
    "cyttsp4_adap_read P cd1 (nat (U_get_cmd_offs P cd1 md + 1)) n = (rcr, buf, cd2)"
    by (cases "cyttsp4_adap_read P cd1 (nat (U_get_cmd_offs P cd1 md + 1)) n")
  then have "length buf = n"
    using adap_read_length [of P cd1 "nat (U_get_cmd_offs P cd1 md + 1)" n] by simp
  then show ?thesis
    using w r assms by (auto simp add: exec_cmd_response_def Let_def)
qed

lemma exec_cmd_cmds:
  assumes "keeps_cmds P"
  shows "cmds (snd (snd (cyttsp4_exec_cmd P cd md cmd params rb n t)))
           = cmds cd @ [(md, cmd # params, n)]"
proof -
  let ?cd0 = "cd\<lparr>cmds := cmds cd @ [(md, cmd # params, n)]\<rparr>"
  obtain rc cd1 where e1: "U_cyttsp4_exec_cmd P ?cd0 md cmd params = (rc, cd1)"
    by (cases "U_cyttsp4_exec_cmd P ?cd0 md cmd params")
  then have c1: "cmds cd1 = cmds cd @ [(md, cmd # params, n)]"
    using U_exec_cmd_cmds [of P ?cd0 md cmd params] by simp
  obtain rcw cd2 where w:
    "U_cyttsp4_wait_cmd_exec P cd1 (CY_COMMAND_COMPLETE_TIMEOUT P) = (rcw, cd2)"
    by (cases "U_cyttsp4_wait_cmd_exec P cd1 (CY_COMMAND_COMPLETE_TIMEOUT P)")
  then have c2: "cmds cd2 = cmds cd1"
    using wait_cmd_exec_cmds [OF assms, of cd1 "CY_COMMAND_COMPLETE_TIMEOUT P"] by simp
  obtain rc' cd3 where e2: "U_cyttsp4_exec_cmd P cd2 md cmd params = (rc', cd3)"
    by (cases "U_cyttsp4_exec_cmd P cd2 md cmd params")
  then have c3: "cmds cd3 = cmds cd2"
    using U_exec_cmd_cmds [of P cd2 md cmd params] by simp
  show ?thesis
    using e1 w e2 c1 c2 c3 exec_cmd_response_cmds [OF assms]
    by (simp add: cyttsp4_exec_cmd_def Let_def)
qed

lemma exec_cmd_buf:
  assumes "length b = n"
  shows "\<exists>b'. fst (snd (cyttsp4_exec_cmd P cd md cmd params (Some b) n t)) = Some b'
              \<and> length b' = n"
proof -
  let ?cd0 = "cd\<lparr>cmds := cmds cd @ [(md, cmd # params, n)]\<rparr>"
  obtain rc cd1 where e1: "U_cyttsp4_exec_cmd P ?cd0 md cmd params = (rc, cd1)"
    by (cases "U_cyttsp4_exec_cmd P ?cd0 md cmd params")
  obtain rcw cd2 where w:
    "U_cyttsp4_wait_cmd_exec P cd1 (CY_COMMAND_COMPLETE_TIMEOUT P) = (rcw, cd2)"
    by (cases "U_cyttsp4_wait_cmd_exec P cd1 (CY_COMMAND_COMPLETE_TIMEOUT P)")
  obtain rc' cd3 where e2: "U_cyttsp4_exec_cmd P cd2 md cmd params = (rc', cd3)"
    by (cases "U_cyttsp4_exec_cmd P cd2 md cmd params")
  show ?thesis
    using e1 w e2 assms exec_cmd_response_buf [OF assms]
    by (simp add: cyttsp4_exec_cmd_def Let_def)
qed

text \<open>What each configuration command adds to the record of commands.\<close>

lemma get_config_row_size_cmds:
  assumes "keeps_cmds P" and "cyttsp4_get_config_row_size C P cd = (rc, rs, cd1)"
  shows "cmds cd1 = cmds cd @ [row_size_entry C]"
  using assms(2) exec_cmd_cmds [OF assms(1), of cd CY_MODE_CAT CY_CMD_CAT_GET_CFG_ROW_SZ "[]"
      "Some (replicate (CY_CMD_CAT_GET_CFG_ROW_SIZE_RET_SZ C) 0)"
      "CY_CMD_CAT_GET_CFG_ROW_SIZE_RET_SZ C" "CY_COMMAND_COMPLETE_TIMEOUT P"]
  by (auto simp add: cyttsp4_get_config_row_size_def row_size_entry_def Let_def
      split: prod.splits if_splits)

lemma read_cfg_blk_cmd_split:
  "hd (read_cfg_blk_cmd ebid row len) # tl (read_cfg_blk_cmd ebid row len)
     = read_cfg_blk_cmd ebid row len"
  by (simp add: read_cfg_blk_cmd_def)

lemma write_cfg_blk_cmd_split:
  "hd (write_cfg_blk_cmd ebid row data len) # tl (write_cfg_blk_cmd ebid row data len)
     = write_cfg_blk_cmd ebid row data len"
  by (simp add: write_cfg_blk_cmd_def Let_def)

lemma write_config_block_cmds:
  assumes "keeps_cmds P" and "cyttsp4_write_config_block C P cd ebid row data len = (0, cd1)"
  shows "cmds cd1 = cmds cd @ [write_entry C ebid (unat row) data (unat len)]"
  using assms(2) exec_cmd_cmds [OF assms(1), of cd CY_MODE_CAT
      "hd (write_cfg_blk_cmd ebid row data len)" "tl (write_cfg_blk_cmd ebid row data len)"
      "Some (replicate (CY_CMD_CAT_WRITE_CFG_BLK_RET_SZ C) 0)"
      "CY_CMD_CAT_WRITE_CFG_BLK_RET_SZ C" "CY_COMMAND_COMPLETE_TIMEOUT P"]
  by (auto simp add: cyttsp4_write_config_block_def write_entry_def Let_def
      write_cfg_blk_cmd_split ENOMEM_def EINVAL_def split: prod.splits if_splits)

lemma read_config_block_cmds:
  assumes "keeps_cmds P"
    and "cyttsp4_read_config_block C P cd ebid row data len = (0, data', cd1)"
  shows "cmds cd1 = cmds cd @ [read_entry ebid (unat row) (unat len)]
    \<and> (\<exists>old. length old = unat len \<and> data' = old @ drop (unat len) data)"
proof -
  let ?sz = "CY_CMD_CAT_READ_CFG_BLK_RET_SZ + unat len"
  let ?e = "cyttsp4_exec_cmd P cd CY_MODE_CAT
      (hd (read_cfg_blk_cmd ebid row len)) (tl (read_cfg_blk_cmd ebid row len))
      (Some (replicate ?sz 0)) ?sz (CY_COMMAND_COMPLETE_TIMEOUT P)"
  obtain rc ret cd2 where e: "?e = (rc, ret, cd2)" by (cases ?e)
  have c: "cmds cd2 = cmds cd @ [read_entry ebid (unat row) (unat len)]"
    using e exec_cmd_cmds [OF assms(1), of cd CY_MODE_CAT
        "hd (read_cfg_blk_cmd ebid row len)" "tl (read_cfg_blk_cmd ebid row len)"
        "Some (replicate ?sz 0)" ?sz "CY_COMMAND_COMPLETE_TIMEOUT P"]
    by (simp add: read_entry_def read_cfg_blk_cmd_split)
  obtain b where b: "ret = Some b" "length b = ?sz"
    using e exec_cmd_buf [of "replicate ?sz 0" ?sz P cd CY_MODE_CAT
        "hd (read_cfg_blk_cmd ebid row len)" "tl (read_cfg_blk_cmd ebid row len)"
        "CY_COMMAND_COMPLETE_TIMEOUT P"]
    by auto
  have "length (take (unat len) (drop CY_CMD_CAT_READ_CFG_BLK_RET_HDR_SZ b)) = unat len"
    using b(2)
    by (simp add: CY_CMD_CAT_READ_CFG_BLK_RET_HDR_SZ_def CY_CMD_CAT_READ_CFG_BLK_RET_SZ_def)
  then show ?thesis
    using assms(2) e c b
    by (auto simp add: cyttsp4_read_config_block_def Let_def ENOMEM_def EINVAL_def
        split: if_splits)
qed

lemma unat_succ_below:
  assumes "(a :: u16) < b"
  shows "unat (a + 1) = unat a + 1"
proof -
  have "unat a < unat b" using assms by (simp add: word_less_nat_alt)
  moreover have "unat b < 2 ^ 16"
    using unsigned_less [of b, where ?'a = nat] by simp
  ultimately show ?thesis by (simp add: unat_word_ariths)
qed

lemma rows_step:
  assumes "(a :: nat) < r"
  shows "(r - (a + 1)) * n + n = (r - a) * n"
proof -
  obtain k where "r = a + 1 + k"
    using assms by (metis Suc_eq_plus1 less_eq_Suc_le le_Suc_ex)
  then show ?thesis by simp
qed

lemma write_whole_rows_cmds:
  shows "keeps_cmds P \<Longrightarrow>
     write_whole_rows C P cd ebid cur_block end_block data rs = (0, cur', data', cd') \<Longrightarrow>
     cmds cd' = cmds cd
        @ map (\<lambda>row. write_entry C ebid row (drop ((row - unat cur_block) * unat rs) data)
                       (unat rs))
            [unat cur_block ..< unat end_block]
     \<and> cur' = (if cur_block < end_block then end_block else cur_block)
     \<and> data' = drop ((unat end_block - unat cur_block) * unat rs) data"
proof (induction C P cd ebid cur_block end_block data rs rule: write_whole_rows.induct)
  case (1 C P cd ebid cur_block end_block data rs)
  note k = "1.prems"(1) and run = "1.prems"(2)
  show ?case
  proof (cases "cur_block < end_block")
    case False
    then have "unat end_block \<le> unat cur_block" by (simp add: word_less_nat_alt)
    with False run show ?thesis by simp
  next
    case True
    obtain rc cd1 where w: "cyttsp4_write_config_block C P cd ebid cur_block data rs = (rc, cd1)"
      by (cases "cyttsp4_write_config_block C P cd ebid cur_block data rs")
    have rc: "rc = 0"
      using run True w by (auto split: if_splits)
    have rest: "write_whole_rows C P cd1 ebid (cur_block + 1) end_block (drop (unat rs) data) rs
                = (0, cur', data', cd')"
      using run True w rc by simp
    have "cyttsp4_write_config_block C P cd ebid cur_block data rs = (0, cd1)"
      using w rc by simp
    then have c1: "cmds cd1 = cmds cd @ [write_entry C ebid (unat cur_block) data (unat rs)]"
      by (rule write_config_block_cmds [OF k])
    have lt: "unat cur_block < unat end_block" using True by (simp add: word_less_nat_alt)
    have s: "unat (cur_block + 1) = unat cur_block + 1" using True by (rule unat_succ_below)
    note ih = "1.IH" [OF True w [symmetric] _ k rest, simplified rc, simplified]
    have m: "map (\<lambda>row. write_entry C ebid row
                    (drop ((row - unat (cur_block + 1)) * unat rs) (drop (unat rs) data)) (unat rs))
               [unat (cur_block + 1) ..< unat end_block]
           = map (\<lambda>row. write_entry C ebid row (drop ((row - unat cur_block) * unat rs) data)
                    (unat rs))
               [unat cur_block + 1 ..< unat end_block]"
    proof (rule map_cong)
      show "[unat (cur_block + 1) ..< unat end_block] = [unat cur_block + 1 ..< unat end_block]"
        by (simp add: s)
    next
      fix row assume "row \<in> set [unat cur_block + 1 ..< unat end_block]"
      then have "unat cur_block < row" by simp
      then have "(row - unat (cur_block + 1)) * unat rs + unat rs = (row - unat cur_block) * unat rs"
        unfolding s by (rule rows_step)
      then show "write_entry C ebid row
                   (drop ((row - unat (cur_block + 1)) * unat rs) (drop (unat rs) data)) (unat rs)
               = write_entry C ebid row (drop ((row - unat cur_block) * unat rs) data) (unat rs)"
        by simp
    qed
    have u: "[unat cur_block ..< unat end_block] = unat cur_block # [unat cur_block + 1 ..< unat end_block]"
      using lt by (simp add: upt_conv_Cons)
    have d: "(unat end_block - unat (cur_block + 1)) * unat rs + unat rs
             = (unat end_block - unat cur_block) * unat rs"
      using lt unfolding s by (rule rows_step)
    have e: "(if cur_block + 1 < end_block then end_block else cur_block + 1) = end_block"
      using lt s by (auto simp add: word_less_nat_alt word_unat_eq_iff)
    have "cmds cd' = cmds cd1
        @ map (\<lambda>row. write_entry C ebid row (drop ((row - unat cur_block) * unat rs) data)
                       (unat rs))
            [unat cur_block + 1 ..< unat end_block]"
      using ih m by simp
    moreover have "cur' = end_block" using ih e by simp
    moreover have "data' = drop ((unat end_block - unat cur_block) * unat rs) data"
      using ih d by (simp add: add.commute)
    ultimately show ?thesis
      using c1 u True by simp
  qed
qed

lemma no_offset_cmds:
  assumes k: "keeps_cmds P"
    and run: "write_config_no_offset C P cd ebid cur_block end_block end_off data rs = (0, cd')"
  shows "cmds cd' = cmds cd
     @ map (\<lambda>row. write_entry C ebid row (drop ((row - unat cur_block) * unat rs) data)
                    (unat rs))
         [unat cur_block ..< unat end_block]
     @ (if unat cur_block \<le> unat end_block
        then [write_entry C ebid (unat end_block)
                (drop ((unat end_block - unat cur_block) * unat rs) data) (unat end_off)]
        else [])"
proof -
  obtain rc cur' data' cd1 where
    w: "write_whole_rows C P cd ebid cur_block end_block data rs = (rc, cur', data', cd1)"
    by (cases "write_whole_rows C P cd ebid cur_block end_block data rs")
  have rc: "rc = 0" using run w by (auto simp add: write_config_no_offset_def split: if_splits)
  note r = write_whole_rows_cmds [OF k w [unfolded rc]]
  show ?thesis
  proof (cases "unat cur_block \<le> unat end_block")
    case True
    then have "cur' = end_block"
      using r by (auto simp add: word_less_nat_alt word_unat_eq_iff)
    then have "cyttsp4_write_config_block C P cd1 ebid end_block data' end_off = (0, cd')"
      using run w rc by (simp add: write_config_no_offset_def)
    from write_config_block_cmds [OF k this] r True show ?thesis by simp
  next
    case False
    then have "cur' \<noteq> end_block"
      using r by (auto simp add: word_less_nat_alt)
    then have "cd' = cd1" using run w rc by (simp add: write_config_no_offset_def)
    with r False show ?thesis by simp
  qed
qed

lemma unat_of_nat_u16:
  assumes "n < 65536"
  shows "unat (of_nat n :: u16) = n"
  using assms by (simp add: unat_of_nat)

lemma length_bytes_from [simp]: "length (bytes_from data n) = n"
  by (simp add: bytes_from_def)

lemma bytes_from_prefix:
  assumes "length xs = n"
  shows "bytes_from (xs @ ys) n = xs"
  using assms by (simp add: bytes_from_def)

lemma write_entry_payload:
  assumes "bytes_from d1 (unat (of_nat n :: u16)) = bytes_from d2 (unat (of_nat n :: u16))"
  shows "write_entry C ebid row d1 n = write_entry C ebid row d2 n"
  using assms by (simp add: write_entry_def write_cfg_blk_cmd_def Let_def)

lemma write_config_common_cmds:
  assumes k: "keeps_cmds P"
    and rs: "cyttsp4_get_config_row_size C P cd = (0, rs, cd1)"
    and run: "cyttsp4_write_config_common C P cd ebid offset data len = Some (0, cd')"
    and fit: "(unat offset + unat len) div unat rs < 65536"
  shows "cmds cd' = cmds cd
           @ cfg_write_plan C ebid (unat rs) (unat offset) data (unat len)
               (row_front C P cd1 ebid rs offset)"
proof -
  let ?R = "unat rs"
  let ?b0 = "unat offset div ?R" and ?o0 = "unat offset mod ?R"
  let ?b1 = "(unat offset + unat len) div ?R" and ?o1 = "(unat offset + unat len) mod ?R"
  have rs0: "rs \<noteq> 0"
    using run rs by (auto simp add: cyttsp4_write_config_common_def)
  then have R: "0 < ?R" by (simp add: unat_gt_0)
  have Rb: "?R < 65536" using unsigned_less [of rs, where ?'a = nat] by simp
  have ob: "unat offset < 65536" using unsigned_less [of offset, where ?'a = nat] by simp
  have b0: "?b0 < 65536" using ob by (meson div_le_dividend le_less_trans)
  have o0: "?o0 < ?R" using R by simp
  have o1: "?o1 < ?R" using R by simp
  have le: "?b0 \<le> ?b1" by (simp add: div_le_mono)
  have ub0: "unat (of_nat ?b0 :: u16) = ?b0" using b0 by (rule unat_of_nat_u16)
  have ub1: "unat (of_nat ?b1 :: u16) = ?b1" using fit by (rule unat_of_nat_u16)
  have uo0: "unat (of_nat ?o0 :: u16) = ?o0" using o0 Rb by (intro unat_of_nat_u16) simp
  have uo1: "unat (of_nat ?o1 :: u16) = ?o1" using o1 Rb by (intro unat_of_nat_u16) simp
  have z0: "(of_nat ?o0 :: u16) = 0 \<longleftrightarrow> ?o0 = 0"
    using uo0 by (metis unat_0 word_unat_eq_iff)
  have eqb: "(of_nat ?b0 :: u16) = of_nat ?b1 \<longleftrightarrow> ?b0 = ?b1"
    using ub0 ub1 by (metis)
  have c1: "cmds cd1 = cmds cd @ [row_size_entry C]"
    using get_config_row_size_cmds [OF k rs] .
  show ?thesis
  proof (cases "?o0 = 0")
    case True
    have "write_config_no_offset C P cd1 ebid (of_nat ?b0) (of_nat ?b1) (of_nat ?o1) data rs
            = (0, cd')"
      using run rs rs0 True by (simp add: cyttsp4_write_config_common_def Let_def)
    from no_offset_cmds [OF k this]
    have "cmds cd' = cmds cd
            @ cfg_write_plan C ebid ?R (unat offset) data (unat len) []"
      using True le c1 by (simp add: cfg_write_plan_def Let_def ub0 ub1 uo1)
    with True show ?thesis by (simp add: row_front_def)
  next
    case False
    define copy_len where "copy_len = (if ?b0 = ?b1 then unat len else ?R - ?o0)"
    have nz: "(of_nat ?o0 :: u16) \<noteq> 0" using False z0 by simp
    let ?rd = "cyttsp4_read_config_block C P cd1 ebid (of_nat ?b0)
                 (replicate ?R 0) (of_nat ?o0)"
    obtain rcr row_data cd2 where rd: "?rd = (rcr, row_data, cd2)" by (cases ?rd)
    let ?row = "take ?o0 row_data @ bytes_from data copy_len @ drop (?o0 + copy_len) row_data"
    let ?wr = "cyttsp4_write_config_block C P cd2 ebid (of_nat ?b0) ?row
                 (of_nat (?o0 + copy_len))"
    obtain rcw cd3 where wr: "?wr = (rcw, cd3)" by (cases ?wr)
    have steps: "rcr = 0 \<and> rcw = 0
        \<and> write_config_no_offset C P cd3 ebid (of_nat ?b0 + 1) (of_nat ?b1) (of_nat ?o1)
              (drop copy_len data) rs = (0, cd')"
      using run rs rs0 nz rd wr
      by (auto simp add: cyttsp4_write_config_common_def Let_def copy_len_def uo0 eqb ENOMEM_def
          split: if_splits)
    have rd0: "?rd = (0, row_data, cd2)" using rd steps by simp
    from read_config_block_cmds [OF k rd0] obtain old where
      c2: "cmds cd2 = cmds cd1 @ [read_entry ebid ?b0 ?o0]"
      and old: "length old = ?o0" "row_data = old @ drop ?o0 (replicate ?R 0)"
      by (auto simp add: ub0 uo0)
    have wr0: "?wr = (0, cd3)" using wr steps by simp
    have two: "2 \<le> ?R" using False o0 by simp
    have sum: "?o0 + copy_len < 65536"
    proof (cases "?b0 = ?b1")
      case True
      have "?o0 + unat len = ?o1"
        using True R by (metis add.assoc div_mult_mod_eq add_left_cancel)
      with True o1 Rb show ?thesis by (simp add: copy_len_def)
    next
      case False
      with o0 Rb show ?thesis by (simp add: copy_len_def)
    qed
    have usum: "unat (of_nat (?o0 + copy_len) :: u16) = ?o0 + copy_len"
      using sum by (rule unat_of_nat_u16)
    have c3: "cmds cd3 = cmds cd2
        @ [write_entry C ebid ?b0 (old @ bytes_from data copy_len) (?o0 + copy_len)]"
    proof -
      have "cmds cd3 = cmds cd2 @ [write_entry C ebid ?b0 ?row (?o0 + copy_len)]"
        using write_config_block_cmds [OF k wr0] unfolding ub0 usum .
      moreover have "write_entry C ebid ?b0 ?row (?o0 + copy_len)
          = write_entry C ebid ?b0 (old @ bytes_from data copy_len) (?o0 + copy_len)"
      proof (rule write_entry_payload)
        have l: "length (old @ bytes_from data copy_len) = ?o0 + copy_len"
          using old(1) by simp
        have "?row = (old @ bytes_from data copy_len) @ drop (?o0 + copy_len) row_data"
          using old by simp
        then have "bytes_from ?row (?o0 + copy_len) = old @ bytes_from data copy_len"
          using bytes_from_prefix [OF l] by simp
        moreover have "bytes_from (old @ bytes_from data copy_len) (?o0 + copy_len)
                       = old @ bytes_from data copy_len"
          using bytes_from_prefix [OF l, of "[]"] by simp
        ultimately show "bytes_from ?row (unat (of_nat (?o0 + copy_len) :: u16))
            = bytes_from (old @ bytes_from data copy_len) (unat (of_nat (?o0 + copy_len) :: u16))"
          unfolding usum by simp
      qed
      ultimately show ?thesis by simp
    qed
    have b0': "?b0 + 1 < 65536"
    proof -
      have "?b0 * 2 \<le> ?b0 * ?R" using two by simp
      also have "\<dots> \<le> unat offset" by simp
      finally show ?thesis using ob by simp
    qed
    have "(of_nat ?b0 + 1 :: u16) = of_nat (?b0 + 1)" by simp
    then have ub0': "unat (of_nat ?b0 + 1 :: u16) = ?b0 + 1"
      using unat_of_nat_u16 [OF b0'] by (simp only:)
    note n = no_offset_cmds [OF k conjunct2 [OF conjunct2 [OF steps]], unfolded ub0' ub1 uo1]
    have "cmds cd' = cmds cd
            @ cfg_write_plan C ebid ?R (unat offset) data (unat len) old"
      using n c1 c2 c3 False
      by (simp add: cfg_write_plan_def Let_def copy_len_def)
    moreover have "row_front C P cd1 ebid rs offset = old"
      using old rd by (simp add: row_front_def)
    ultimately show ?thesis by simp
  qed
qed

lemma verify_crc_cmds:
  assumes "keeps_cmds P" and "cyttsp4_verify_config_block_crc C P cd ebid = (rc, n, s, cd1)"
  shows "cmds cd1 = cmds cd @ [verify_entry C ebid]"
  using assms(2) exec_cmd_cmds [OF assms(1), of cd CY_MODE_CAT CY_CMD_CAT_VERIFY_CFG_BLK_CRC
      "[ebid]" "Some (replicate (CY_CMD_CAT_VERIFY_CFG_BLK_CRC_RET_SZ C) 0)"
      "CY_CMD_CAT_VERIFY_CFG_BLK_CRC_RET_SZ C" "CY_COMMAND_COMPLETE_TIMEOUT P"]
  by (auto simp add: cyttsp4_verify_config_block_crc_def verify_entry_def Let_def
      split: prod.splits if_splits)

lemma plan_two_rows:
  "cfg_write_plan C ebid 128 100 data 60 old =
     [row_size_entry C, read_entry ebid 0 100,
      write_entry C ebid 0 (old @ bytes_from data 28) 128,
      write_entry C ebid 1 (drop 28 data) 32]"
  by (simp add: cfg_write_plan_def Let_def)

lemma config_length_ready:
  assumes "cyttsp4_get_config_length C P cd ebid = (0, conf_len, crc_offset, cd1)"
  shows "si_ready cd"
  using assms by (auto simp add: cyttsp4_get_config_length_def ENODEV_def split: if_splits)

text \<open>The interrupt handler issues no commands.\<close>

lemma handshake_cmds [simp]: "cmds (snd (cyttsp4_handshake P cd m)) = cmds cd"
  by (simp add: cyttsp4_handshake_def cyttsp4_adap_write_def Let_def split: prod.splits)

lemma irq_handshake_cmds [simp]: "cmds (cyttsp4_irq_handshake P cd md) = cmds cd"
proof (cases "cyttsp4_handshake P cd (md ! 0)")
  case (Pair rc cd1)
  then have "cmds cd1 = cmds cd" using handshake_cmds [of P cd "md ! 0"] by simp
  with Pair show ?thesis by (simp add: cyttsp4_irq_handshake_def)
qed

lemma queue_startup_cmds [simp]: "cmds (cyttsp4_queue_startup cd) = cmds cd"
  by (simp add: cyttsp4_queue_startup_def)

lemma call_atten_cmds [simp]: "cmds (call_atten_cb cd ty md) = cmds cd"
  by (simp add: call_atten_cb_def)

lemma deep_sleep_cmds [simp]:
  "cmds (snd (U_cyttsp4_put_device_into_deep_sleep P cd m)) = cmds cd"
  by (simp add: U_cyttsp4_put_device_into_deep_sleep_def cyttsp4_adap_write_def Let_def
      split: prod.splits)

lemma adap_read_cmds3: "cmds (snd (snd (cyttsp4_adap_read P cd a n))) = cmds cd"
  by (simp add: cyttsp4_adap_read_def Let_def split: prod.splits)

lemma load_regs_cmds [simp]:
  "cmds (snd (cyttsp4_load_status_and_touch_regs P cd opt)) = cmds cd"
  by (simp add: cyttsp4_load_status_and_touch_regs_def cyttsp4_adap_read_def Let_def
      split: prod.splits option.splits)

lemma irq_bootloader_cmds [simp]: "cmds (cyttsp4_irq_bootloader P cd md) = cmds cd"
  by (simp add: cyttsp4_irq_bootloader_def Let_def)

lemma irq_report_cmds [simp]: "cmds (cyttsp4_irq_report P cd md m) = cmds cd"
  by (simp add: cyttsp4_irq_report_def Let_def split: option.splits)

lemma irq_application_cmds [simp]: "cmds (cyttsp4_irq_application P cd md) = cmds cd"
  by (simp add: cyttsp4_irq_application_def Let_def)

lemma irq_cmds: "cmds (cyttsp4_irq P cd) = cmds cd"
  by (auto simp add: cyttsp4_irq_def cyttsp4_adap_read_def Let_def split: prod.splits)

lemma bench_cfg_keeps: "keeps_cmds bench_cfg"
  by (simp add: keeps_cmds_def bench_cfg_def irq_cmds)

text \<open>The bench of the configuration device, command by command.\<close>

lemma bench_cfg_exec:
  assumes "cfg_idle cd" and "n \<noteq> 0"
  shows "cyttsp4_exec_cmd bench_cfg cd CY_MODE_CAT cmd params (Some b) n 500 =
     (0, Some (take n (cfg_response (cmd AND 0x3F, params) @ replicate n 0)),
      after_exec cd cmd params n)"
  using assms
  by (cases "params = []")
    (simp_all add: cfg_idle_def exec_events_def after_exec_def
      U_cyttsp4_exec_cmd_def U_cyttsp4_wait_cmd_exec_def U_get_cmd_offs_def
      cyttsp4_exec_cmd_def exec_cmd_response_def
      wait_event_timeout_def cyttsp4_adap_read_def cyttsp4_adap_write_def cyttsp4_irq_def
      cyttsp4_irq_application_def cyttsp4_irq_report_def cyttsp4_irq_handshake_def
      cyttsp4_handshake_def call_atten_cb_def irq_cur_mode_def byte_at_def
      bench_def bench_cfg_def cfg_dev_def 
      Let_def EBUSY_def ETIME_def EACCES_def CY_CMD_OP_WAIT_FOR_EVENT_def)

lemma after_exec_idle [simp]: "cfg_idle (after_exec cd cmd params n) = cfg_idle cd"
  by (simp add: cfg_idle_def after_exec_def)

lemma after_exec_cmds [simp]:
  "cmds (after_exec cd cmd params n) = cmds cd @ [(CY_MODE_CAT, cmd # params, n)]"
  by (simp add: after_exec_def)

lemma bench_cfg_consts [simp]:
  "CY_COMMAND_COMPLETE_TIMEOUT bench_cfg = 500" "CY_CMD_STATUS_SUCCESS bench_cfg = 0"
  "stray_byte bench_cfg = 0"
  by (simp_all add: bench_cfg_def bench_def)

lemma bench_row_size:
  assumes "cfg_idle cd"
  shows "cyttsp4_get_config_row_size cfg_consts bench_cfg cd
      = (0, 128, after_exec cd CY_CMD_CAT_GET_CFG_ROW_SZ [] 2)"
  using assms
  by (simp add: cyttsp4_get_config_row_size_def cfg_consts_def bench_cfg_exec cfg_response_def
      CY_CMD_CAT_GET_CFG_ROW_SZ_def byte_at_def get_unaligned_be16_def)

lemma cd_cfg_idle: "cfg_idle cd_cfg"
  by (simp add: cfg_idle_def cd_cfg_def cd0_def)

lemma cfg_bench_consts [simp]:
  "CY_CMD_CAT_GET_CFG_ROW_SIZE_RET_SZ cfg_consts = 2" "CY_CMD_CAT_WRITE_CFG_BLK_RET_SZ cfg_consts = 5"
  "CY_CMD_CAT_VERIFY_CFG_BLK_CRC_RET_SZ cfg_consts = 5" "CY_CONFIG_LENGTH_INFO_SIZE cfg_consts = 4"
  "CY_CONFIG_LENGTH_INFO_OFFSET cfg_consts = 0" "CY_CONFIG_LENGTH_OFFSET cfg_consts = 0"
  "CY_CONFIG_MAXLENGTH_OFFSET cfg_consts = 2" "kmalloc_ok cfg_consts h n"
  "GET_FIELD16 cfg_consts b0 b1 = get_unaligned_be16 b1 b0"
  "PUT_FIELD16 cfg_consts v = [LO_BYTE v, HI_BYTE v]"
  by (simp_all add: cfg_consts_def)

lemma be16_hi_lo: "get_unaligned_be16 (HI_BYTE x) (LO_BYTE x) = x"
  unfolding get_unaligned_be16_def HI_BYTE_def LO_BYTE_def
  by (rule bit_word_eqI) (auto simp add: bit_simps)

lemma length_cfg_pattern [simp]: "length (cfg_pattern n) = n"
  by (simp add: cfg_pattern_def)

lemma bench_write_block:
  assumes "cfg_idle cd"
  shows "cyttsp4_write_config_block cfg_consts bench_cfg cd ebid row data len
      = (0, after_exec cd CY_CMD_CAT_WRITE_CFG_BLK
              (tl (write_cfg_blk_cmd ebid row data len)) 5)"
  using assms
  by (simp add: cyttsp4_write_config_block_def bench_cfg_exec cfg_response_def
      write_cfg_blk_cmd_def Let_def byte_at_def
      CY_CMD_CAT_WRITE_CFG_BLK_def CY_CMD_CAT_READ_CFG_BLK_def CY_CMD_CAT_GET_CFG_ROW_SZ_def)


lemma read_resp_shape:
  assumes "length pat = n"
  shows "take (7 + n) (a # b # c # d # e # pat @ h # l # zs) = a # b # c # d # e # pat @ [h, l]"
proof -
  have "take (7 + n) (a # b # c # d # e # R) = a # b # c # d # e # take (2 + n) R" for R :: "'a list"
    by (simp add: take_Cons')
  moreover have "take (2 + n) (pat @ h # l # zs) = pat @ [h, l]"
    using assms by simp
  ultimately show ?thesis by simp
qed

lemma crc_tail_nth:
  assumes "length pat = n"
  shows "(pat @ [h, l]) ! n = h" and "(pat @ [h, l]) ! Suc n = l"
  using assms by (auto simp add: nth_append)

lemma bench_read_block:
  assumes "cfg_idle cd"
  shows "cyttsp4_read_config_block cfg_consts bench_cfg cd ebid row data len
      = (0, cfg_pattern (unat len) @ drop (unat len) data,
         after_exec cd CY_CMD_CAT_READ_CFG_BLK (tl (read_cfg_blk_cmd ebid row len)) (7 + unat len))"
  using assms
  by (simp add: cyttsp4_read_config_block_def bench_cfg_exec cfg_response_def
      read_cfg_blk_cmd_def Let_def byte_at_def be16_hi_lo read_resp_shape crc_tail_nth
      CY_CMD_CAT_READ_CFG_BLK_RET_SZ_def CY_CMD_CAT_READ_CFG_BLK_RET_HDR_SZ_def
      CY_CMD_CAT_WRITE_CFG_BLK_def CY_CMD_CAT_READ_CFG_BLK_def CY_CMD_CAT_GET_CFG_ROW_SZ_def)

lemma cfg_pattern_4: "cfg_pattern 4 = [0x11, 0x22, 0x33, 0x44]"
  by (simp add: cfg_pattern_def upt_rec)

lemma bench_length:
  assumes "cfg_idle cd"
  shows "cyttsp4_get_config_length cfg_consts bench_cfg cd 0
      = (0, 0x2211, 0x4433,
         after_exec cd CY_CMD_CAT_READ_CFG_BLK (tl (read_cfg_blk_cmd 0 0 4)) 11)"
  using assms
  by (simp add: cyttsp4_get_config_length_def bench_read_block cfg_idle_def cfg_pattern_4
      byte_at_def get_unaligned_be16_def)

lemma bench_verify:
  assumes "cfg_idle cd"
  shows "cyttsp4_verify_config_block_crc cfg_consts bench_cfg cd 0
      = (0, 0xBEEF, 0x1234, after_exec cd CY_CMD_CAT_VERIFY_CFG_BLK_CRC [0] 5)"
  using assms
  by (simp add: cyttsp4_verify_config_block_crc_def bench_cfg_exec cfg_response_def
      byte_at_def get_unaligned_be16_def CY_CMD_CAT_VERIFY_CFG_BLK_CRC_def
      CY_CMD_CAT_WRITE_CFG_BLK_def CY_CMD_CAT_READ_CFG_BLK_def CY_CMD_CAT_GET_CFG_ROW_SZ_def)

lemma bench_two_rows:
  assumes "cfg_idle cd"
  shows "cyttsp4_write_config_common cfg_consts bench_cfg cd 0 100 new_cfg 60
     = Some (0, cfg_written cd)"
  using assms
  by (simp add: cyttsp4_write_config_common_def bench_row_size bench_read_block
      bench_write_block write_config_no_offset_def Let_def cfg_written_def)

lemma cfg_written_idle [simp]: "cfg_idle (cfg_written cd) = cfg_idle cd"
  by (simp add: cfg_written_def)

lemma cfg_written_cmds:
  "cmds (cfg_written cd) = cmds cd
     @ [row_size_entry cfg_consts, read_entry 0 0 100,
        write_entry cfg_consts 0 0 (cfg_pattern 100 @ bytes_from new_cfg 28) 128,
        write_entry cfg_consts 0 1 (drop 28 new_cfg) 32]"
  using read_cfg_blk_cmd_split [of 0 0 100]
    write_cfg_blk_cmd_split [of 0 0 "cfg_pattern 100 @ bytes_from new_cfg 28" 128]
    write_cfg_blk_cmd_split [of 0 1 "drop 28 new_cfg" 32]
  by (simp add: cfg_written_def row_size_entry_def read_entry_def write_entry_def
      CY_CMD_CAT_READ_CFG_BLK_RET_SZ_def read_cfg_blk_cmd_def write_cfg_blk_cmd_def Let_def)

lemma bench_row_front:
  assumes "cfg_idle cd"
  shows "row_front cfg_consts bench_cfg cd 0 128 100 = cfg_pattern 100"
  using assms by (simp add: row_front_def bench_read_block)

text \<open>
  C5, as stated, fails in its general part: on the bench with rows of 128 bytes, the write
  of 60 bytes at offset 100 enters row 0 and leaves row 1 inside the row, and the only
  read is that of the first 100 bytes of row 0; the first 32 bytes of row 1 are written
  with no read of row 1, and no row is read in full.
\<close>

theorem config_write_last_row_counterexample:
  "cyttsp4_write_config_common cfg_consts bench_cfg cd_cfg 0 100 new_cfg 60
      = Some (0, cfg_written cd_cfg)
   \<and> cmds (cfg_written cd_cfg)
      = [row_size_entry cfg_consts, read_entry 0 0 100,
         write_entry cfg_consts 0 0 (cfg_pattern 100 @ bytes_from new_cfg 28) 128,
         write_entry cfg_consts 0 1 (drop 28 new_cfg) 32]
   \<and> partial_rows 128 100 60 = [0, 1]
   \<and> cfg_reads (cmds (cfg_written cd_cfg)) = [(0, 100)]"
proof -
  have c: "cmds cd_cfg = []" by (simp add: cd_cfg_def cd0_def)
  have r: "cfg_reads [row_size_entry cfg_consts, read_entry 0 0 100,
         write_entry cfg_consts 0 0 (cfg_pattern 100 @ bytes_from new_cfg 28) 128,
         write_entry cfg_consts 0 1 (drop 28 new_cfg) 32] = [(0, 100)]"
    by (simp add: cfg_reads_def is_cfg_read_def cfg_read_of_def row_size_entry_def
        read_entry_def write_entry_def read_cfg_blk_cmd_def write_cfg_blk_cmd_def Let_def
        be16_hi_lo CY_CMD_CAT_WRITE_CFG_BLK_def CY_CMD_CAT_READ_CFG_BLK_def
        CY_CMD_CAT_GET_CFG_ROW_SZ_def)
  have p: "partial_rows 128 100 60 = [0, 1]" by (simp add: partial_rows_def)
  show ?thesis
    using bench_two_rows [OF cd_cfg_idle] cfg_written_cmds [of cd_cfg] c r p by simp
qed

text \<open>
  C5, amended. A configuration write whose steps succeed issues, in this order: the row
  size command; when the write starts inside a row, one read of that row up to the
  offset and one write of the row from its start, the bytes read in front and the new
  bytes behind; one write of a whole row for every following row before the last; and
  one write of the last row from its start up to the end offset, with no read. With a
  row size of 128, offset 100 and length 60 these are the read of the first 100 bytes of
  row 0, the write of the 128 bytes of row 0 (offsets 100 to 127 being new) and the write
  of the first 32 bytes of row 1 (offsets 128 to 159). Then the device verifies the CRC
  of the block, and the CRC field is written, with the calculated CRC, only when the
  calculated and the stored CRC differ.
\<close>

theorem config_write_rows_and_crc:
  assumes k: "keeps_cmds P"
    and ln: "cyttsp4_get_config_length C P cd ebid = (0, conf_len, crc_offset, cd1)"
    and room: "unat offset + unat len \<le> unat crc_offset + 2"
    and rs: "cyttsp4_get_config_row_size C P cd1 = (0, rs, cdr)"
    and fit: "(unat offset + unat len) div unat rs < 65536"
    and wr: "cyttsp4_write_config_common C P cd1 ebid offset data len = Some (0, cd2)"
    and vf: "cyttsp4_verify_config_block_crc C P cd2 ebid = (0, crc_new, crc_old, cd3)"
  shows "cmds cd2 = cmds cd1
           @ cfg_write_plan C ebid (unat rs) (unat offset) data (unat len)
               (row_front C P cdr ebid rs offset)
     \<and> (rs = 128 \<and> offset = 100 \<and> len = 60 \<longrightarrow>
          cmds cd2 = cmds cd1
            @ [row_size_entry C, read_entry ebid 0 100,
               write_entry C ebid 0 (row_front C P cdr ebid rs offset @ bytes_from data 28) 128,
               write_entry C ebid 1 (drop 28 data) 32])
     \<and> cmds cd3 = cmds cd2 @ [verify_entry C ebid]
     \<and> cyttsp4_write_config C P cd ebid offset data len =
         (if crc_new = crc_old then Some (0, cd3)
          else cyttsp4_write_config_common C P cd3 ebid crc_offset
                 (bytes_from (PUT_FIELD16 C crc_new) 2) 2)"
proof -
  note plan = write_config_common_cmds [OF k rs wr fit]
  have two: "cmds cd2 = cmds cd1
            @ [row_size_entry C, read_entry ebid 0 100,
               write_entry C ebid 0 (row_front C P cdr ebid rs offset @ bytes_from data 28) 128,
               write_entry C ebid 1 (drop 28 data) 32]"
    if "rs = 128 \<and> offset = 100 \<and> len = 60"
    using plan that by (simp add: plan_two_rows)
  have v: "cmds cd3 = cmds cd2 @ [verify_entry C ebid]"
    using verify_crc_cmds [OF k vf] .
  have top: "cyttsp4_write_config C P cd ebid offset data len =
         (if crc_new = crc_old then Some (0, cd3)
          else cyttsp4_write_config_common C P cd3 ebid crc_offset
                 (bytes_from (PUT_FIELD16 C crc_new) 2) 2)"
    using config_length_ready [OF ln] ln room wr vf
    by (simp add: cyttsp4_write_config_def)
  from plan two v top show ?thesis by blast
qed

text \<open>
  On the bench the calculated CRC \<open>BEEF\<close> differs from the stored \<open>1234\<close>, so the write
  ends with the write of the two CRC bytes at the maximum length \<open>4433\<close>.
\<close>

theorem config_write_rows_and_crc_witness:
  "cmds cfg_run2 = cmds cfg_run1
      @ [row_size_entry cfg_consts, read_entry 0 0 100,
         write_entry cfg_consts 0 0 (cfg_pattern 100 @ bytes_from new_cfg 28) 128,
         write_entry cfg_consts 0 1 (drop 28 new_cfg) 32]
   \<and> cmds cfg_run3 = cmds cfg_run2 @ [verify_entry cfg_consts 0]
   \<and> cyttsp4_write_config cfg_consts bench_cfg cd_cfg 0 100 new_cfg 60
       = cyttsp4_write_config_common cfg_consts bench_cfg cfg_run3 0 0x4433 [0xEF, 0xBE] 2"
proof -
  have i1: "cfg_idle cfg_run1" by (simp add: cfg_run1_def cd_cfg_idle)
  have i2: "cfg_idle cfg_run2" by (simp add: cfg_run2_def i1)
  have ln: "cyttsp4_get_config_length cfg_consts bench_cfg cd_cfg 0
      = (0, 0x2211, 0x4433, cfg_run1)"
    using bench_length [OF cd_cfg_idle] by (simp add: cfg_run1_def)
  have room: "unat (100 :: u16) + unat (60 :: u16) \<le> unat (0x4433 :: u16) + 2" by simp
  have fit: "(unat (100 :: u16) + unat (60 :: u16)) div unat (128 :: u16) < 65536" by simp
  have wr: "cyttsp4_write_config_common cfg_consts bench_cfg cfg_run1 0 100 new_cfg 60
      = Some (0, cfg_run2)"
    using bench_two_rows [OF i1] by (simp add: cfg_run2_def)
  have vf: "cyttsp4_verify_config_block_crc cfg_consts bench_cfg cfg_run2 0
      = (0, 0xBEEF, 0x1234, cfg_run3)"
    using bench_verify [OF i2] by (simp add: cfg_run3_def)
  have front: "row_front cfg_consts bench_cfg
      (after_exec cfg_run1 CY_CMD_CAT_GET_CFG_ROW_SZ [] 2) 0 128 100 = cfg_pattern 100"
    by (rule bench_row_front) (simp add: i1)
  have crc: "bytes_from [LO_BYTE 0xBEEF, HI_BYTE 0xBEEF] 2 = [0xEF, 0xBE]"
    by (simp add: bytes_from_def HI_BYTE_def LO_BYTE_def)
  note t = config_write_rows_and_crc [OF bench_cfg_keeps ln room bench_row_size [OF i1] fit wr vf]
  show ?thesis using t by (simp add: front crc plan_two_rows)
qed

section \<open>Exclusive access\<close>















end
